(* ===== verification/Go_Prelude.thy ===== *)
theory Go_Prelude
  imports Main "HOL-Library.Sublist" "HOL-Library.Code_Target_Numeral"
begin

text \<open>
  The part of the Go standard library that \<open>src/main.go\<close> relies on, as HOL
  functions over byte strings: Go's \<open>string\<close> is a byte sequence, and an
  Isabelle \<open>char\<close> is a byte, so \<open>string\<close> models it exactly.  Modelled here:
  \<open>strings.HasPrefix\<close>, \<open>strings.Contains\<close>, \<open>strings.Split\<close> with a one-byte
  separator, \<open>strings.ReplaceAll\<close> (including the empty-needle case, which
  inserts at every UTF-8 rune boundary), \<open>utf8.DecodeRuneInString\<close>,
  \<open>string(rune)\<close>, \<open>strconv.Itoa\<close>, \<open>strconv.Atoi\<close> (with the round trip
  \<open>Atoi (Itoa i) = i\<close> on \<open>int64\<close>), \<open>strconv.ParseInt(s, 16, 32)\<close>, and
  which of the program's API URLs \<open>http.NewRequest\<close> rejects.
  The theory also declares the named collections that the component theories
  fill, and the generic lemmas they share.
\<close>

named_theorems go_string_simps "evaluation rules of the Go string model"
named_theorems world_simps "frame rules of the program state"

type_synonym go_map = "string \<rightharpoonup> string"

section \<open>Prefix and substring tests\<close>

fun go_has_prefix :: "string \<Rightarrow> string \<Rightarrow> bool" where
  "go_has_prefix s [] = True"
| "go_has_prefix [] (p # ps) = False"
| "go_has_prefix (c # cs) (p # ps) = (c = p \<and> go_has_prefix cs ps)"

text \<open>\<open>strings.Contains(s, sub)\<close>: \<open>Index(s, sub) >= 0\<close>, true for the empty needle.\<close>

fun go_contains :: "string \<Rightarrow> string \<Rightarrow> bool" where
  "go_contains [] sub = (sub = [])"
| "go_contains (c # cs) sub = (go_has_prefix (c # cs) sub \<or> go_contains cs sub)"

section \<open>Splitting at a one-byte separator\<close>

text \<open>
  \<open>strings.Split(s, sep)\<close> for a one-byte \<open>sep\<close>: the pieces between the
  occurrences of \<open>sep\<close>, so \<open>n\<close> occurrences give \<open>n + 1\<close> pieces and the empty
  string gives one empty piece.  Both calls in the program (\<open>":"\<close> and \<open>"\n"\<close>)
  have a one-byte separator.
\<close>

fun go_split :: "char \<Rightarrow> string \<Rightarrow> string list" where
  "go_split c [] = [[]]"
| "go_split c (x # xs) =
     (let ps = go_split c xs in if x = c then [] # ps else (x # hd ps) # tl ps)"

fun go_join :: "char \<Rightarrow> string list \<Rightarrow> string" where
  "go_join c [] = []"
| "go_join c [p] = p"
| "go_join c (p # q # ps) = p @ c # go_join c (q # ps)"

section \<open>UTF-8\<close>

text \<open>
  \<open>utf8.DecodeRuneInString\<close>: the first rune of a byte string and its width.
  An invalid or truncated sequence decodes as \<open>U+FFFD\<close> of width 1; the empty
  string has width 0.  The accepted second-byte ranges follow Go's
  \<open>acceptRanges\<close> table (no overlong forms, no surrogates, nothing past
  \<open>U+10FFFF\<close>).
\<close>

definition utf8_seq_len :: "nat \<Rightarrow> nat" where
  "utf8_seq_len b =
     (if b < 0x80 then 1 else if b < 0xC2 then 0 else if b < 0xE0 then 2
      else if b < 0xF0 then 3 else if b < 0xF5 then 4 else 0)"

definition accept_lo :: "nat \<Rightarrow> nat" where
  "accept_lo b = (if b = 0xE0 then 0xA0 else if b = 0xF0 then 0x90 else 0x80)"

definition accept_hi :: "nat \<Rightarrow> nat" where
  "accept_hi b = (if b = 0xED then 0x9F else if b = 0xF4 then 0x8F else 0xBF)"

definition rune_error :: int where
  "rune_error = 0xFFFD"

definition is_cont :: "char \<Rightarrow> bool" where
  "is_cont c \<longleftrightarrow> (0x80::nat) \<le> of_char c \<and> of_char c \<le> (0xBF::nat)"

fun utf8_decode :: "string \<Rightarrow> int \<times> nat" where
  "utf8_decode [] = (rune_error, 0)"
| "utf8_decode (c0 # cs) =
     (let b0 = of_char c0; sz = utf8_seq_len b0 in
      if sz = 1 then (int b0, 1)
      else if sz = 0 \<or> length cs < sz - 1 then (rune_error, 1)
      else let b1 = of_char (cs ! 0) :: nat in
      if b1 < accept_lo b0 \<or> accept_hi b0 < b1 then (rune_error, 1)
      else if sz = 2 then (int ((b0 mod 32) * 64 + b1 mod 64), 2)
      else if \<not> is_cont (cs ! 1) then (rune_error, 1)
      else let b2 = of_char (cs ! 1) :: nat in
      if sz = 3 then (int ((b0 mod 16) * 4096 + (b1 mod 64) * 64 + b2 mod 64), 3)
      else if \<not> is_cont (cs ! 2) then (rune_error, 1)
      else let b3 = of_char (cs ! 2) :: nat in
        (int ((b0 mod 8) * 262144 + (b1 mod 64) * 4096 + (b2 mod 64) * 64 + b3 mod 64), 4))"

definition rune_width :: "string \<Rightarrow> nat" where
  "rune_width s = snd (utf8_decode s)"

lemma utf8_decode_width_pos: "s \<noteq> [] \<Longrightarrow> 0 < snd (utf8_decode s)"
  by (cases s) (auto simp: Let_def)

lemma utf8_decode_width_le: "snd (utf8_decode s) \<le> length s"
proof (cases s)
  case (Cons c cs)
  then show ?thesis
    by (cases cs) (auto simp: Let_def utf8_seq_len_def Suc_le_eq)
qed simp

text \<open>The runes of a string, as the byte groups \<open>for range\<close> and
  \<open>ReplaceAll\<close> step over.\<close>

function go_runes :: "string \<Rightarrow> string list" where
  "go_runes s = (if s = [] then [] else take (rune_width s) s # go_runes (drop (rune_width s) s))"
  by pat_completeness auto
termination
  by (relation "measure length") (auto simp: rune_width_def utf8_decode_width_pos)

declare go_runes.simps [simp del]

lemma go_runes_Nil [simp]: "go_runes [] = []"
  by (simp add: go_runes.simps)

lemma concat_go_runes: "concat (go_runes s) = s"
proof (induction s rule: go_runes.induct)
  case (1 s)
  then show ?case by (subst go_runes.simps) auto
qed

text \<open>
  \<open>string(rune(r))\<close>: UTF-8 encoding; a negative value, a surrogate or a value
  past \<open>U+10FFFF\<close> becomes \<open>U+FFFD\<close> (\<open>utf8.EncodeRune\<close>).
\<close>

definition valid_rune :: "int \<Rightarrow> bool" where
  "valid_rune r \<longleftrightarrow> 0 \<le> r \<and> r \<le> 0x10FFFF \<and> \<not> (0xD800 \<le> r \<and> r \<le> 0xDFFF)"

definition utf8_encode_nat :: "nat \<Rightarrow> string" where
  "utf8_encode_nat n =
     (if n < 0x80 then [char_of n]
      else if n < 0x800 then [char_of (0xC0 + n div 64), char_of (0x80 + n mod 64)]
      else if n < 0x10000 then
        [char_of (0xE0 + n div 4096), char_of (0x80 + (n div 64) mod 64), char_of (0x80 + n mod 64)]
      else [char_of (0xF0 + n div 262144), char_of (0x80 + (n div 4096) mod 64),
            char_of (0x80 + (n div 64) mod 64), char_of (0x80 + n mod 64)])"

definition go_string_of_rune :: "int \<Rightarrow> string" where
  "go_string_of_rune r = utf8_encode_nat (nat (if valid_rune r then r else rune_error))"

section \<open>Replacing every occurrence\<close>

text \<open>
  \<open>strings.ReplaceAll(s, old, new)\<close>.  For a non-empty \<open>old\<close> the leftmost
  occurrences are replaced, without overlap; for the empty \<open>old\<close> Go inserts
  \<open>new\<close> before every rune and at the end; when \<open>old = new\<close> the string is
  returned unchanged.
\<close>

lemma go_has_prefix_length: "go_has_prefix s p \<Longrightarrow> length p \<le> length s"
  by (induction s p rule: go_has_prefix.induct) auto

lemma go_has_prefix_iff: "go_has_prefix s p \<longleftrightarrow> prefix p s"
  by (induction s p rule: go_has_prefix.induct) auto

function replace_ne :: "string \<Rightarrow> string \<Rightarrow> string \<Rightarrow> string" where
  "replace_ne old new s =
     (if old \<noteq> [] \<and> go_has_prefix s old then new @ replace_ne old new (drop (length old) s)
      else case s of [] \<Rightarrow> [] | c # cs \<Rightarrow> c # replace_ne old new cs)"
  by pat_completeness auto
termination
  by (relation "measure (\<lambda>(old, new, s). length s)") (auto dest!: go_has_prefix_length intro!: diff_less)

declare replace_ne.simps [simp del]

definition go_replace_all :: "string \<Rightarrow> string \<Rightarrow> string \<Rightarrow> string" where
  "go_replace_all s old new =
     (if old = new then s
      else if old = [] then new @ concat (map (\<lambda>r. r @ new) (go_runes s))
      else replace_ne old new s)"

section \<open>Integers as text\<close>

definition dec_digit :: "nat \<Rightarrow> char" where
  "dec_digit d = char_of (48 + d)"

fun nat_to_dec :: "nat \<Rightarrow> string" where
  "nat_to_dec n = (if n < 10 then [dec_digit n] else nat_to_dec (n div 10) @ [dec_digit (n mod 10)])"

declare nat_to_dec.simps [simp del]

text \<open>\<open>strconv.Itoa\<close>, \<open>FormatInt(i, 10)\<close> and the verb \<open>%d\<close>.\<close>

definition go_itoa :: "int \<Rightarrow> string" where
  "go_itoa i = (if i < 0 then CHR ''-'' # nat_to_dec (nat (- i)) else nat_to_dec (nat i))"

datatype num_error = Err_syntax | Err_range

definition is_digit :: "char \<Rightarrow> bool" where
  "is_digit c \<longleftrightarrow> (48::nat) \<le> of_char c \<and> of_char c \<le> (57::nat)"

definition digit_val :: "char \<Rightarrow> nat" where
  "digit_val c = of_char c - 48"

definition dec_value :: "string \<Rightarrow> nat" where
  "dec_value ds = foldl (\<lambda>n c. 10 * n + digit_val c) 0 ds"

text \<open>\<open>strconv.Atoi\<close> on a 64-bit platform: an optional sign, then one or more
  decimal digits, the value in the range of \<open>int64\<close>.\<close>

definition go_atoi :: "string \<Rightarrow> num_error + int" where
  "go_atoi s =
     (let (neg, ds) = (case s of
                         c # r \<Rightarrow> if c = CHR ''-'' then (True, r) else if c = CHR ''+'' then (False, r) else (False, s)
                       | [] \<Rightarrow> (False, []))
      in if ds = [] \<or> \<not> list_all is_digit ds then Inl Err_syntax
         else (let n = int (dec_value ds)
               in if neg then (if 2 ^ 63 < n then Inl Err_range else Inr (- n))
                  else (if 2 ^ 63 - 1 < n then Inl Err_range else Inr n)))"

definition hex_digit :: "char \<Rightarrow> nat option" where
  "hex_digit c =
     (let b = of_char c :: nat in
      if 48 \<le> b \<and> b \<le> 57 then Some (b - 48)
      else if 97 \<le> b \<and> b \<le> 102 then Some (b - 87)
      else if 65 \<le> b \<and> b \<le> 70 then Some (b - 55)
      else None)"

text \<open>
  The digit loop of \<open>strconv.ParseUint(s, 16, 32)\<close>: a non-digit is a syntax
  error, a value past \<open>2^32 - 1\<close> a range error, whichever comes first.
\<close>

fun parse_uint_hex :: "nat \<Rightarrow> string \<Rightarrow> num_error + nat" where
  "parse_uint_hex n [] = Inr n"
| "parse_uint_hex n (c # cs) =
     (case hex_digit c of
        None \<Rightarrow> Inl Err_syntax
      | Some d \<Rightarrow> if 2 ^ 32 - 1 < n * 16 + d then Inl Err_range else parse_uint_hex (n * 16 + d) cs)"

text \<open>\<open>strconv.ParseInt(s, 16, 32)\<close>: an optional sign, then the unsigned digits,
  then the signed 32-bit range check.\<close>

definition go_parse_int_hex32 :: "string \<Rightarrow> num_error + int" where
  "go_parse_int_hex32 s =
     (if s = [] then Inl Err_syntax
      else let neg = (hd s = CHR ''-'');
               digits = (if hd s = CHR ''+'' \<or> hd s = CHR ''-'' then tl s else s) in
      if digits = [] then Inl Err_syntax
      else case parse_uint_hex 0 digits of
        Inl e \<Rightarrow> Inl e
      | Inr un \<Rightarrow>
          if \<not> neg \<and> 2 ^ 31 \<le> un then Inl Err_range
          else if neg \<and> 2 ^ 31 < un then Inl Err_range
          else Inr (if neg then - int un else int un))"

section \<open>Building a request\<close>

text \<open>
  \<open>http.NewRequest("GET", u, nil)\<close> fails exactly when \<open>url.Parse(u)\<close> does, and
  returns a \<open>nil\<close> request then.  Every Slack API URL the program builds is a
  fixed \<open>https://slack.com/api/METHOD?\<close> prefix followed by a query assembled
  from IDs, timestamps and cursors.  On such a URL \<open>Parse\<close> cuts at the first
  \<open>#\<close> and can fail in two ways only: a control byte (below 0x20, or 0x7f)
  before the cut (\<open>parse\<close>, \<open>stringContainsCTLByte\<close>), or a \<open>%\<close> after it that
  is not followed by two hexadecimal digits (\<open>setFragment\<close>, \<open>unescape\<close> in
  fragment mode).  The scheme, host and path are the fixed ones and the query is
  kept raw, so nothing else is checked.
\<close>

definition go_ctl_byte :: "char \<Rightarrow> bool" where
  "go_ctl_byte c \<longleftrightarrow> of_char c < (32::nat) \<or> of_char c = (127::nat)"

fun go_unescape_ok :: "string \<Rightarrow> bool" where
  "go_unescape_ok [] = True"
| "go_unescape_ok (c # s) =
     (if c = CHR ''%'' then
        (case s of
           a # b # r \<Rightarrow> hex_digit a \<noteq> None \<and> hex_digit b \<noteq> None \<and> go_unescape_ok r
         | _ \<Rightarrow> False)
      else go_unescape_ok s)"

definition go_new_request_ok :: "string \<Rightarrow> bool" where
  "go_new_request_ok u =
     (let before = takeWhile (\<lambda>c. c \<noteq> CHR ''#'') u;
          frag = drop (Suc (length before)) u
      in list_all (\<lambda>c. \<not> go_ctl_byte c) before \<and> go_unescape_ok frag)"

section \<open>Lemmas on the string model\<close>

lemma go_split_nonempty [simp]: "go_split c s \<noteq> []"
  by (induction s) (auto simp: Let_def)

lemma go_join_split [simp]: "go_join c (go_split c s) = s"
proof (induction s)
  case (Cons x xs)
  then show ?case
    by (cases "go_split c xs" rule: list.exhaust; cases "tl (go_split c xs)")
       (auto simp: Let_def)
qed simp

lemma go_split_no_sep: "p \<in> set (go_split c s) \<Longrightarrow> c \<notin> set p"
proof (induction s arbitrary: p)
  case (Cons x xs)
  then show ?case
    by (cases "go_split c xs") (auto simp: Let_def split: if_splits)
qed simp

lemma go_split_free [simp]: "c \<notin> set s \<Longrightarrow> go_split c s = [s]"
  by (induction s) (auto simp: Let_def)

lemma replace_ne_Nil [simp]: "replace_ne old new [] = []"
  by (subst replace_ne.simps) (cases old, auto)

lemma replace_ne_old [simp]:
  "old \<noteq> [] \<Longrightarrow> replace_ne old new (old @ s) = new @ replace_ne old new s"
  by (subst replace_ne.simps) (simp add: go_has_prefix_iff)

lemma replace_ne_Cons_other:
  "old \<noteq> [] \<Longrightarrow> x \<noteq> hd old \<Longrightarrow> replace_ne old new (x # s) = x # replace_ne old new s"
  by (subst replace_ne.simps) (cases old, auto)

lemma replace_ne_free [simp]:
  "old \<noteq> [] \<Longrightarrow> hd old \<notin> set s \<Longrightarrow> replace_ne old new s = s"
  by (induction s) (auto simp: replace_ne_Cons_other)

lemma go_replace_all_free [go_string_simps]:
  "old \<noteq> [] \<Longrightarrow> hd old \<notin> set s \<Longrightarrow> go_replace_all s old new = s"
  by (simp add: go_replace_all_def)

lemma go_replace_all_empty_needle [go_string_simps]:
  "new \<noteq> [] \<Longrightarrow> go_replace_all s [] new = new @ concat (map (\<lambda>r. r @ new) (go_runes s))"
  by (simp add: go_replace_all_def)

text \<open>Closed terms of the string model evaluate by \<open>simp\<close> with these rules:
  \<open>char_of_eq_iff\<close> turns \<open>char_of\<close> of a numeral into a byte literal.\<close>

declare char_of_eq_iff [go_string_simps] utf8_encode_nat_def [go_string_simps]
  go_string_of_rune_def [go_string_simps] valid_rune_def [go_string_simps]

section \<open>Hexadecimal round trip\<close>

definition hex_char :: "nat \<Rightarrow> char" where
  "hex_char d = (if d < 10 then char_of (48 + d) else char_of (55 + d))"

fun nat_to_hex :: "nat \<Rightarrow> string" where
  "nat_to_hex n = (if n < 16 then [hex_char n] else nat_to_hex (n div 16) @ [hex_char (n mod 16)])"

declare hex_char_def [go_string_simps]

declare nat_to_hex.simps [simp del]

lemma hex_digit_hex_char [simp]: "d < 16 \<Longrightarrow> hex_digit (hex_char d) = Some d"
  by (simp add: hex_char_def hex_digit_def Let_def)

lemma hex_char_not_sign:
  "d < 16 \<Longrightarrow> hex_char d \<noteq> CHR ''+'' \<and> hex_char d \<noteq> CHR ''-'' \<and> hex_char d \<noteq> CHR ''&'' \<and> hex_char d \<noteq> CHR '';''"
  by (auto simp: hex_char_def char_of_eq_iff take_bit_eq_mod)

lemma nat_to_hex_nonempty [simp]: "nat_to_hex n \<noteq> []"
  by (subst nat_to_hex.simps) simp

lemma nat_to_hex_chars: "c \<in> set (nat_to_hex n) \<Longrightarrow> \<exists>d < 16. c = hex_char d"
proof (induction n rule: nat_to_hex.induct)
  case (1 n)
  show ?case
  proof (cases "n < 16")
    case True
    with "1.prems" show ?thesis by (subst (asm) nat_to_hex.simps) auto
  next
    case False
    with "1.prems" have "c \<in> set (nat_to_hex (n div 16)) \<or> c = hex_char (n mod 16)"
      by (subst (asm) nat_to_hex.simps) auto
    then show ?thesis
      using "1.IH" False by (metis mod_less_divisor zero_less_numeral)
  qed
qed

lemma parse_uint_hex_append:
  "parse_uint_hex n (xs @ ys) = (case parse_uint_hex n xs of Inl e \<Rightarrow> Inl e | Inr m \<Rightarrow> parse_uint_hex m ys)"
  by (induction n xs rule: parse_uint_hex.induct) (auto split: option.splits)

lemma parse_nat_to_hex: "n < 2 ^ 32 \<Longrightarrow> parse_uint_hex 0 (nat_to_hex n) = Inr n"
proof (induction n rule: nat_to_hex.induct)
  case (1 n)
  show ?case
  proof (cases "n < 16")
    case True
    then show ?thesis by (subst nat_to_hex.simps) simp
  next
    case False
    with "1.prems" have "parse_uint_hex 0 (nat_to_hex (n div 16)) = Inr (n div 16)"
      by (intro "1.IH") auto
    moreover have "n div 16 * 16 + n mod 16 = n" by simp
    ultimately show ?thesis
      using False "1.prems" by (subst nat_to_hex.simps) (simp add: parse_uint_hex_append)
  qed
qed

lemma go_parse_int_hex32_nat_to_hex [go_string_simps]:
  "n < 2 ^ 31 \<Longrightarrow> go_parse_int_hex32 (nat_to_hex n) = Inr (int n)"
proof -
  assume n: "n < 2 ^ 31"
  obtain c cs where hx: "nat_to_hex n = c # cs"
    by (cases "nat_to_hex n") auto
  then have "c \<noteq> CHR ''+'' \<and> c \<noteq> CHR ''-''"
    using nat_to_hex_chars [of c n] hex_char_not_sign by fastforce
  moreover have "parse_uint_hex 0 (nat_to_hex n) = Inr n"
    using n by (intro parse_nat_to_hex) simp
  ultimately show ?thesis
    using n hx by (simp add: go_parse_int_hex32_def)
qed

lemma dec_value_single [simp]: "dec_value [c] = digit_val c"
  by (simp add: dec_value_def)

lemma dec_value_snoc [simp]: "dec_value (xs @ [c]) = 10 * dec_value xs + digit_val c"
  by (simp add: dec_value_def)

lemma digit_val_dec_digit [simp]: "d < 10 \<Longrightarrow> digit_val (dec_digit d) = d"
  by (simp add: digit_val_def dec_digit_def)

lemma is_digit_dec_digit [simp]: "d < 10 \<Longrightarrow> is_digit (dec_digit d)"
  by (simp add: is_digit_def dec_digit_def)

lemma nat_to_dec_value [simp]: "dec_value (nat_to_dec n) = n"
  by (induction n rule: nat_to_dec.induct) (subst nat_to_dec.simps, simp)

lemma nat_to_dec_digits [simp]: "list_all is_digit (nat_to_dec n)"
  by (induction n rule: nat_to_dec.induct) (subst nat_to_dec.simps, simp)

lemma nat_to_dec_nonempty [simp]: "nat_to_dec n \<noteq> []"
  by (subst nat_to_dec.simps) simp

lemma nat_to_dec_inj [simp]: "nat_to_dec m = nat_to_dec n \<longleftrightarrow> m = n"
  by (metis nat_to_dec_value)

lemma nat_to_dec_no_sign:
  "nat_to_dec n = c # cs \<Longrightarrow> c \<noteq> CHR ''-'' \<and> c \<noteq> CHR ''+''"
  using nat_to_dec_digits [of n] by (auto simp: is_digit_def)

lemma go_atoi_itoa:
  assumes "- (2 ^ 63) \<le> i" and "i < 2 ^ 63"
  shows "go_atoi (go_itoa i) = Inr i"
proof (cases "i < 0")
  case True
  then show ?thesis using assms by (simp add: go_atoi_def go_itoa_def)
next
  case False
  obtain c cs where d: "nat_to_dec (nat i) = c # cs" by (cases "nat_to_dec (nat i)") auto
  have "go_atoi (nat_to_dec (nat i)) = Inr (int (nat i))"
    using nat_to_dec_no_sign [OF d] assms False nat_to_dec_digits [of "nat i"] nat_to_dec_value [of "nat i"]
    by (simp add: go_atoi_def d)
  then show ?thesis using False by (simp add: go_itoa_def)
qed

lemma go_itoa_nat_inj [simp]: "go_itoa (int m) = go_itoa (int n) \<longleftrightarrow> m = n"
  by (simp add: go_itoa_def)

text \<open>Decimal digit strings: value, bound, leading zeros, injectivity.\<close>

lemma dec_value_Nil [simp]: "dec_value [] = 0"
  by (simp add: dec_value_def)

lemma dec_value_append: "dec_value (a @ b) = dec_value a * 10 ^ length b + dec_value b"
  by (induction b rule: rev_induct) (simp_all add: append_assoc [symmetric] del: append_assoc)

lemma dec_value_bound: "list_all is_digit cs \<Longrightarrow> dec_value cs < 10 ^ length cs"
proof (induction cs rule: rev_induct)
  case (snoc c cs)
  then have "digit_val c < 10" "dec_value cs < 10 ^ length cs" by (auto simp: is_digit_def digit_val_def)
  then show ?case by simp
qed simp

lemma length_nat_to_dec: "n < 10 ^ w \<Longrightarrow> 0 < w \<Longrightarrow> length (nat_to_dec n) \<le> w"
proof (induction n arbitrary: w rule: nat_to_dec.induct)
  case (1 n)
  show ?case
  proof (cases "n < 10")
    case True
    with 1 show ?thesis by (subst nat_to_dec.simps) simp
  next
    case False
    then obtain w' where w: "w = Suc w'" using 1 by (cases w) auto
    have "0 < w'" using False 1 w by (cases w') auto
    moreover have "n div 10 < 10 ^ w'" using 1 w by simp
    ultimately have "length (nat_to_dec (n div 10)) \<le> w'" using 1 False by simp
    with False w show ?thesis by (subst nat_to_dec.simps) simp
  qed
qed

lemma dec_value_replicate_zero: "dec_value (replicate k (CHR ''0'') @ ds) = dec_value ds"
proof -
  have "dec_value (replicate k (CHR ''0'')) = 0"
  proof (induction k)
    case (Suc k)
    have "replicate (Suc k) (CHR ''0'') = replicate k (CHR ''0'') @ [CHR ''0'']"
      by (simp add: replicate_append_same)
    with Suc show ?case by (simp add: digit_val_def)
  qed simp
  then show ?thesis by (simp add: dec_value_append)
qed

lemma digit_eq: "is_digit a \<Longrightarrow> is_digit b \<Longrightarrow> digit_val a = digit_val b \<Longrightarrow> a = b"
proof -
  assume "is_digit a" "is_digit b" "digit_val a = digit_val b"
  then have "(of_char a :: nat) = of_char b" unfolding is_digit_def digit_val_def by linarith
  then show "a = b" by simp
qed

lemma dec_value_inj:
  "list_all is_digit a \<Longrightarrow> list_all is_digit b \<Longrightarrow> length a = length b \<Longrightarrow> dec_value a = dec_value b \<Longrightarrow> a = b"
proof (induction a arbitrary: b rule: rev_induct)
  case Nil
  then show ?case by simp
next
  case (snoc x xs)
  obtain ys y where b: "b = ys @ [y]" using snoc.prems(3) by (cases b rule: rev_cases) auto
  have l: "length xs = length ys" using snoc.prems(3) b by simp
  have dx: "is_digit x" "list_all is_digit xs" using snoc.prems(1) by simp_all
  have dy: "is_digit y" "list_all is_digit ys" using snoc.prems(2) b by simp_all
  have x10: "digit_val x < 10" using dx(1) unfolding is_digit_def digit_val_def by linarith
  have y10: "digit_val y < 10" using dy(1) unfolding is_digit_def digit_val_def by linarith
  have eq: "10 * dec_value xs + digit_val x = 10 * dec_value ys + digit_val y"
    using snoc.prems(4) b by simp
  have "(10 * dec_value xs + digit_val x) mod 10 = digit_val x" using x10 by simp
  moreover have "(10 * dec_value ys + digit_val y) mod 10 = digit_val y" using y10 by simp
  ultimately have v: "digit_val x = digit_val y" using eq by simp
  with eq have "dec_value xs = dec_value ys" by simp
  with snoc.IH [OF dx(2) dy(2) l] have "xs = ys" .
  moreover have "x = y" using dx(1) dy(1) v by (rule digit_eq)
  ultimately show ?case using b by simp
qed

section \<open>Lemmas on building a request\<close>


lemma takeWhile_no_hash:
  "list_all (\<lambda>c. c \<noteq> CHR ''#'' \<and> \<not> go_ctl_byte c) p \<Longrightarrow>
   takeWhile (\<lambda>c. c \<noteq> CHR ''#'') (p @ s) = p @ takeWhile (\<lambda>c. c \<noteq> CHR ''#'') s"
  by (induction p) auto

text \<open>A fixed prefix with no \<open>#\<close> and no control byte does not change the test.\<close>

lemma go_new_request_ok_prefix:
  assumes "list_all (\<lambda>c. c \<noteq> CHR ''#'' \<and> \<not> go_ctl_byte c) p"
  shows "go_new_request_ok (p @ s) = go_new_request_ok s"
  using assms takeWhile_no_hash [OF assms, of s]
  by (auto simp: go_new_request_ok_def Let_def list_all_iff)

lemma go_new_request_ok_plain:
  "list_all (\<lambda>c. c \<noteq> CHR ''#'' \<and> \<not> go_ctl_byte c) s \<Longrightarrow> go_new_request_ok s"
  using go_new_request_ok_prefix [of s "[]"] by (simp add: go_new_request_ok_def)

lemma go_new_request_ok_ctl:
  "list_all (\<lambda>c. c \<noteq> CHR ''#'') p \<Longrightarrow> go_ctl_byte c \<Longrightarrow> \<not> go_new_request_ok (p @ c # s)"
proof -
  assume p: "list_all (\<lambda>c. c \<noteq> CHR ''#'') p" and c: "go_ctl_byte c"
  have "c \<noteq> CHR ''#''" using c by (auto simp: go_ctl_byte_def)
  then have "takeWhile (\<lambda>c. c \<noteq> CHR ''#'') (p @ c # s) = p @ c # takeWhile (\<lambda>c. c \<noteq> CHR ''#'') s"
    using p by (induction p) auto
  with c show ?thesis by (simp add: go_new_request_ok_def Let_def)
qed

lemma go_itoa_plain:
  "list_all (\<lambda>c. c \<noteq> CHR ''#'' \<and> \<not> go_ctl_byte c) (go_itoa i)"
proof -
  have "list_all (\<lambda>c. c \<noteq> CHR ''#'' \<and> \<not> go_ctl_byte c) (nat_to_dec n)" for n
    using nat_to_dec_digits [of n] by (auto simp: list_all_iff is_digit_def go_ctl_byte_def)
  then show ?thesis by (simp add: go_itoa_def go_ctl_byte_def)
qed

text \<open>The rules that decide the test on a concrete URL.\<close>

lemmas go_request_eval = go_new_request_ok_plain go_new_request_ok_ctl go_ctl_byte_def

end
