(* ===== verification/Slack_Types.thy ===== *)
theory Slack_Types
  imports Go_Prelude
begin

text \<open>
  The data of \<open>src/main.go\<close> and the state the program acts on.  The Go
  structs \<open>Config\<close>, \<open>SlackReaction\<close>, \<open>SlackMessageReply\<close>,
  \<open>SlackMessageItem\<close>, \<open>SlackMessagesResponse\<close> and \<open>UserProfile\<close> become
  records with the same fields.  A Go map that may be \<open>nil\<close> (the decoded
  \<open>user_cache\<close>) is a \<open>go_map option\<close>, \<open>None\<close> being \<open>nil\<close>: reading it gives
  nothing, writing to it panics.

  The outside world is split in two.  The \<open>world\<close> record is what the program
  changes: the global \<open>config\<close>, the contents of \<open>slack.config.json\<close>, the HTTP
  requests sent so far (in order), the text printed on standard output, the
  global \<open>emojiList\<close>, the contents of \<open>slack.emoji.json\<close>, and the entries of
  the working directory.  The
  \<open>server\<close> record is what the program cannot control: the answer of each
  endpoint, as a function of the request's position in the run and its URL, so
  that the same URL may be answered differently at different times.  An answer
  is a transport error of \<open>client.Do\<close>, a read error of \<open>io.ReadAll\<close>, a JSON
  decode error, or the decoded body.  A panic (\<open>panic\<close>) ends the process.
\<close>

section \<open>Configuration and messages\<close>

record config =
  slack_bot_token :: string
  slack_user_token :: string
  channel_id :: string
  server_bot_user_id :: string
  user_cache :: "go_map option"
  default_show_limit :: int
  default_emoji :: string

record slack_reaction =
  reaction_name :: string
  reaction_count :: int
  reaction_users :: "string list"

record slack_file =
  url_private :: string
  file_name :: string
  mimetype :: string

record slack_message_reply =
  reply_user :: string
  reply_user_name :: string
  reply_text :: string
  reply_ts :: string
  reply_reactions :: "slack_reaction list"
  reply_files :: "slack_file list"
  reply_edited_user :: string

record slack_message_item =
  msg_user :: string
  msg_user_name :: string
  msg_text :: string
  msg_ts :: string
  msg_thread_ts :: string
  msg_replies :: "slack_message_reply list"
  msg_reactions :: "slack_reaction list"
  msg_files :: "slack_file list"
  msg_edited_user :: string

record messages_response =
  messages :: "slack_message_item list"
  has_more :: bool
  next_cursor :: string

record user_profile =
  profile_ok :: bool
  real_name :: string

section \<open>Requests, answers and the state of a run\<close>

datatype 'a answer =
    Net_error string
  | Read_error string
  | Decode_error string
  | Body 'a

text \<open>A request: its method and URL, the bearer token of its \<open>Authorization\<close>
  header, and for a POST the fields of its JSON body.\<close>

datatype request =
    Http_get string string
  | Http_post string string "(string \<times> string) list"

text \<open>A file read by \<open>os.Open\<close> and \<open>json.NewDecoder(f).Decode\<close>: it cannot be
  opened (with the error's text), it does not decode, or it holds a value.\<close>

datatype 'a json_file =
    No_file string
  | Bad_json string
  | Json 'a

text \<open>An entry of the working directory, for \<open>os.Stat\<close>, \<open>os.Open\<close> and
  \<open>os.Create\<close>: a directory or a regular file with its bytes.\<close>

datatype fs_entry = Dir | File string

text \<open>The state of a run: the global \<open>config\<close>, the config file (\<open>None\<close> when
  \<open>os.Stat\<close> finds none; else the file as \<open>loadConfig\<close> reads it), the requests
  sent, the lines printed, the global \<open>emojiList\<close> and its file, and the
  working directory.\<close>

record world =
  cfg :: config
  disk :: "config json_file option"
  sent :: "request list"
  stdout :: "string list"
  emoji_tab :: go_map
  emoji_disk :: "go_map json_file"
  fs :: "string \<rightharpoonup> fs_entry"

text \<open>The answer of \<open>files.completeUploadExternal\<close> as \<open>uploadFile\<close> reads it:
  the \<open>files\<close> member when it is an array, each element either not an object or
  an object telling whether \<open>permalink\<close> and \<open>url_private\<close> are strings.\<close>

datatype file_obj = Not_object | File_object bool bool

record server =
  users_info :: "nat \<Rightarrow> string \<Rightarrow> user_profile answer"
  history :: "nat \<Rightarrow> string \<Rightarrow> messages_response answer"
  thread :: "nat \<Rightarrow> string \<Rightarrow> slack_message_item list answer"
  api_post :: "nat \<Rightarrow> string \<Rightarrow> (bool \<times> string) answer"
  upload_url_api :: "nat \<Rightarrow> (string \<times> string) answer"
  upload_put :: "nat \<Rightarrow> string \<Rightarrow> unit answer"
  complete_api :: "nat \<Rightarrow> file_obj list option answer"
  file_get :: "nat \<Rightarrow> string \<Rightarrow> string answer"

text \<open>The run-time panics the code can reach: an assignment to a \<open>nil\<close> map, and
  a use of the \<open>nil\<close> pointer returned with an ignored error.\<close>

datatype panic = Assign_to_nil_map | Nil_dereference

section \<open>Effects\<close>

definition issue :: "request \<Rightarrow> world \<Rightarrow> world" where
  "issue r w = w\<lparr>sent := sent w @ [r]\<rparr>"

text \<open>\<open>fmt.Println(a, b)\<close> prints its operands separated by a space and a newline;
  \<open>fmt.Print\<close> prints its operand as it is.\<close>

definition go_print :: "string \<Rightarrow> world \<Rightarrow> world" where
  "go_print s w = w\<lparr>stdout := stdout w @ [s]\<rparr>"

definition println :: "string \<Rightarrow> world \<Rightarrow> world" where
  "println s w = go_print (s @ ''\<newline>'') w"

text \<open>\<open>saveConfig\<close>: the whole in-memory config is written to the file.\<close>

definition save_config :: "world \<Rightarrow> world" where
  "save_config w = w\<lparr>disk := Some (Json (cfg w))\<rparr>"

definition go_map_get :: "go_map option \<Rightarrow> string \<Rightarrow> string option" where
  "go_map_get m k = (case m of None \<Rightarrow> None | Some f \<Rightarrow> f k)"

definition go_map_put :: "go_map option \<Rightarrow> string \<Rightarrow> string \<Rightarrow> panic + go_map option" where
  "go_map_put m k v = (case m of None \<Rightarrow> Inl Assign_to_nil_map | Some f \<Rightarrow> Inr (Some (f(k \<mapsto> v))))"

section \<open>Test fixtures\<close>

text \<open>Concrete configurations, states and servers at which the witnesses of the
  component theories evaluate their theorems.\<close>

abbreviation test_config :: "go_map option \<Rightarrow> config" where
  "test_config uc \<equiv> \<lparr>slack_bot_token = ''xoxb'', slack_user_token = ''xoxp'',
     channel_id = ''C1'', server_bot_user_id = ''U0'', user_cache = uc,
     default_show_limit = 20, default_emoji = ''white-check-mark''\<rparr>"

abbreviation test_world :: "go_map option \<Rightarrow> world" where
  "test_world uc \<equiv> \<lparr>cfg = test_config uc, disk = None, sent = [], stdout = [],
     emoji_tab = Map.empty, emoji_disk = No_file ''open slack.emoji.json: no such file or directory'',
     fs = Map.empty\<rparr>"

abbreviation test_server ::
  "(nat \<Rightarrow> string \<Rightarrow> user_profile answer) \<Rightarrow> (nat \<Rightarrow> string \<Rightarrow> messages_response answer) \<Rightarrow>
   (nat \<Rightarrow> string \<Rightarrow> slack_message_item list answer) \<Rightarrow> server" where
  "test_server u h t \<equiv> \<lparr>users_info = u, history = h, thread = t,
     api_post = (\<lambda>_ _. Body (True, [])), upload_url_api = (\<lambda>_. Net_error ''down''),
     upload_put = (\<lambda>_ _. Net_error ''down''), complete_api = (\<lambda>_. Net_error ''down''),
     file_get = (\<lambda>_ _. Net_error ''down'')\<rparr>"

lemma issue_simps [simp, world_simps]:
  "sent (issue r w) = sent w @ [r]" "cfg (issue r w) = cfg w"
  "disk (issue r w) = disk w" "stdout (issue r w) = stdout w"
  "emoji_tab (issue r w) = emoji_tab w" "emoji_disk (issue r w) = emoji_disk w" "fs (issue r w) = fs w"
  by (simp_all add: issue_def)

lemma println_simps [simp, world_simps]:
  "sent (println s w) = sent w" "cfg (println s w) = cfg w"
  "disk (println s w) = disk w" "stdout (println s w) = stdout w @ [s @ ''\<newline>'']"
  "emoji_tab (println s w) = emoji_tab w" "emoji_disk (println s w) = emoji_disk w" "fs (println s w) = fs w"
  by (simp_all add: println_def go_print_def)

lemma go_print_simps [simp, world_simps]:
  "sent (go_print s w) = sent w" "cfg (go_print s w) = cfg w"
  "disk (go_print s w) = disk w" "stdout (go_print s w) = stdout w @ [s]"
  "emoji_tab (go_print s w) = emoji_tab w" "emoji_disk (go_print s w) = emoji_disk w" "fs (go_print s w) = fs w"
  by (simp_all add: go_print_def)

lemma save_config_simps [simp, world_simps]:
  "sent (save_config w) = sent w" "cfg (save_config w) = cfg w"
  "disk (save_config w) = Some (Json (cfg w))" "stdout (save_config w) = stdout w"
  "emoji_tab (save_config w) = emoji_tab w" "emoji_disk (save_config w) = emoji_disk w" "fs (save_config w) = fs w"
  by (simp_all add: save_config_def)

lemma go_map_get_put:
  "go_map_put m k v = Inr m' \<Longrightarrow> go_map_get m' j = (if j = k then Some v else go_map_get m j)"
  by (auto simp: go_map_put_def go_map_get_def split: option.splits)

lemma go_map_put_nil [simp]: "go_map_put None k v = Inl Assign_to_nil_map"
  by (simp add: go_map_put_def)

end
