(* ===== verification/Reactions.thy ===== *)
theory Reactions
  imports Slack_Types
begin

text \<open>
  The Reaction Renderer: \<open>unicodeToEmoji\<close> (\<open>src/main.go\<close>, lines 838--846)
  strips every \<open>"&#x"\<close> and \<open>";"\<close> from a code-point reference, parses the
  rest with \<open>strconv.ParseInt(s, 16, 32)\<close> and encodes the rune as UTF-8;
  \<open>getReactionsString\<close> (lines 500--511) appends \<open>" <glyph>:<count>"\<close> for
  each reaction, looking its name up in the emoji table and falling back to the
  name itself.  The error of \<open>unicodeToEmoji\<close> is discarded there, so a failed
  decode renders the empty glyph.

  The lemmas show that a well-formed reference \<open>&#xH;\<close> renders the rune
  \<open>H\<close> (a round trip through the hex printer \<open>nat_to_hex\<close>), that a failed
  decode renders nothing in place of the glyph, and that the rendered string
  is the concatenation of one entry per reaction in the server's order.
\<close>

definition unicodeToEmoji :: "string \<Rightarrow> num_error + string" where
  "unicodeToEmoji unicodeStr =
     (let s1 = go_replace_all unicodeStr ''&#x'' [];
          s2 = go_replace_all s1 '';'' []
      in case go_parse_int_hex32 s2 of
           Inl err \<Rightarrow> Inl err
         | Inr runeValue \<Rightarrow> Inr (go_string_of_rune runeValue))"

text \<open>The body of the loop of \<open>getReactionsString\<close>, for one reaction.\<close>

definition reaction_entry :: "go_map \<Rightarrow> slack_reaction \<Rightarrow> string" where
  "reaction_entry emojiList reaction =
     (let emoji = (case emojiList (reaction_name reaction) of
                     Some e \<Rightarrow> e
                   | None \<Rightarrow> reaction_name reaction);
          emojiUnicode = (case unicodeToEmoji emoji of Inl _ \<Rightarrow> [] | Inr g \<Rightarrow> g)
      in '' '' @ emojiUnicode @ '':'' @ go_itoa (reaction_count reaction))"

definition getReactionsString :: "go_map \<Rightarrow> slack_reaction list \<Rightarrow> string" where
  "getReactionsString emojiList reactions =
     foldl (\<lambda>reactionsStr reaction. reactionsStr @ reaction_entry emojiList reaction) [] reactions"

text \<open>The reference form \<open>&#xH;\<close> of a code point, as the emoji table holds it.\<close>

definition code_ref :: "nat \<Rightarrow> string" where
  "code_ref n = ''&#x'' @ nat_to_hex n @ '';''"

section \<open>Lemmas\<close>

lemma foldl_append_entries:
  "foldl (\<lambda>acc r. acc @ f r) a xs = a @ concat (map f xs)"
  by (induction xs arbitrary: a) auto

lemma replace_ne_append_free:
  "old \<noteq> [] \<Longrightarrow> hd old \<notin> set s \<Longrightarrow> replace_ne old new (s @ t) = s @ replace_ne old new t"
  by (induction s) (auto simp: replace_ne_Cons_other)

lemma nat_to_hex_no_amp_semi:
  "CHR ''&'' \<notin> set (nat_to_hex n) \<and> CHR '';'' \<notin> set (nat_to_hex n)"
proof -
  have "c \<noteq> CHR ''&'' \<and> c \<noteq> CHR '';''" if c: "c \<in> set (nat_to_hex n)" for c
  proof -
    obtain d where d: "d < 16" "c = hex_char d"
      using nat_to_hex_chars [OF c] by blast
    show ?thesis using hex_char_not_sign [OF d(1)] d(2) by simp
  qed
  then show ?thesis by auto
qed

lemma strip_amp_prefix:
  assumes "CHR ''&'' \<notin> set s"
  shows "go_replace_all (''&#x'' @ s) ''&#x'' [] = s"
proof -
  have "replace_ne ''&#x'' [] (''&#x'' @ s) = [] @ replace_ne ''&#x'' [] s"
    by (rule replace_ne_old) simp
  also have "\<dots> = s"
    using assms by (simp add: replace_ne_free)
  finally show ?thesis by (simp only: go_replace_all_def) simp
qed

lemma strip_semi_suffix:
  assumes "CHR '';'' \<notin> set s"
  shows "go_replace_all (s @ '';'') '';'' [] = s"
proof -
  have "replace_ne '';'' [] (s @ '';'') = s @ replace_ne '';'' [] '';''"
    by (rule replace_ne_append_free) (use assms in auto)
  also have "replace_ne '';'' [] '';'' = []"
    using replace_ne_old [of "'';''" "[]" "[]"] by simp
  finally show ?thesis by (simp only: go_replace_all_def) simp
qed

lemma unicodeToEmoji_code_ref:
  assumes "n < 2 ^ 31"
  shows "unicodeToEmoji (code_ref n) = Inr (go_string_of_rune (int n))"
proof -
  have "go_replace_all (code_ref n) ''&#x'' [] = nat_to_hex n @ '';''"
    unfolding code_ref_def using nat_to_hex_no_amp_semi [of n]
    by (intro strip_amp_prefix) simp
  moreover have "go_replace_all (nat_to_hex n @ '';'') '';'' [] = nat_to_hex n"
    using nat_to_hex_no_amp_semi [of n] by (intro strip_semi_suffix) simp
  moreover have "go_parse_int_hex32 (nat_to_hex n) = Inr (int n)"
    using assms by (rule go_parse_int_hex32_nat_to_hex)
  ultimately show ?thesis
    by (simp add: unicodeToEmoji_def Let_def)
qed

lemma valid_rune_nat_bound: "valid_rune r \<Longrightarrow> nat r < 2 ^ 31 \<and> int (nat r) = r"
  by (auto simp: valid_rune_def nat_less_iff)

section \<open>The renderer's contract\<close>

text \<open>C20: a reaction whose table entry is the reference \<open>&#xH;\<close> of a valid code
  point renders as a space, that code point in UTF-8, a colon and the count.\<close>

theorem reaction_renders_code_point:
  assumes "valid_rune r" and "emojiList (reaction_name x) = Some (code_ref (nat r))"
  shows "getReactionsString emojiList [x] = '' '' @ go_string_of_rune r @ '':'' @ go_itoa (reaction_count x)"
proof -
  from assms(1) have "nat r < 2 ^ 31" and "int (nat r) = r"
    using valid_rune_nat_bound by auto
  then have "unicodeToEmoji (code_ref (nat r)) = Inr (go_string_of_rune r)"
    using unicodeToEmoji_code_ref by metis
  with assms(2) show ?thesis
    by (simp add: getReactionsString_def reaction_entry_def)
qed

theorem reaction_renders_code_point_witness:
  "getReactionsString [''x'' \<mapsto> ''&#x2705;''] [\<lparr>reaction_name = ''x'', reaction_count = 2, reaction_users = []\<rparr>]
     = [CHR '' '', CHR 0xE2, CHR 0x9C, CHR 0x85, CHR '':'', CHR ''2'']"
proof -
  have v: "valid_rune 0x2705" by (simp add: valid_rune_def)
  have c: "code_ref (nat 0x2705) = ''&#x2705;''"
    by (simp add: code_ref_def nat_to_hex.simps go_string_simps)
  have g: "go_string_of_rune 0x2705 = [CHR 0xE2, CHR 0x9C, CHR 0x85]"
    by (simp add: go_string_simps)
  have i: "go_itoa 2 = ''2''" by code_simp
  have e: "[''x'' \<mapsto> ''&#x2705;''] (reaction_name \<lparr>reaction_name = ''x'', reaction_count = 2,
      reaction_users = []\<rparr>) = Some (code_ref (nat 0x2705))"
    by (simp only: c) simp
  from reaction_renders_code_point [of "0x2705" "[''x'' \<mapsto> ''&#x2705;'']", OF v e]
  have "getReactionsString [''x'' \<mapsto> ''&#x2705;'']
      [\<lparr>reaction_name = ''x'', reaction_count = 2, reaction_users = []\<rparr>] =
      '' '' @ go_string_of_rune 0x2705 @ '':'' @ go_itoa 2"
    by (simp only: slack_reaction.select_convs)
  then show ?thesis by (simp only: g i) simp
qed

text \<open>C21: when the table entry (or, for a name missing from the table, the name
  itself) does not decode, the entry shows no glyph at all, only \<open>" :<count>"\<close>:
  the decode error is discarded and the empty result of \<open>unicodeToEmoji\<close> is
  used, where the spec says the raw code is shown.\<close>

theorem reaction_decode_failure_empty_glyph:
  assumes "emojiList (reaction_name x) = Some code" and "unicodeToEmoji code = Inl e"
  shows "getReactionsString emojiList [x] = '' :'' @ go_itoa (reaction_count x)"
  using assms by (simp add: getReactionsString_def reaction_entry_def)

theorem reaction_decode_failure_empty_glyph_witness:
  "getReactionsString [''x'' \<mapsto> ''&#xZZ;''] [\<lparr>reaction_name = ''x'', reaction_count = 5, reaction_users = []\<rparr>]
     = '' :5''"
proof -
  have d: "unicodeToEmoji ''&#xZZ;'' = Inl Err_syntax" by code_simp
  have i: "go_itoa 5 = ''5''" by code_simp
  show ?thesis
    using reaction_decode_failure_empty_glyph [of "[''x'' \<mapsto> ''&#xZZ;'']"
        "\<lparr>reaction_name = ''x'', reaction_count = 5, reaction_users = []\<rparr>", OF _ d] i
    by simp
qed

text \<open>The reactions string is the concatenation of one entry per reaction,
  in the order the server lists the reactions.\<close>

theorem reactions_string_concat:
  "getReactionsString emojiList reactions = concat (map (reaction_entry emojiList) reactions)"
  by (simp add: getReactionsString_def foldl_append_entries)

text \<open>A name missing from the table is itself parsed as a code point: Slack's
  \<open>+1\<close> reaction renders as the control character \<open>U+0001\<close>.\<close>

lemma reaction_plus_one_control_char:
  "getReactionsString Map.empty [\<lparr>reaction_name = ''+1'', reaction_count = 3, reaction_users = []\<rparr>]
     = [CHR '' '', CHR 0x01, CHR '':'', CHR ''3'']"
  by code_simp

end
