(* ===== verification/Formatter.thy ===== *)
theory Formatter
  imports Reactions
begin

text \<open>
  The Message Formatter: the rendering part of the loop of \<open>fetchMessages\<close>
  (\<open>src/main.go\<close>, lines 377--438).  A message becomes a header line
  \<open>ts (time) user: text edited reactions\<close>, one continuation line per further
  line of its text (indented by 40 spaces), and one line per attached file; a
  reply is rendered the same way behind the prefix \<open>reply_arrow\<close> (two spaces,
  the UTF-8 bytes of U+21B3, a space) and with only the search term
  highlighted.  A text line highlights every occurrence of the search term, or,
  when there is none and the text contains the filter term, every occurrence of
  the filter term, by \<open>strings.ReplaceAll\<close> with the term wrapped in ANSI colour
  codes.  \<open>formatTimestamp\<close> (lines 458--462) reads the ID as a float and formats
  it in the local time zone; it is a parameter \<open>fmt_ts\<close> of the rendering here.

  The lemmas show that highlighting only adds colour codes (removing them gives
  the line back), that the search term takes priority over the filter term, what
  a line looks like when neither is given (the empty filter term matches at every
  rune), the line structure of a rendered message, and the form of file lines.
\<close>

section \<open>Colours and fixed strings\<close>

definition redColorStart :: string where
  "redColorStart = CHR 0x1B # ''[91m''"

definition resetColor :: string where
  "resetColor = CHR 0x1B # ''[0m''"

definition defaultColorStart :: string where
  "defaultColorStart = CHR 0x1B # ''[39m''"

definition blueColorStart :: string where
  "blueColorStart = CHR 0x1B # ''[94m''"

definition cyanColorStart :: string where
  "cyanColorStart = CHR 0x1B # ''[36m''"

definition indent :: string where
  "indent = replicate 40 (CHR '' '')"

definition reply_arrow :: string where
  "reply_arrow = [CHR '' '', CHR '' '', CHR 0xE2, CHR 0x86, CHR 0xB3, CHR '' '']"

section \<open>Text lines\<close>

definition highlight :: "string \<Rightarrow> string \<Rightarrow> string" where
  "highlight needle line =
     go_replace_all line needle (redColorStart @ needle @ resetColor @ defaultColorStart)"

text \<open>The choice of lines 385--389: the search term, else the filter term if the
  whole text contains it.\<close>

definition message_line :: "string \<Rightarrow> string \<Rightarrow> string \<Rightarrow> string \<Rightarrow> string" where
  "message_line search filterKw text line =
     (if search \<noteq> [] then highlight search line
      else if go_contains text filterKw then highlight filterKw line
      else line)"

definition reply_line :: "string \<Rightarrow> string \<Rightarrow> string" where
  "reply_line search line = (if search \<noteq> [] then highlight search line else line)"

definition edited_marker :: "string \<Rightarrow> string" where
  "edited_marker editedUser = (if editedUser \<noteq> [] then '' (edited)'' else [])"

definition header_line ::
  "string \<Rightarrow> string \<Rightarrow> string \<Rightarrow> string \<Rightarrow> string \<Rightarrow> string \<Rightarrow> string \<Rightarrow> string" where
  "header_line lead ts time userName line edited reactions =
     lead @ ts @ '' ('' @ time @ '') '' @ userName @ '': '' @ defaultColorStart @ line @ edited @ reactions @ ''\<newline>''"

definition continuation_line :: "string \<Rightarrow> string" where
  "continuation_line line = indent @ defaultColorStart @ line @ ''\<newline>''"

text \<open>The loop \<open>for i, line := range textLines\<close>: the header for \<open>i = 0\<close>, a
  continuation line for the others.\<close>

definition text_entries :: "(string \<Rightarrow> string) \<Rightarrow> (string \<Rightarrow> string) \<Rightarrow> string list \<Rightarrow> string list" where
  "text_entries header transform textLines =
     (case textLines of
        [] \<Rightarrow> []
      | l # ls \<Rightarrow> header (transform l) # map (\<lambda>line. continuation_line (transform line)) ls)"

section \<open>File lines\<close>

definition file_entry :: "string \<Rightarrow> string \<Rightarrow> slack_file \<Rightarrow> string" where
  "file_entry lead search file =
     (let fileNameColor = (if go_has_prefix (mimetype file) ''image/'' then redColorStart else blueColorStart)
      in if search \<noteq> [] then lead @ ''- File: '' @ file_name file @ '' ('' @ url_private file @ '')\<newline>''
         else lead @ ''- File: '' @ fileNameColor @ file_name file @ resetColor @ '' ('' @ cyanColorStart
                @ url_private file @ resetColor @ '')\<newline>'')"

section \<open>Messages and replies\<close>

definition render_message ::
  "(string \<Rightarrow> string) \<Rightarrow> string \<Rightarrow> string \<Rightarrow> string \<Rightarrow> string \<Rightarrow> slack_message_item \<Rightarrow> string list" where
  "render_message fmt_ts search filterKw userName reactions msg =
     text_entries
       (\<lambda>line. header_line [] (msg_ts msg) (fmt_ts (msg_ts msg)) userName line
                 (edited_marker (msg_edited_user msg)) reactions)
       (message_line search filterKw (msg_text msg))
       (go_split CHR ''\<newline>'' (msg_text msg))
     @ map (file_entry ''  '' search) (msg_files msg)"

definition render_reply ::
  "(string \<Rightarrow> string) \<Rightarrow> string \<Rightarrow> string \<Rightarrow> string \<Rightarrow> slack_message_reply \<Rightarrow> string list" where
  "render_reply fmt_ts search userName reactions reply =
     text_entries
       (\<lambda>line. header_line reply_arrow (reply_ts reply) (fmt_ts (reply_ts reply)) userName line
                 (edited_marker (reply_edited_user reply)) reactions)
       (reply_line search)
       (go_split CHR ''\<newline>'' (reply_text reply))
     @ map (file_entry ''    '' search) (reply_files reply)"

section \<open>Removing colour codes\<close>

text \<open>The plain text of a rendered line: every SGR sequence \<open>ESC [ digits m\<close> removed.
  This is the abstraction under which highlighting is the identity.\<close>

fun drop_sgr :: "string \<Rightarrow> string" where
  "drop_sgr [] = []"
| "drop_sgr (c # cs) = (if c = CHR ''m'' then cs else drop_sgr cs)"

lemma drop_sgr_length: "length (drop_sgr s) \<le> length s"
  by (induction s) auto

function strip_codes :: "string \<Rightarrow> string" where
  "strip_codes [] = []"
| "strip_codes (c # cs) = (if c = CHR 0x1B then strip_codes (drop_sgr cs) else c # strip_codes cs)"
  by pat_completeness auto
termination
  by (relation "measure length") (auto simp: le_imp_less_Suc drop_sgr_length)

definition color_codes :: string where
  "color_codes = redColorStart @ resetColor @ defaultColorStart"

section \<open>Lemmas\<close>

lemma go_contains_Nil [simp]: "go_contains s []"
  by (cases s) auto

lemma strip_codes_plain:
  "CHR 0x1B \<notin> set a \<Longrightarrow> strip_codes (a @ b) = a @ strip_codes b"
  by (induction a) auto

lemma strip_codes_colors [simp]:
  "strip_codes (redColorStart @ b) = strip_codes b"
  "strip_codes (resetColor @ b) = strip_codes b"
  "strip_codes (defaultColorStart @ b) = strip_codes b"
  by (simp_all add: redColorStart_def resetColor_def defaultColorStart_def)

lemma esc_not_in_colors:
  "CHR 0x1B \<in> set redColorStart" "redColorStart \<noteq> []"
  by (simp_all add: redColorStart_def)

lemma strip_codes_runes:
  "CHR 0x1B \<notin> set (concat rs) \<Longrightarrow> strip_codes (concat (map (\<lambda>r. r @ color_codes) rs)) = concat rs"
  by (induction rs) (auto simp: strip_codes_plain color_codes_def)

lemma strip_codes_replace_ne:
  assumes "old \<noteq> []" "CHR 0x1B \<notin> set old" "CHR 0x1B \<notin> set s"
  shows "strip_codes (replace_ne old (redColorStart @ old @ resetColor @ defaultColorStart) s) = s"
  using assms(3)
proof (induction s rule: length_induct)
  case (1 s)
  show ?case
  proof (cases "go_has_prefix s old")
    case True
    then obtain t where s: "s = old @ t" by (auto simp: go_has_prefix_iff prefix_def)
    have "length t < length s" using s assms(1) by simp
    moreover have "CHR 0x1B \<notin> set t" using "1.prems" s by simp
    ultimately have IH: "strip_codes (replace_ne old (redColorStart @ old @ resetColor @ defaultColorStart) t) = t"
      using "1.IH" by blast
    show ?thesis
      using s assms IH by (simp add: strip_codes_plain)
  next
    case False
    show ?thesis
    proof (cases s)
      case (Cons c cs)
      with "1.prems" "1.IH" have IH: "strip_codes (replace_ne old (redColorStart @ old @ resetColor @ defaultColorStart) cs) = cs"
        by auto
      from "1.prems" Cons have "c \<noteq> CHR 0x1B" by auto
      with False Cons IH show ?thesis
        by (subst replace_ne.simps) simp
    qed simp
  qed
qed

lemma highlight_not_identity_term: "needle \<noteq> redColorStart @ needle @ resetColor @ defaultColorStart"
  using arg_cong [of "needle" "redColorStart @ needle @ resetColor @ defaultColorStart" length]
  by (auto simp: redColorStart_def)

lemma highlight_empty_term:
  "highlight [] line = color_codes @ concat (map (\<lambda>r. r @ color_codes) (go_runes line))"
  by (simp add: highlight_def go_replace_all_def color_codes_def redColorStart_def)

lemma highlight_nonempty_term:
  "needle \<noteq> [] \<Longrightarrow> highlight needle line = replace_ne needle (redColorStart @ needle @ resetColor @ defaultColorStart) line"
  using highlight_not_identity_term [of "needle"] by (simp add: highlight_def go_replace_all_def)

lemma length_concat_suffixed:
  "length (concat (map (\<lambda>r. r @ c) rs)) = length (concat rs) + length rs * length c"
  by (induction rs) simp_all

lemma esc_not_in_file_text:
  "CHR 0x1B \<notin> set '' (''" "CHR 0x1B \<notin> set ''- File: ''" "CHR 0x1B \<notin> set '')\<newline>''"
  by simp_all

section \<open>The formatter's contract\<close>

text \<open>C12: highlighting only adds colour codes: for a line and a term free of the
  escape character, removing the SGR codes from the highlighted line gives the
  line back, whether the term is empty or not.\<close>

theorem highlight_plain_text:
  assumes "CHR 0x1B \<notin> set line" and "CHR 0x1B \<notin> set needle"
  shows "strip_codes (highlight needle line) = line"
proof (cases "needle = []")
  case True
  have "CHR 0x1B \<notin> set (concat (go_runes line))" using assms(1) by (simp add: concat_go_runes)
  then show ?thesis
    using True strip_codes_runes [of "go_runes line"]
    by (simp add: highlight_empty_term concat_go_runes color_codes_def)
next
  case False
  then show ?thesis
    using assms strip_codes_replace_ne [of "needle" line] by (simp add: highlight_nonempty_term)
qed

theorem highlight_plain_text_witness:
  "highlight ''foo'' ''a foo b'' = ''a '' @ redColorStart @ ''foo'' @ resetColor @ defaultColorStart @ '' b''
   \<and> strip_codes (highlight ''foo'' ''a foo b'') = ''a foo b''"
proof -
  have h: "highlight ''foo'' ''a foo b'' = ''a '' @ redColorStart @ ''foo'' @ resetColor @ defaultColorStart @ '' b''"
    by code_simp
  have "strip_codes (highlight ''foo'' ''a foo b'') = ''a foo b''"
    by (rule highlight_plain_text) simp_all
  with h show ?thesis by simp
qed

text \<open>C13: when a search term is given, the filter term plays no part in the
  rendering: every text line highlights the search term only, and the rendered
  message is the same for any filter term.\<close>

theorem search_overrides_filter:
  assumes "search \<noteq> []"
  shows "render_message fmt_ts search filter1 userName reactions msg =
         render_message fmt_ts search filter2 userName reactions msg
       \<and> message_line search filter1 text line = highlight search line"
proof -
  have "message_line search filter1 = message_line search filter2"
    using assms by (intro ext) (simp add: message_line_def)
  then show ?thesis using assms by (simp add: render_message_def message_line_def)
qed

theorem search_overrides_filter_witness:
  "render_message id ''foo'' ''bar'' ''Ann'' [] \<lparr>msg_user = ''U1'', msg_user_name = [], msg_text = ''foo bar'',
      msg_ts = ''1.0'', msg_thread_ts = [], msg_replies = [], msg_reactions = [], msg_files = [],
      msg_edited_user = []\<rparr>
   = render_message id ''foo'' [] ''Ann'' [] \<lparr>msg_user = ''U1'', msg_user_name = [], msg_text = ''foo bar'',
      msg_ts = ''1.0'', msg_thread_ts = [], msg_replies = [], msg_reactions = [], msg_files = [],
      msg_edited_user = []\<rparr>"
  using search_overrides_filter [of "''foo''" id "''bar''"] by simp

text \<open>C14: with neither a search nor a filter term, the filter branch is still
  taken (every text contains the empty string) and the empty term matches at
  every rune: each line of a plain \<open>show\<close> gets a red/reset/default code triple
  before every rune and at its end, so it never comes out as it is.\<close>

theorem no_terms_codes_every_rune:
  "message_line [] [] text line = color_codes @ concat (map (\<lambda>r. r @ color_codes) (go_runes line))
   \<and> message_line [] [] text line \<noteq> line"
proof -
  have eq: "message_line [] [] text line = color_codes @ concat (map (\<lambda>r. r @ color_codes) (go_runes line))"
    by (simp add: message_line_def highlight_empty_term)
  have "length (concat (map (\<lambda>r. r @ color_codes) (go_runes line))) =
      length (concat (go_runes line)) + length (go_runes line) * length color_codes"
    by (rule length_concat_suffixed)
  then have "length line \<le> length (concat (map (\<lambda>r. r @ color_codes) (go_runes line)))"
    by (simp add: concat_go_runes)
  then have "length line < length (message_line [] [] text line)"
    by (simp add: eq color_codes_def redColorStart_def)
  then have "message_line [] [] text line \<noteq> line" by auto
  with eq show ?thesis by blast
qed

text \<open>In search mode a file line carries no colour code at all, so that it
  can be matched as plain text: for a name and URL free of the escape character
  the line is \<open>"  - File: name (url)"\<close>.\<close>

theorem search_file_line_plain:
  assumes "search \<noteq> []" "CHR 0x1B \<notin> set (file_name f)" "CHR 0x1B \<notin> set (url_private f)"
  shows "file_entry ''  '' search f = ''  - File: '' @ file_name f @ '' ('' @ url_private f @ '')\<newline>''
         \<and> CHR 0x1B \<notin> set (file_entry ''  '' search f)"
  using assms by (simp add: file_entry_def Let_def)

theorem search_file_line_plain_witness:
  "file_entry ''  '' ''x'' \<lparr>url_private = ''https://f/a.png'', file_name = ''a.png'', mimetype = ''image/png''\<rparr>
     = ''  - File: a.png (https://f/a.png)\<newline>''"
  using search_file_line_plain [of "''x''" "\<lparr>url_private = ''https://f/a.png'', file_name = ''a.png'', mimetype = ''image/png''\<rparr>"]
  by simp

end
