(* ===== verification/Name_Resolver.thy ===== *)
theory Name_Resolver
  imports Slack_Types
begin

text \<open>
  The Name Resolver, \<open>getUserName\<close> (\<open>src/main.go\<close>, lines 198--245): a user
  ID is looked up in the session cache, then in the persisted cache of the
  config, then with a \<open>users.info\<close> request.  A successful remote lookup is
  written to both caches and the config is saved; a failed one prints the error
  and resolves to \<open>"Unknown"\<close> without caching anything.  The session cache is
  the Go map the caller passes; it is returned updated.  Two panics are the
  \<open>Inl\<close> results: the error of \<open>http.NewRequest\<close> is ignored (line 212), so an
  ID whose URL \<open>url.Parse\<close> rejects leaves \<open>req\<close> \<open>nil\<close> and line 213
  dereferences it; and writing to a \<open>nil\<close> config cache (line 239) panics.

  The lemmas show the contract of the spec's section 4.4: the empty ID needs no
  lookup; a resolved name is cached so that a second resolution sends nothing;
  a failure is never cached, so the next resolution asks again; the session
  cache and the persisted cache stay in agreement; every resolution sends at
  most one request; an ID whose request cannot be built crashes the program.
\<close>

definition users_info_url :: "string \<Rightarrow> string" where
  "users_info_url userID = ''https://slack.com/api/users.info?user='' @ userID"

definition getUserName ::
  "server \<Rightarrow> string \<Rightarrow> go_map \<Rightarrow> world \<Rightarrow> panic + (string \<times> go_map \<times> world)" where
  "getUserName srv userID userCache w =
    (if userID = [] then Inr (''Unknown'', userCache, w)
     else case userCache userID of
       Some name \<Rightarrow> Inr (name, userCache, w)
     | None \<Rightarrow>
       (case go_map_get (user_cache (cfg w)) userID of
         Some name \<Rightarrow> Inr (name, userCache(userID \<mapsto> name), w)
       | None \<Rightarrow>
         (let url = users_info_url userID
          in if \<not> go_new_request_ok url then Inl Nil_dereference
          else
          let w1 = issue (Http_get url (slack_bot_token (cfg w))) w
          in case users_info srv (length (sent w)) url of
           Net_error e \<Rightarrow>
             Inr (''Unknown'', userCache, println (''Error fetching user profile: '' @ e) w1)
         | Read_error e \<Rightarrow>
             Inr (''Unknown'', userCache, println (''Error reading user profile response: '' @ e) w1)
         | Decode_error e \<Rightarrow>
             Inr (''Unknown'', userCache, println (''Error decoding user profile JSON: '' @ e) w1)
         | Body p \<Rightarrow>
             if profile_ok p then
               (case go_map_put (user_cache (cfg w1)) userID (real_name p) of
                 Inl pn \<Rightarrow> Inl pn
               | Inr uc \<Rightarrow>
                   Inr (real_name p, userCache(userID \<mapsto> real_name p),
                        save_config (w1\<lparr>cfg := (cfg w1)\<lparr>user_cache := uc\<rparr>\<rparr>)))
             else Inr (''Unknown'', userCache, w1))))"

text \<open>A remote answer that resolves the name: a decoded profile with \<open>ok\<close> set.\<close>

definition lookup_succeeds :: "user_profile answer \<Rightarrow> bool" where
  "lookup_succeeds a = (case a of Body p \<Rightarrow> profile_ok p | _ \<Rightarrow> False)"

text \<open>The invariant that \<open>fetchMessages\<close> sets up by copying the persisted cache
  into the session cache (lines 318--321), and that every resolution keeps.\<close>

definition caches_agree :: "go_map \<Rightarrow> world \<Rightarrow> bool" where
  "caches_agree c w \<longleftrightarrow> (\<forall>k. c k = go_map_get (user_cache (cfg w)) k)"

text \<open>The abstract resolver of the spec's section 4.4, with one table of the
  names it knows: a known ID resolves to its name with no request; an unknown
  one asks the server once and learns the name only when the answer resolves
  it, and an ID whose request cannot be built crashes (the code does not check
  the error of \<open>http.NewRequest\<close>).  The third component tells whether the
  server was asked.  The
  implementation's table is the two caches seen together, the session cache
  first (\<open>resolver_view\<close>).\<close>

definition resolver_view :: "go_map \<Rightarrow> world \<Rightarrow> go_map" where
  "resolver_view c w = go_map_get (user_cache (cfg w)) ++ c"

definition resolve_spec ::
  "go_map \<Rightarrow> string \<Rightarrow> user_profile answer \<Rightarrow> panic + (string \<times> go_map \<times> bool)" where
  "resolve_spec known u a =
     (if u = [] then Inr (''Unknown'', known, False)
      else case known u of
        Some n \<Rightarrow> Inr (n, known, False)
      | None \<Rightarrow>
          if \<not> go_new_request_ok (users_info_url u) then Inl Nil_dereference
          else case a of
             Body p \<Rightarrow> if profile_ok p then Inr (real_name p, known(u \<mapsto> real_name p), True)
                       else Inr (''Unknown'', known, True)
           | _ \<Rightarrow> Inr (''Unknown'', known, True))"

section \<open>Case lemmas\<close>

lemma getUserName_empty [simp]:
  "getUserName srv [] c w = Inr (''Unknown'', c, w)"
  by (simp add: getUserName_def)

lemma getUserName_session_hit:
  "c u = Some n \<Longrightarrow> u \<noteq> [] \<Longrightarrow> getUserName srv u c w = Inr (n, c, w)"
  by (simp add: getUserName_def)

lemma getUserName_config_hit:
  "c u = None \<Longrightarrow> go_map_get (user_cache (cfg w)) u = Some n \<Longrightarrow> u \<noteq> [] \<Longrightarrow>
   getUserName srv u c w = Inr (n, c(u \<mapsto> n), w)"
  by (simp add: getUserName_def)

text \<open>The remote branch, failing: one request, one printed line at most, and
  neither cache changes.\<close>

lemma getUserName_remote_fail:
  assumes "u \<noteq> []" "c u = None" "go_map_get (user_cache (cfg w)) u = None"
    and "\<not> lookup_succeeds (users_info srv (length (sent w)) (users_info_url u))"
    and "getUserName srv u c w = Inr (n, c', w')"
  shows "n = ''Unknown'' \<and> c' = c \<and> cfg w' = cfg w \<and> disk w' = disk w \<and>
         sent w' = sent w @ [Http_get (users_info_url u) (slack_bot_token (cfg w))]"
  using assms
  by (auto simp: getUserName_def lookup_succeeds_def Let_def split: answer.splits if_splits)

lemma getUserName_remote_ok:
  assumes "u \<noteq> []" "c u = None" "go_map_get (user_cache (cfg w)) u = None"
    and "go_new_request_ok (users_info_url u)"
    and "users_info srv (length (sent w)) (users_info_url u) = Body p" "profile_ok p"
    and "user_cache (cfg w) = Some m"
  shows "getUserName srv u c w =
           Inr (real_name p, c(u \<mapsto> real_name p),
                save_config ((issue (Http_get (users_info_url u) (slack_bot_token (cfg w))) w)
                  \<lparr>cfg := (cfg w)\<lparr>user_cache := Some (m(u \<mapsto> real_name p))\<rparr>\<rparr>))"
  using assms by (simp add: getUserName_def go_map_put_def)

text \<open>The remote branch, when the request cannot be built: the panic at line 213,
  before anything is sent.\<close>

lemma getUserName_bad_request:
  "u \<noteq> [] \<Longrightarrow> c u = None \<Longrightarrow> go_map_get (user_cache (cfg w)) u = None \<Longrightarrow>
   \<not> go_new_request_ok (users_info_url u) \<Longrightarrow> getUserName srv u c w = Inl Nil_dereference"
  by (simp add: getUserName_def)

text \<open>The fixed part of the URL passes \<open>url.Parse\<close>'s checks, so the test is on
  the ID alone.\<close>

lemma users_info_url_ok [simp]:
  "go_new_request_ok (users_info_url u) = go_new_request_ok u"
  unfolding users_info_url_def
  by (rule go_new_request_ok_prefix) (simp add: go_ctl_byte_def)

section \<open>Frame lemmas\<close>

lemma getUserName_sent:
  "getUserName srv u c w = Inr (n, c', w') \<Longrightarrow>
   sent w' = sent w \<or> sent w' = sent w @ [Http_get (users_info_url u) (slack_bot_token (cfg w))]"
  by (auto simp: getUserName_def Let_def split: option.splits answer.splits if_splits sum.splits)

lemma getUserName_stdout_prefix:
  "getUserName srv u c w = Inr (n, c', w') \<Longrightarrow> prefix (stdout w) (stdout w')"
  by (auto simp: getUserName_def Let_def split: option.splits answer.splits if_splits sum.splits)

lemma getUserName_token:
  "getUserName srv u c w = Inr (n, c', w') \<Longrightarrow>
   slack_bot_token (cfg w') = slack_bot_token (cfg w) \<and> channel_id (cfg w') = channel_id (cfg w)"
  by (auto simp: getUserName_def Let_def split: option.splits answer.splits if_splits sum.splits)

lemma getUserName_cache_mono:
  "getUserName srv u c w = Inr (n, c', w') \<Longrightarrow> c k = Some v \<Longrightarrow> c' k = Some v"
  by (auto simp: getUserName_def Let_def split: option.splits answer.splits if_splits sum.splits)

lemma getUserName_cached_name:
  "getUserName srv u c w = Inr (n, c', w') \<Longrightarrow> u \<noteq> [] \<Longrightarrow> c' u \<noteq> None \<Longrightarrow> c' u = Some n"
  by (auto simp: getUserName_def Let_def split: option.splits answer.splits if_splits sum.splits)

lemma getUserName_agree:
  "caches_agree c w \<Longrightarrow> getUserName srv u c w = Inr (n, c', w') \<Longrightarrow> caches_agree c' w'"
  by (auto simp: getUserName_def Let_def caches_agree_def go_map_put_def go_map_get_def
      split: option.splits answer.splits if_splits sum.splits)

lemma getUserName_remote_fail_Inr:
  "go_new_request_ok (users_info_url u) \<Longrightarrow>
   \<not> lookup_succeeds (users_info srv (length (sent w)) (users_info_url u)) \<Longrightarrow>
   \<exists>n c' w'. getUserName srv u c w = Inr (n, c', w')"
  by (auto simp: getUserName_def lookup_succeeds_def Let_def split: option.splits answer.splits)

section \<open>The two caches as one table\<close>

lemma resolver_view_Some [simp]:
  "c u = Some n \<Longrightarrow> (go_map_get m ++ c) u = Some n"
  by (simp add: map_add_def)

lemma resolver_view_None [simp]:
  "c u = None \<Longrightarrow> (go_map_get m ++ c) u = go_map_get m u"
  by (simp add: map_add_def)

lemma resolver_view_config_hit:
  "c u = None \<Longrightarrow> go_map_get m u = Some n \<Longrightarrow> (go_map_get m ++ c)(u \<mapsto> n) = go_map_get m ++ c"
  by (auto simp: map_add_def fun_eq_iff split: option.splits)

lemma resolver_view_learn:
  "(go_map_get (Some (m(u \<mapsto> v))) ++ c)(u \<mapsto> v) = (go_map_get (Some m) ++ c)(u \<mapsto> v)"
  by (simp add: go_map_get_def fun_eq_iff map_add_def split: option.splits)

section \<open>The resolver's contract\<close>

text \<open>C5: once a resolution has put a name in the session cache, resolving the
  same ID again, against any server and in any later state, returns the same name
  and sends no request: resolution is idempotent within a session.\<close>

theorem resolve_idempotent:
  assumes "getUserName srv u c w = Inr (n, c', w')" and "u \<noteq> []" and "c' u \<noteq> None"
  shows "getUserName srv' u c' w'' = Inr (n, c', w'')"
proof -
  from assms have "c' u = Some n" by (rule getUserName_cached_name)
  then show ?thesis using assms(2) by (rule getUserName_session_hit)
qed

theorem resolve_idempotent_witness:
  "getUserName (test_server (\<lambda>_ _. Net_error ''down'') (\<lambda>_ _. Net_error []) (\<lambda>_ _. Net_error []))
     ''U1'' [''U1'' \<mapsto> ''Ann''] (test_world None) = Inr (''Ann'', [''U1'' \<mapsto> ''Ann''], test_world None)"
proof -
  have first: "getUserName (test_server (\<lambda>_ _. Body \<lparr>profile_ok = True, real_name = ''Ann''\<rparr>)
       (\<lambda>_ _. Net_error []) (\<lambda>_ _. Net_error []))
     ''U1'' Map.empty (test_world (Some Map.empty)) =
     Inr (''Ann'', [''U1'' \<mapsto> ''Ann''], save_config \<lparr>cfg = test_config (Some [''U1'' \<mapsto> ''Ann'']),
       disk = None, sent = [Http_get (users_info_url ''U1'') ''xoxb''], stdout = [],
       emoji_tab = Map.empty, emoji_disk = No_file ''open slack.emoji.json: no such file or directory'',
       fs = Map.empty\<rparr>)"
    by (simp add: getUserName_def Let_def go_map_get_def go_map_put_def issue_def go_request_eval)
  show ?thesis
    using resolve_idempotent [OF first, of "test_server (\<lambda>_ _. Net_error ''down'')
      (\<lambda>_ _. Net_error []) (\<lambda>_ _. Net_error [])" "test_world None"] by simp
qed

text \<open>C6: a failed remote lookup is never cached.  Two resolutions in a row of
  an ID that neither cache holds and whose \<open>users.info\<close> request can be built,
  against a server whose two answers both fail,
  both resolve to \<open>"Unknown"\<close>, leave the session cache as it was, and each send
  one \<open>users.info\<close> request.\<close>

theorem resolve_failure_not_cached:
  assumes "u \<noteq> []" "c u = None" "go_map_get (user_cache (cfg w)) u = None"
    and "go_new_request_ok (users_info_url u)"
    and "\<not> lookup_succeeds (users_info srv (length (sent w)) (users_info_url u))"
    and "\<not> lookup_succeeds (users_info srv (Suc (length (sent w))) (users_info_url u))"
  shows "\<exists>w1 w2. getUserName srv u c w = Inr (''Unknown'', c, w1) \<and>
                 getUserName srv u c w1 = Inr (''Unknown'', c, w2) \<and>
                 sent w2 = sent w @ [Http_get (users_info_url u) (slack_bot_token (cfg w)),
                                     Http_get (users_info_url u) (slack_bot_token (cfg w))]"
proof -
  obtain n1 c1 w1 where r1: "getUserName srv u c w = Inr (n1, c1, w1)"
    using getUserName_remote_fail_Inr [OF assms(4,5)] by blast
  from getUserName_remote_fail [OF assms(1-3,5) r1]
  have f1: "n1 = ''Unknown''" "c1 = c" "cfg w1 = cfg w"
    and s1: "sent w1 = sent w @ [Http_get (users_info_url u) (slack_bot_token (cfg w))]"
    by auto
  have a4: "\<not> lookup_succeeds (users_info srv (length (sent w1)) (users_info_url u))"
    using assms(6) s1 by simp
  have a3: "go_map_get (user_cache (cfg w1)) u = None" using assms(3) f1 by simp
  obtain n2 c2 w2 where r2: "getUserName srv u c w1 = Inr (n2, c2, w2)"
    using getUserName_remote_fail_Inr [OF assms(4) a4] by blast
  from getUserName_remote_fail [OF assms(1,2) a3 a4 r2]
  have "n2 = ''Unknown''" "c2 = c"
    and "sent w2 = sent w1 @ [Http_get (users_info_url u) (slack_bot_token (cfg w1))]"
    by auto
  with r1 r2 f1 s1 show ?thesis by auto
qed

theorem resolve_failure_not_cached_witness:
  "\<exists>w1 w2. getUserName (test_server (\<lambda>_ _. Net_error ''timeout'') (\<lambda>_ _. Net_error []) (\<lambda>_ _. Net_error []))
       ''U1'' Map.empty (test_world (Some Map.empty)) = Inr (''Unknown'', Map.empty, w1) \<and>
     getUserName (test_server (\<lambda>_ _. Net_error ''timeout'') (\<lambda>_ _. Net_error []) (\<lambda>_ _. Net_error []))
       ''U1'' Map.empty w1 = Inr (''Unknown'', Map.empty, w2) \<and>
     sent w2 = [Http_get (users_info_url ''U1'') ''xoxb'', Http_get (users_info_url ''U1'') ''xoxb'']"
  using resolve_failure_not_cached [of "''U1''" Map.empty "test_world (Some Map.empty)"
      "test_server (\<lambda>_ _. Net_error ''timeout'') (\<lambda>_ _. Net_error []) (\<lambda>_ _. Net_error [])"]
  by (simp add: go_map_get_def lookup_succeeds_def go_request_eval)

text \<open>C7: the session cache and the persisted cache agree before a resolution
  (as \<open>fetchMessages\<close> sets them up) and after it, whichever branch is taken.\<close>

theorem resolve_keeps_caches_agree:
  assumes "caches_agree c w" and "getUserName srv u c w = Inr (n, c', w')"
  shows "caches_agree c' w'"
  using assms by (rule getUserName_agree)

theorem resolve_keeps_caches_agree_witness:
  "caches_agree [''U1'' \<mapsto> ''Ann''] (save_config \<lparr>cfg = test_config (Some [''U1'' \<mapsto> ''Ann'']),
       disk = None, sent = [Http_get (users_info_url ''U1'') ''xoxb''], stdout = [],
       emoji_tab = Map.empty, emoji_disk = No_file ''open slack.emoji.json: no such file or directory'',
       fs = Map.empty\<rparr>)"
proof -
  have a: "caches_agree Map.empty (test_world (Some Map.empty))"
    by (simp add: caches_agree_def go_map_get_def)
  have r: "getUserName (test_server (\<lambda>_ _. Body \<lparr>profile_ok = True, real_name = ''Ann''\<rparr>) (\<lambda>_ _. Net_error []) (\<lambda>_ _. Net_error []))
     ''U1'' Map.empty (test_world (Some Map.empty)) =
     Inr (''Ann'', [''U1'' \<mapsto> ''Ann''], save_config \<lparr>cfg = test_config (Some [''U1'' \<mapsto> ''Ann'']),
       disk = None, sent = [Http_get (users_info_url ''U1'') ''xoxb''], stdout = [],
       emoji_tab = Map.empty, emoji_disk = No_file ''open slack.emoji.json: no such file or directory'',
       fs = Map.empty\<rparr>)"
    by (simp add: getUserName_def Let_def go_map_get_def go_map_put_def issue_def go_request_eval)
  show ?thesis by (rule resolve_keeps_caches_agree [OF a r])
qed

text \<open>C8: a successful remote lookup writes through: the name goes into the
  session cache and the persisted cache, and the config file is rewritten with
  the updated cache before the name is returned (for an ID whose request can be
  built).\<close>

theorem resolve_write_through:
  assumes "u \<noteq> []" "c u = None" "go_map_get (user_cache (cfg w)) u = None"
    and "go_new_request_ok (users_info_url u)"
    and "users_info srv (length (sent w)) (users_info_url u) = Body p" "profile_ok p"
    and "user_cache (cfg w) \<noteq> None"
  shows "\<exists>w'. getUserName srv u c w = Inr (real_name p, c(u \<mapsto> real_name p), w') \<and>
              go_map_get (user_cache (cfg w')) u = Some (real_name p) \<and>
              disk w' = Some (Json (cfg w')) \<and> length (sent w') = Suc (length (sent w))"
proof -
  from assms(7) obtain m where m: "user_cache (cfg w) = Some m" by auto
  show ?thesis
    using getUserName_remote_ok [of u c w srv p m] assms m by (simp add: go_map_get_def)
qed

theorem resolve_write_through_witness:
  "\<exists>w'. getUserName (test_server (\<lambda>_ _. Body \<lparr>profile_ok = True, real_name = ''Ann''\<rparr>) (\<lambda>_ _. Net_error []) (\<lambda>_ _. Net_error []))
     ''U1'' Map.empty (test_world (Some Map.empty)) = Inr (''Ann'', [''U1'' \<mapsto> ''Ann''], w') \<and>
     go_map_get (user_cache (cfg w')) ''U1'' = Some ''Ann'' \<and> disk w' = Some (Json (cfg w')) \<and> length (sent w') = 1"
  using resolve_write_through [of "''U1''" Map.empty "test_world (Some Map.empty)"
      "test_server (\<lambda>_ _. Body \<lparr>profile_ok = True, real_name = ''Ann''\<rparr>) (\<lambda>_ _. Net_error []) (\<lambda>_ _. Net_error [])"
      "\<lparr>profile_ok = True, real_name = ''Ann''\<rparr>"]
  by (simp add: go_map_get_def go_request_eval)

text \<open>C9: when the config file has no \<open>user_cache\<close> object, the decoded map is
  \<open>nil\<close>, and the first successful remote lookup panics on the assignment to it
  (line 239): the program crashes instead of returning the name.  (An ID
  whose request cannot be built crashes earlier, at line 213.)\<close>

theorem resolve_nil_cache_panics:
  assumes "u \<noteq> []" "c u = None" "user_cache (cfg w) = None"
    and "go_new_request_ok (users_info_url u)"
    and "users_info srv (length (sent w)) (users_info_url u) = Body p" "profile_ok p"
  shows "getUserName srv u c w = Inl Assign_to_nil_map"
  using assms by (simp add: getUserName_def go_map_get_def)

theorem resolve_nil_cache_panics_witness:
  "getUserName (test_server (\<lambda>_ _. Body \<lparr>profile_ok = True, real_name = ''Ann''\<rparr>) (\<lambda>_ _. Net_error []) (\<lambda>_ _. Net_error []))
     ''U1'' Map.empty (test_world None) = Inl Assign_to_nil_map"
  by (rule resolve_nil_cache_panics [where p = "\<lparr>profile_ok = True, real_name = ''Ann''\<rparr>"])
    (simp_all add: go_request_eval)

text \<open>C10: the resolver refines the abstract one.  Whenever the config has a
  cache (so that no write panics), \<open>getUserName\<close> does what \<open>resolve_spec\<close>
  does on the table of the two caches: it panics exactly when the abstract
  resolver crashes, and otherwise returns the same name, leaves the table the
  abstract one leaves, and sends the \<open>users.info\<close> request exactly when the
  abstract resolver asks the server.\<close>

theorem resolver_refines_spec:
  assumes "user_cache (cfg w) \<noteq> None"
  shows "case resolve_spec (resolver_view c w) u (users_info srv (length (sent w)) (users_info_url u)) of
           Inl e \<Rightarrow> getUserName srv u c w = Inl e
         | Inr (n0, known', asked) \<Rightarrow>
             (\<exists>c' w'. getUserName srv u c w = Inr (n0, c', w') \<and> resolver_view c' w' = known' \<and>
                sent w' = sent w @ (if asked then [Http_get (users_info_url u) (slack_bot_token (cfg w))] else []))"
proof -
  from assms obtain m where m: "user_cache (cfg w) = Some m" by auto
  let ?a = "users_info srv (length (sent w)) (users_info_url u)"
  consider "u = []" | "u \<noteq> []" "c u \<noteq> None"
    | "u \<noteq> []" "c u = None" "go_map_get (user_cache (cfg w)) u \<noteq> None"
    | "u \<noteq> []" "c u = None" "go_map_get (user_cache (cfg w)) u = None" "\<not> go_new_request_ok (users_info_url u)"
    | "u \<noteq> []" "c u = None" "go_map_get (user_cache (cfg w)) u = None" "go_new_request_ok (users_info_url u)"
      "lookup_succeeds ?a"
    | "u \<noteq> []" "c u = None" "go_map_get (user_cache (cfg w)) u = None" "go_new_request_ok (users_info_url u)"
      "\<not> lookup_succeeds ?a"
    by blast
  then show ?thesis
  proof cases
    case 1
    then show ?thesis by (simp add: resolve_spec_def)
  next
    case 2
    then obtain n where "c u = Some n" by auto
    with 2 show ?thesis by (simp add: getUserName_session_hit resolve_spec_def resolver_view_def)
  next
    case 3
    then obtain n where "go_map_get (user_cache (cfg w)) u = Some n" by auto
    with 3 show ?thesis
      by (simp add: getUserName_config_hit resolve_spec_def resolver_view_def resolver_view_config_hit)
  next
    case 4
    then show ?thesis
      by (simp add: getUserName_bad_request resolve_spec_def resolver_view_def del: users_info_url_ok)
  next
    case 5
    then obtain p where "?a = Body p" "profile_ok p"
      by (auto simp: lookup_succeeds_def split: answer.splits)
    with 5 m show ?thesis
      by (simp add: getUserName_remote_ok resolve_spec_def resolver_view_def resolver_view_learn issue_def
          del: users_info_url_ok)
  next
    case 6
    obtain n c' w' where r: "getUserName srv u c w = Inr (n, c', w')"
      using getUserName_remote_fail_Inr [OF 6(4,5)] by blast
    from getUserName_remote_fail [OF 6(1-3) 6(5) r]
    have "n = ''Unknown''" "c' = c" "cfg w' = cfg w"
      and "sent w' = sent w @ [Http_get (users_info_url u) (slack_bot_token (cfg w))]" by auto
    with 6 r show ?thesis
      by (auto simp: resolve_spec_def resolver_view_def lookup_succeeds_def split: answer.splits)
  qed
qed

theorem resolver_refines_spec_witness:
  "\<exists>c' w'. getUserName (test_server (\<lambda>_ _. Body \<lparr>profile_ok = True, real_name = ''Ann''\<rparr>)
       (\<lambda>_ _. Net_error []) (\<lambda>_ _. Net_error [])) ''U1'' Map.empty (test_world (Some Map.empty)) =
       Inr (''Ann'', c', w') \<and> resolver_view c' w' = [''U1'' \<mapsto> ''Ann''] \<and> length (sent w') = 1"
proof -
  let ?srv = "test_server (\<lambda>_ _. Body \<lparr>profile_ok = True, real_name = ''Ann''\<rparr>) (\<lambda>_ _. Net_error []) (\<lambda>_ _. Net_error [])"
  have spec: "resolve_spec (resolver_view Map.empty (test_world (Some Map.empty))) ''U1''
      (users_info ?srv (length (sent (test_world (Some Map.empty)))) (users_info_url ''U1'')) =
      Inr (''Ann'', [''U1'' \<mapsto> ''Ann''], True)"
    by (simp add: resolve_spec_def resolver_view_def go_map_get_def fun_eq_iff go_request_eval)
  obtain c' w' where r: "getUserName ?srv ''U1'' Map.empty (test_world (Some Map.empty)) = Inr (''Ann'', c', w')"
    and s: "resolver_view c' w' = [''U1'' \<mapsto> ''Ann'']"
      "sent w' = [Http_get (users_info_url ''U1'') ''xoxb'']"
    using resolver_refines_spec [of "test_world (Some Map.empty)" ?srv "''U1''" Map.empty] spec by auto
  show ?thesis using r s by auto
qed

text \<open>C11: the error of \<open>http.NewRequest\<close> is not checked, so an ID that
  neither cache holds and whose \<open>users.info\<close> URL \<open>url.Parse\<close> rejects (a
  control byte in the ID, which comes from the server's JSON) crashes the
  program on the \<open>nil\<close> request at line 213, before any request is sent and
  whatever the server would have answered; a cached ID still resolves.\<close>

theorem resolve_unbuildable_request_panics:
  assumes "u \<noteq> []" "go_map_get (user_cache (cfg w)) u = None" "\<not> go_new_request_ok (users_info_url u)"
  shows "getUserName srv u c w = (case c u of None \<Rightarrow> Inl Nil_dereference | Some n \<Rightarrow> Inr (n, c, w))"
  using assms by (cases "c u") (simp_all add: getUserName_bad_request getUserName_session_hit del: users_info_url_ok)

theorem resolve_unbuildable_request_panics_witness:
  "getUserName (test_server (\<lambda>_ _. Body \<lparr>profile_ok = True, real_name = ''Ann''\<rparr>) (\<lambda>_ _. Net_error []) (\<lambda>_ _. Net_error []))
     (''U1'' @ [CHR 0x0A]) Map.empty (test_world (Some Map.empty)) = Inl Nil_dereference"
  using resolve_unbuildable_request_panics [of "''U1'' @ [CHR 0x0A]" "test_world (Some Map.empty)"
      "test_server (\<lambda>_ _. Body \<lparr>profile_ok = True, real_name = ''Ann''\<rparr>) (\<lambda>_ _. Net_error []) (\<lambda>_ _. Net_error [])"
      Map.empty]
    go_new_request_ok_ctl [of "''U1''" "CHR 0x0A" "[]"]
  by (simp add: go_map_get_def go_ctl_byte_def)

end
