(* ===== verification/Threads.thy ===== *)
theory Threads
  imports Name_Resolver
begin

text \<open>
  The Thread Expander, \<open>getThreadReplies\<close> (\<open>src/main.go\<close>, lines 464--498):
  one \<open>conversations.replies\<close> request for the thread, unless its URL (built
  from the channel and the thread's \<open>ts\<close>) is one \<open>url.Parse\<close> rejects: the
  error of \<open>http.NewRequest\<close> is ignored and line 467 dereferences the \<open>nil\<close>
  request, the panic \<open>Nil_dereference\<close>.  A transport error is
  returned to the caller, while a body that does not decode is ignored (the
  result of \<open>Decode\<close> is discarded) and gives no replies.  Every message of the
  thread other than the parent (whose \<open>ts\<close> is the thread's) that passes the
  substring filter becomes a \<open>SlackMessageReply\<close>, its author resolved with
  \<open>getUserName\<close>.  The reply is built without its \<open>Edited\<close> field.

  The lemmas show that the replies are exactly the thread's non-parent messages
  that pass the filter, in the server's order, that none of them carries an
  edited marker, and what the error paths leave behind.
\<close>

definition replies_url :: "string \<Rightarrow> string \<Rightarrow> string" where
  "replies_url channel threadTs =
     ''https://slack.com/api/conversations.replies?channel='' @ channel @ ''&ts='' @ threadTs"

text \<open>\<open>filter == "" || strings.Contains(msg.Text, filter)\<close>, shared with the paginator.\<close>

definition passes_filter :: "string \<Rightarrow> string \<Rightarrow> bool" where
  "passes_filter filterKw text \<longleftrightarrow> filterKw = [] \<or> go_contains text filterKw"

definition to_reply :: "string \<Rightarrow> slack_message_item \<Rightarrow> slack_message_reply" where
  "to_reply userName msg =
     \<lparr>reply_user = msg_user msg, reply_user_name = userName, reply_text = msg_text msg,
      reply_ts = msg_ts msg, reply_reactions = msg_reactions msg, reply_files = msg_files msg,
      reply_edited_user = []\<rparr>"

definition keeps_reply :: "string \<Rightarrow> string \<Rightarrow> slack_message_item \<Rightarrow> bool" where
  "keeps_reply threadTs filterKw msg \<longleftrightarrow> msg_ts msg \<noteq> threadTs \<and> passes_filter filterKw (msg_text msg)"

text \<open>The loop over \<open>threadResponse.Messages\<close>, appending to \<open>replies\<close>.\<close>

fun collect_replies ::
  "server \<Rightarrow> string \<Rightarrow> string \<Rightarrow> slack_message_item list \<Rightarrow> slack_message_reply list \<Rightarrow> go_map \<Rightarrow> world \<Rightarrow>
   panic + (slack_message_reply list \<times> go_map \<times> world)" where
  "collect_replies srv threadTs filterKw [] replies uc w = Inr (replies, uc, w)"
| "collect_replies srv threadTs filterKw (msg # msgs) replies uc w =
     (if keeps_reply threadTs filterKw msg then
        (case getUserName srv (msg_user msg) uc w of
           Inl p \<Rightarrow> Inl p
         | Inr (name, uc', w') \<Rightarrow>
             collect_replies srv threadTs filterKw msgs (replies @ [to_reply name msg]) uc' w')
      else collect_replies srv threadTs filterKw msgs replies uc w)"

text \<open>\<open>Inl e\<close> in the first component is the returned \<open>error\<close>.\<close>

definition getThreadReplies ::
  "server \<Rightarrow> string \<Rightarrow> string \<Rightarrow> string \<Rightarrow> go_map \<Rightarrow> world \<Rightarrow>
   panic + ((string + slack_message_reply list) \<times> go_map \<times> world)" where
  "getThreadReplies srv threadTs filterKw search userCache w =
     (let url = replies_url (channel_id (cfg w)) threadTs
      in if \<not> go_new_request_ok url then Inl Nil_dereference
      else
      let w1 = issue (Http_get url (slack_bot_token (cfg w))) w
      in case thread srv (length (sent w)) url of
           Net_error e \<Rightarrow> Inr (Inl e, userCache, w1)
         | Read_error _ \<Rightarrow> Inr (Inr [], userCache, w1)
         | Decode_error _ \<Rightarrow> Inr (Inr [], userCache, w1)
         | Body msgs \<Rightarrow>
             (case collect_replies srv threadTs filterKw msgs [] userCache w1 of
                Inl p \<Rightarrow> Inl p
              | Inr (replies, uc, w2) \<Rightarrow> Inr (Inr replies, uc, w2)))"

section \<open>Lemmas\<close>

lemma replies_url_ok [simp]:
  "go_new_request_ok (replies_url ch ts) = go_new_request_ok (ch @ ''&ts='' @ ts)"
  unfolding replies_url_def
  by (rule go_new_request_ok_prefix) (simp add: go_ctl_byte_def)

lemma collect_replies_result:
  "collect_replies srv threadTs filterKw msgs acc uc w = Inr (rs, uc', w') \<Longrightarrow>
   \<exists>names. rs = acc @ map2 to_reply names (filter (keeps_reply threadTs filterKw) msgs)
           \<and> length names = length (filter (keeps_reply threadTs filterKw) msgs)"
proof (induction msgs arbitrary: acc uc w)
  case Nil
  then show ?case by simp
next
  case (Cons m ms)
  show ?case
  proof (cases "keeps_reply threadTs filterKw m")
    case True
    with Cons.prems obtain n uc1 w1 where
      r: "getUserName srv (msg_user m) uc w = Inr (n, uc1, w1)" and
      rest: "collect_replies srv threadTs filterKw ms (acc @ [to_reply n m]) uc1 w1 = Inr (rs, uc', w')"
      by (auto split: sum.splits prod.splits)
    from Cons.IH [OF rest] obtain names where
      "rs = (acc @ [to_reply n m]) @ map2 to_reply names (filter (keeps_reply threadTs filterKw) ms)"
      "length names = length (filter (keeps_reply threadTs filterKw) ms)" by blast
    with True show ?thesis by (intro exI [of _ "n # names"]) simp
  next
    case False
    with Cons.prems Cons.IH show ?thesis by simp
  qed
qed

lemma map2_to_reply_fields:
  "length names = length ms \<Longrightarrow>
   map (\<lambda>r. (reply_user r, reply_text r, reply_ts r, reply_files r, reply_edited_user r))
       (map2 to_reply names ms) =
   map (\<lambda>m. (msg_user m, msg_text m, msg_ts m, msg_files m, [])) ms"
  by (induction names ms rule: list_induct2) (simp_all add: to_reply_def)

lemma collect_replies_cache_mono:
  "collect_replies srv threadTs filterKw msgs acc uc w = Inr (rs, uc', w') \<Longrightarrow> uc k = Some v \<Longrightarrow> uc' k = Some v"
proof (induction msgs arbitrary: acc uc w)
  case (Cons m ms)
  then show ?case
    by (auto split: if_splits sum.splits prod.splits dest: getUserName_cache_mono)
qed simp

section \<open>The expander's contract\<close>

text \<open>C18: the replies of a thread are exactly its messages other than the parent
  that pass the filter, in the server's order, with their authors, texts and
  files; none of them records an edit, so a reply is never shown \<open>(edited)\<close>.\<close>

theorem thread_replies_are_filtered_messages:
  assumes "thread srv (length (sent w)) (replies_url (channel_id (cfg w)) threadTs) = Body msgs"
    and "getThreadReplies srv threadTs filterKw search uc w = Inr (Inr rs, uc', w')"
  shows "map (\<lambda>r. (reply_user r, reply_text r, reply_ts r, reply_files r, reply_edited_user r)) rs =
         map (\<lambda>m. (msg_user m, msg_text m, msg_ts m, msg_files m, [])) (filter (keeps_reply threadTs filterKw) msgs)
       \<and> (\<forall>r \<in> set rs. reply_ts r \<noteq> threadTs \<and> passes_filter filterKw (reply_text r))"
proof -
  from assms obtain w1 where
    c: "collect_replies srv threadTs filterKw msgs [] uc w1 = Inr (rs, uc', w')"
    by (auto simp: getThreadReplies_def Let_def split: sum.splits prod.splits if_splits)
  from collect_replies_result [OF c] obtain names where
    rs: "rs = map2 to_reply names (filter (keeps_reply threadTs filterKw) msgs)" and
    len: "length names = length (filter (keeps_reply threadTs filterKw) msgs)" by auto
  have fields: "map (\<lambda>r. (reply_user r, reply_text r, reply_ts r, reply_files r, reply_edited_user r)) rs =
         map (\<lambda>m. (msg_user m, msg_text m, msg_ts m, msg_files m, [])) (filter (keeps_reply threadTs filterKw) msgs)"
    using map2_to_reply_fields [OF len] rs by simp
  have "\<forall>r \<in> set rs. reply_ts r \<noteq> threadTs \<and> passes_filter filterKw (reply_text r)"
  proof
    fix r assume "r \<in> set rs"
    then have "(reply_user r, reply_text r, reply_ts r, reply_files r, reply_edited_user r) \<in>
        set (map (\<lambda>m. (msg_user m, msg_text m, msg_ts m, msg_files m, [])) (filter (keeps_reply threadTs filterKw) msgs))"
      using fields by (metis (no_types, lifting) image_eqI list.set_map)
    then show "reply_ts r \<noteq> threadTs \<and> passes_filter filterKw (reply_text r)"
      by (auto simp: keeps_reply_def)
  qed
  with fields show ?thesis by blast
qed

theorem thread_replies_are_filtered_messages_witness:
  "getThreadReplies (test_server (\<lambda>_ _. Net_error []) (\<lambda>_ _. Net_error [])
      (\<lambda>_ _. Body [\<lparr>msg_user = [], msg_user_name = [], msg_text = ''parent'', msg_ts = ''1.0'', msg_thread_ts = ''1.0'',
                    msg_replies = [], msg_reactions = [], msg_files = [], msg_edited_user = []\<rparr>,
                  \<lparr>msg_user = [], msg_user_name = [], msg_text = ''re: yes'', msg_ts = ''2.0'', msg_thread_ts = ''1.0'',
                    msg_replies = [], msg_reactions = [], msg_files = [], msg_edited_user = ''U2''\<rparr>]))
     ''1.0'' [] [] Map.empty (test_world None) =
   Inr (Inr [\<lparr>reply_user = [], reply_user_name = ''Unknown'', reply_text = ''re: yes'', reply_ts = ''2.0'',
              reply_reactions = [], reply_files = [], reply_edited_user = []\<rparr>], Map.empty,
        issue (Http_get (replies_url ''C1'' ''1.0'') ''xoxb'') (test_world None))
   \<and> map (\<lambda>r. (reply_user r, reply_text r, reply_ts r, reply_files r, reply_edited_user r))
       [\<lparr>reply_user = [], reply_user_name = ''Unknown'', reply_text = ''re: yes'', reply_ts = ''2.0'',
              reply_reactions = [], reply_files = [], reply_edited_user = []\<rparr>] = [([], ''re: yes'', ''2.0'', [], [])]"
proof -
  let ?p = "\<lparr>msg_user = [], msg_user_name = [], msg_text = ''parent'', msg_ts = ''1.0'', msg_thread_ts = ''1.0'',
                    msg_replies = [], msg_reactions = [], msg_files = [], msg_edited_user = []\<rparr>"
  let ?r = "\<lparr>msg_user = [], msg_user_name = [], msg_text = ''re: yes'', msg_ts = ''2.0'', msg_thread_ts = ''1.0'',
                    msg_replies = [], msg_reactions = [], msg_files = [], msg_edited_user = ''U2''\<rparr>"
  let ?srv = "test_server (\<lambda>_ _. Net_error []) (\<lambda>_ _. Net_error []) (\<lambda>_ _. Body [?p, ?r])"
  have g: "getThreadReplies ?srv ''1.0'' [] [] Map.empty (test_world None) =
   Inr (Inr [\<lparr>reply_user = [], reply_user_name = ''Unknown'', reply_text = ''re: yes'', reply_ts = ''2.0'',
              reply_reactions = [], reply_files = [], reply_edited_user = []\<rparr>], Map.empty,
        issue (Http_get (replies_url ''C1'' ''1.0'') ''xoxb'') (test_world None))"
    by (simp add: getThreadReplies_def Let_def keeps_reply_def passes_filter_def to_reply_def go_request_eval)
  have "thread ?srv (length (sent (test_world None))) (replies_url (channel_id (cfg (test_world None))) ''1.0'') = Body [?p, ?r]"
    by simp
  from thread_replies_are_filtered_messages [OF this g] g show ?thesis
    by (simp add: keeps_reply_def passes_filter_def)
qed

text \<open>C19: the error paths of the expander.  A thread URL that \<open>url.Parse\<close>
  rejects crashes the program on the \<open>nil\<close> request before anything is sent.
  Otherwise a transport error of the thread request is returned as the error
  value with no replies, after exactly that one request; a body that does not
  decode is not an error but gives no replies.  Neither touches the caches.\<close>

theorem thread_errors:
  assumes "thread srv (length (sent w)) (replies_url (channel_id (cfg w)) threadTs) = a"
  shows "(\<not> go_new_request_ok (replies_url (channel_id (cfg w)) threadTs) \<longrightarrow>
            getThreadReplies srv threadTs filterKw search uc w = Inl Nil_dereference)
       \<and> (go_new_request_ok (replies_url (channel_id (cfg w)) threadTs) \<and> a = Net_error e \<longrightarrow>
            getThreadReplies srv threadTs filterKw search uc w =
            Inr (Inl e, uc, issue (Http_get (replies_url (channel_id (cfg w)) threadTs) (slack_bot_token (cfg w))) w))
       \<and> (go_new_request_ok (replies_url (channel_id (cfg w)) threadTs) \<and> a = Decode_error e \<longrightarrow>
            getThreadReplies srv threadTs filterKw search uc w =
            Inr (Inr [], uc, issue (Http_get (replies_url (channel_id (cfg w)) threadTs) (slack_bot_token (cfg w))) w))"
  using assms by (simp add: getThreadReplies_def del: replies_url_ok)

theorem thread_errors_witness:
  "getThreadReplies (test_server (\<lambda>_ _. Net_error []) (\<lambda>_ _. Net_error []) (\<lambda>_ _. Net_error ''reset''))
     ''1.0'' [] [] Map.empty (test_world None) =
   Inr (Inl ''reset'', Map.empty, issue (Http_get (replies_url ''C1'' ''1.0'') ''xoxb'') (test_world None))
   \<and> getThreadReplies (test_server (\<lambda>_ _. Net_error []) (\<lambda>_ _. Net_error []) (\<lambda>_ _. Net_error ''reset''))
     (''1.0'' @ [CHR 0x7F]) [] [] Map.empty (test_world None) = Inl Nil_dereference"
proof -
  let ?srv = "test_server (\<lambda>_ _. Net_error []) (\<lambda>_ _. Net_error []) (\<lambda>_ _. Net_error ''reset'')"
  have ok: "go_new_request_ok (replies_url ''C1'' ''1.0'')" by (simp add: go_request_eval)
  have bad: "\<not> go_new_request_ok (replies_url ''C1'' (''1.0'' @ [CHR 0x7F]))"
    using go_new_request_ok_ctl [of "''C1&ts=1.0''" "CHR 0x7F" "[]"] by (simp add: go_ctl_byte_def)
  show ?thesis
    using thread_errors [of ?srv "test_world None" "''1.0''" "Net_error ''reset''" _ _ _ "''reset''"]
      thread_errors [of ?srv "test_world None" "''1.0'' @ [CHR 0x7F]" "Net_error ''reset''"] ok bad
    by simp
qed

end
