(* ===== verification/Date_Range.thy ===== *)
theory Date_Range
  imports Slack_Types
begin

text \<open>
  The Time-Range Parser: the first part of \<open>fetchMessages\<close> (\<open>src/main.go\<close>,
  lines 279--316) turns the \<open>--date\<close> argument into the \<open>oldest\<close> and
  \<open>latest\<close> bounds of the history request.  The argument is split at \<open>":"\<close>;
  one piece is a single day, two pieces a range, anything else an error.  Each
  piece is read by \<open>time.Parse("2006-01-02", _)\<close>, which in UTC accepts exactly
  four year digits, a dash, two month digits, a dash, two day digits, with the
  month in 1..12 and the day within the month; \<open>Unix()\<close> of the result is its
  day number since 1970-01-01 times 86400.  \<open>AddDate(0, 0, 1)\<close> is
  \<open>time.Date\<close> with the day plus one, which Go normalises by counting days,
  so \<open>days_from_civil y m (d + 1)\<close> is exactly what it computes.

  The lemmas show the spec's section 4.1: a single day gives the bounds from its
  midnight to one second before the next day's midnight; a range gives the
  first day's midnight and the last second of the end day; any malformed piece
  fails with no bounds; and \<open>d + 1\<close> is the next calendar day, across month and
  year ends.
\<close>

section \<open>Calendar\<close>

definition is_leap :: "int \<Rightarrow> bool" where
  "is_leap y \<longleftrightarrow> y mod 4 = 0 \<and> (y mod 100 \<noteq> 0 \<or> y mod 400 = 0)"

definition days_in_month :: "int \<Rightarrow> nat \<Rightarrow> nat" where
  "days_in_month y m =
     (if m = 2 then (if is_leap y then 29 else 28)
      else if m = 4 \<or> m = 6 \<or> m = 9 \<or> m = 11 then 30 else 31)"

definition days_before_month :: "int \<Rightarrow> nat \<Rightarrow> int" where
  "days_before_month y m =
     [0, 31, 59, 90, 120, 151, 181, 212, 243, 273, 304, 334] ! (m - 1)
     + (if is_leap y \<and> 2 < m then 1 else 0)"

definition leaps_before :: "int \<Rightarrow> int" where
  "leaps_before y = (y - 1) div 4 - (y - 1) div 100 + (y - 1) div 400"

definition days_from_civil :: "int \<Rightarrow> nat \<Rightarrow> nat \<Rightarrow> int" where
  "days_from_civil y m d =
     365 * (y - 1970) + (leaps_before y - leaps_before 1970) + days_before_month y m + int d - 1"

definition unix_midnight :: "int \<Rightarrow> nat \<Rightarrow> nat \<Rightarrow> int" where
  "unix_midnight y m d = days_from_civil y m d * 86400"

section \<open>\<open>time.Parse("2006-01-02", _)\<close>\<close>

definition parse_date :: "string \<Rightarrow> (int \<times> nat \<times> nat) option" where
  "parse_date s =
     (case s of
       [y1, y2, y3, y4, dash1, m1, m2, dash2, d1, d2] \<Rightarrow>
         if list_all is_digit [y1, y2, y3, y4, m1, m2, d1, d2]
            \<and> dash1 = CHR ''-'' \<and> dash2 = CHR ''-'' then
           let year = int (1000 * digit_val y1 + 100 * digit_val y2 + 10 * digit_val y3 + digit_val y4);
               month = 10 * digit_val m1 + digit_val m2;
               day = 10 * digit_val d1 + digit_val d2
           in if 1 \<le> month \<and> month \<le> 12 \<and> 1 \<le> day \<and> day \<le> days_in_month year month
              then Some (year, month, day) else None
         else None
     | _ \<Rightarrow> None)"

section \<open>The \<open>--date\<close> argument\<close>

datatype date_error =
    Invalid_date
  | Invalid_start_date
  | Invalid_end_date
  | Invalid_range_format

fun date_error_message :: "date_error \<Rightarrow> string" where
  "date_error_message Invalid_date = ''Invalid date format. Use YYYY-MM-DD.''"
| "date_error_message Invalid_start_date = ''Invalid start date format. Use YYYY-MM-DD.''"
| "date_error_message Invalid_end_date = ''Invalid end date format. Use YYYY-MM-DD.''"
| "date_error_message Invalid_range_format =
     ''Invalid date range format. Use YYYY-MM-DD or YYYY-MM-DD:YYYY-MM-DD.''"

text \<open>\<open>Inr None\<close>: no range given; \<open>Inr (Some (oldest, latest))\<close>: the bounds.\<close>

definition parse_date_range :: "string \<Rightarrow> date_error + (int \<times> int) option" where
  "parse_date_range dateRange =
     (if dateRange = [] then Inr None
      else case go_split CHR '':'' dateRange of
        [date] \<Rightarrow>
          (case parse_date date of
            None \<Rightarrow> Inl Invalid_date
          | Some (y, m, d) \<Rightarrow> Inr (Some (unix_midnight y m d, unix_midnight y m (d + 1) - 1)))
      | [startDate, endDate] \<Rightarrow>
          (case parse_date startDate of
            None \<Rightarrow> Inl Invalid_start_date
          | Some (y1, m1, d1) \<Rightarrow>
              (case parse_date endDate of
                None \<Rightarrow> Inl Invalid_end_date
              | Some (y2, m2, d2) \<Rightarrow> Inr (Some (unix_midnight y1 m1 d1, unix_midnight y2 m2 (d2 + 1) - 1))))
      | _ \<Rightarrow> Inl Invalid_range_format)"

text \<open>The next calendar day of a valid date: the spec's \<open>date + 1 day\<close>.\<close>

definition next_day :: "int \<times> nat \<times> nat \<Rightarrow> int \<times> nat \<times> nat" where
  "next_day ymd =
     (case ymd of (y, m, d) \<Rightarrow>
        if d < days_in_month y m then (y, m, d + 1)
        else if m < 12 then (y, m + 1, 1) else (y + 1, 1, 1))"

definition valid_date :: "int \<times> nat \<times> nat \<Rightarrow> bool" where
  "valid_date ymd \<longleftrightarrow> (case ymd of (y, m, d) \<Rightarrow> 1 \<le> m \<and> m \<le> 12 \<and> 1 \<le> d \<and> d \<le> days_in_month y m)"

section \<open>Calendar lemmas\<close>

lemma div_pred_step:
  fixes y k :: int
  assumes k: "0 < k"
  shows "y div k = (y - 1) div k + (if y mod k = 0 then 1 else 0)"
proof -
  define q r where "q = y div k" and "r = y mod k"
  have y: "y = r + k * q" and r: "0 \<le> r" "r < k"
    using k by (simp_all add: q_def r_def)
  show ?thesis
  proof (cases "r = 0")
    case True
    then have e: "y - 1 = (k - 1) + k * (q - 1)" using y by (simp add: algebra_simps)
    have "(y - 1) div k = ((k - 1) + k * (q - 1)) div k" by (simp only: e)
    also have "\<dots> = (q - 1) + (k - 1) div k" using k by (simp only: div_mult_self2)
    also have "(k - 1) div k = 0" using k by simp
    finally show ?thesis using True by (simp add: q_def r_def)
  next
    case False
    have e: "y - 1 = (r - 1) + k * q" using y by simp
    have "(y - 1) div k = ((r - 1) + k * q) div k" by (simp only: e)
    also have "\<dots> = q + (r - 1) div k" using k by (simp only: div_mult_self2)
    also have "(r - 1) div k = 0" using r False by simp
    finally show ?thesis using False by (simp add: q_def r_def)
  qed
qed

lemma leaps_before_succ: "leaps_before (y + 1) = leaps_before y + (if is_leap y then 1 else 0)"
proof -
  have d4: "y div 4 = (y - 1) div 4 + (if y mod 4 = 0 then 1 else 0)"
    and d100: "y div 100 = (y - 1) div 100 + (if y mod 100 = 0 then 1 else 0)"
    and d400: "y div 400 = (y - 1) div 400 + (if y mod 400 = 0 then 1 else 0)"
    by (rule div_pred_step, simp)+
  have m1: "y mod 400 = 0 \<Longrightarrow> y mod 100 = 0"
    using mod_mod_cancel [of 100 400 y] by simp
  have m2: "y mod 100 = 0 \<Longrightarrow> y mod 4 = 0"
    using mod_mod_cancel [of 4 100 y] by simp
  have "leaps_before (y + 1) = y div 4 - y div 100 + y div 400"
    by (simp add: leaps_before_def)
  also have "\<dots> = leaps_before y + ((if y mod 4 = 0 then 1 else 0)
      - (if y mod 100 = 0 then 1 else 0) + (if y mod 400 = 0 then 1 else 0))"
    by (simp only: d4 d100 d400 leaps_before_def)
  also have "(if y mod 4 = 0 then 1 else 0) - (if y mod 100 = 0 then 1 else 0)
      + (if y mod 400 = 0 then 1 else 0) = (if is_leap y then 1 else (0::int))"
  proof (cases "y mod 400 = 0")
    case True
    have h100: "y mod 100 = 0" using m1 True by blast
    have h4: "y mod 4 = 0" using m2 h100 by blast
    show ?thesis using True h100 h4 by (simp add: is_leap_def)
  next
    case F400: False
    show ?thesis
    proof (cases "y mod 100 = 0")
      case True
      with m2 have "y mod 4 = 0" by blast
      with True F400 show ?thesis by (simp add: is_leap_def)
    next
      case False
      with F400 show ?thesis by (simp add: is_leap_def)
    qed
  qed
  finally show ?thesis .
qed

lemma days_before_month_Suc:
  assumes "1 \<le> m" "m < 12"
  shows "days_before_month y (Suc m) = days_before_month y m + int (days_in_month y m)"
proof -
  from assms have "m = 1 \<or> m = 2 \<or> m = 3 \<or> m = 4 \<or> m = 5 \<or> m = 6 \<or> m = 7 \<or> m = 8 \<or> m = 9 \<or> m = 10 \<or> m = 11"
    by arith
  then show ?thesis
    by (elim disjE) (simp_all add: days_before_month_def days_in_month_def)
qed

lemma days_from_civil_year_end:
  "days_from_civil (y + 1) 1 1 = days_from_civil y 12 31 + 1"
proof -
  have "days_before_month y 12 = 334 + (if is_leap y then 1 else 0)"
    by (simp add: days_before_month_def)
  moreover have "days_before_month (y + 1) 1 = 0"
    by (simp add: days_before_month_def)
  ultimately show ?thesis
    by (simp add: days_from_civil_def leaps_before_succ)
qed
lemma days_from_civil_next_day:
  assumes "valid_date (y, m, d)"
  shows "case next_day (y, m, d) of (y', m', d') \<Rightarrow> days_from_civil y' m' d' = days_from_civil y m d + 1"
proof (cases "d < days_in_month y m")
  case True
  then show ?thesis by (simp add: next_day_def days_from_civil_def)
next
  case False
  with assms have d: "d = days_in_month y m" by (simp add: valid_date_def)
  show ?thesis
  proof (cases "m < 12")
    case True
    with assms d show ?thesis
      by (simp add: next_day_def days_from_civil_def days_before_month_Suc valid_date_def)
  next
    case False
    with assms have "m = 12" by (simp add: valid_date_def)
    with d show ?thesis
      using days_from_civil_year_end [of y] by (simp add: next_day_def days_in_month_def)
  qed
qed

section \<open>Parsing lemmas\<close>

lemma is_digit_not_colon: "is_digit c \<Longrightarrow> c \<noteq> CHR '':''"
  by (auto simp: is_digit_def)

lemma parse_date_Some:
  assumes "parse_date s = Some (y, m, d)"
  shows "valid_date (y, m, d) \<and> CHR '':'' \<notin> set s \<and> s \<noteq> []"
proof -
  from assms obtain y1 y2 y3 y4 dash1 m1 m2 dash2 d1 d2 where
    s: "s = [y1, y2, y3, y4, dash1, m1, m2, dash2, d1, d2]" and
    digits: "list_all is_digit [y1, y2, y3, y4, m1, m2, d1, d2]" and
    dashes: "dash1 = CHR ''-''" "dash2 = CHR ''-''"
    by (auto simp: parse_date_def split: list.splits if_splits)
  from assms s digits dashes have "valid_date (y, m, d)"
    by (auto simp: parse_date_def valid_date_def Let_def split: if_splits)
  moreover from digits dashes have "CHR '':'' \<notin> set s"
    unfolding s by (auto dest: is_digit_not_colon)
  ultimately show ?thesis using s by simp
qed

lemma go_split_append_sep: "c \<notin> set a \<Longrightarrow> go_split c (a @ c # b) = a # go_split c b"
proof (induction a)
  case (Cons x xs)
  then have "x \<noteq> c" by auto
  with Cons show ?case by (simp add: Let_def)
qed (simp add: Let_def)

lemma unix_midnight_next_day:
  assumes "valid_date (y, m, d)"
  shows "unix_midnight y m (d + 1) = (case next_day (y, m, d) of (y', m', d') \<Rightarrow> unix_midnight y' m' d')"
  using days_from_civil_next_day [OF assms]
  by (simp add: unix_midnight_def days_from_civil_def split: prod.splits)

lemma parse_date_range_day:
  assumes "parse_date s = Some (y, m, d)"
  shows "parse_date_range s = Inr (Some (unix_midnight y m d, unix_midnight y m d + 86399))"
proof -
  from parse_date_Some [OF assms] have c: "CHR '':'' \<notin> set s" and n: "s \<noteq> []" by auto
  have "unix_midnight y m (d + 1) = unix_midnight y m d + 86400"
    by (simp add: unix_midnight_def days_from_civil_def algebra_simps)
  then show ?thesis using assms c n by (simp add: parse_date_range_def)
qed

lemma parse_date_fields:
  assumes "parse_date s = Some (y, m, d)"
  shows "\<exists>ys ms ds. s = ys @ CHR ''-'' # ms @ CHR ''-'' # ds \<and> length ys = 4 \<and> length ms = 2 \<and> length ds = 2 \<and>
           list_all is_digit ys \<and> list_all is_digit ms \<and> list_all is_digit ds \<and>
           y = int (dec_value ys) \<and> m = dec_value ms \<and> d = dec_value ds"
proof -
  from assms obtain y1 y2 y3 y4 dash1 m1 m2 dash2 d1 d2 where
    s: "s = [y1, y2, y3, y4, dash1, m1, m2, dash2, d1, d2]" and
    digits: "list_all is_digit [y1, y2, y3, y4, m1, m2, d1, d2]" and
    dashes: "dash1 = CHR ''-''" "dash2 = CHR ''-''"
    by (auto simp: parse_date_def split: list.splits if_splits)
  from assms s digits dashes have
    "y = int (dec_value [y1, y2, y3, y4])" "m = dec_value [m1, m2]" "d = dec_value [d1, d2]"
    by (auto simp: parse_date_def dec_value_def Let_def split: if_splits)
  with s digits dashes show ?thesis
    by (intro exI [of _ "[y1, y2, y3, y4]"] exI [of _ "[m1, m2]"] exI [of _ "[d1, d2]"]) simp
qed

section \<open>The parser's contract\<close>

text \<open>C22: a single valid date \<open>D\<close> gives the bounds from \<open>D\<close>'s midnight (UTC)
  to one second before the midnight of the next calendar day; the range spans
  exactly 86400 seconds.\<close>

theorem date_range_single_day:
  assumes "parse_date s = Some (y, m, d)"
  shows "parse_date_range s = Inr (Some (unix_midnight y m d,
           (case next_day (y, m, d) of (y', m', d') \<Rightarrow> unix_midnight y' m' d') - 1))
         \<and> (case next_day (y, m, d) of (y', m', d') \<Rightarrow> unix_midnight y' m' d') - 1
             = unix_midnight y m d + 86399"
proof -
  from parse_date_Some [OF assms]
  have v: "valid_date (y, m, d)" and c: "CHR '':'' \<notin> set s" and n: "s \<noteq> []" by auto
  have "parse_date_range s = Inr (Some (unix_midnight y m d, unix_midnight y m (d + 1) - 1))"
    using assms c n by (simp add: parse_date_range_def)
  moreover have "unix_midnight y m (d + 1) = unix_midnight y m d + 86400"
    by (simp add: unix_midnight_def days_from_civil_def algebra_simps)
  ultimately show ?thesis
    using unix_midnight_next_day [OF v] by simp
qed

theorem date_range_single_day_witness:
  "parse_date_range ''2024-01-01'' = Inr (Some (1704067200, 1704153599))"
proof -
  have p: "parse_date ''2024-01-01'' = Some (2024, 1, 1)" by code_simp
  have n: "next_day (2024, 1, 1) = (2024, 1, 2)" by code_simp
  have u: "unix_midnight 2024 1 1 = 1704067200" "unix_midnight 2024 1 2 = 1704153600" by code_simp+
  show ?thesis using date_range_single_day [OF p] n u by simp
qed

text \<open>C24: a range \<open>A:B\<close> of two valid dates gives \<open>A\<close>'s midnight as the
  lower bound and the last second of \<open>B\<close> as the upper bound: one second
  before the midnight of the next calendar day after \<open>B\<close> (\<open>next_day\<close>,
  across month and year ends), which the code reaches with
  \<open>AddDate(0, 0, 1)\<close> (line 309).\<close>

theorem date_range_two_days:
  assumes "parse_date a = Some (y1, m1, d1)" and "parse_date b = Some (y2, m2, d2)"
  shows "parse_date_range (a @ CHR '':'' # b) = Inr (Some (unix_midnight y1 m1 d1,
           (case next_day (y2, m2, d2) of (y', m', d') \<Rightarrow> unix_midnight y' m' d') - 1))"
proof -
  from parse_date_Some [OF assms(1)] have ca: "CHR '':'' \<notin> set a" by auto
  from parse_date_Some [OF assms(2)] have v: "valid_date (y2, m2, d2)" and cb: "CHR '':'' \<notin> set b"
    by auto
  have "go_split CHR '':'' (a @ CHR '':'' # b) = [a, b]"
    using ca cb by (simp add: go_split_append_sep)
  then have "parse_date_range (a @ CHR '':'' # b) =
      Inr (Some (unix_midnight y1 m1 d1, unix_midnight y2 m2 (d2 + 1) - 1))"
    using assms by (simp add: parse_date_range_def)
  then show ?thesis using unix_midnight_next_day [OF v] by simp
qed

theorem date_range_two_days_witness:
  "parse_date_range ''2023-12-29:2023-12-31'' = Inr (Some (1703808000, 1704067199))"
proof -
  have a: "parse_date ''2023-12-29'' = Some (2023, 12, 29)" by code_simp
  have b: "parse_date ''2023-12-31'' = Some (2023, 12, 31)" by code_simp
  have n: "next_day (2023, 12, 31) = (2024, 1, 1)" by code_simp
  have u: "unix_midnight 2023 12 29 = 1703808000" "unix_midnight 2024 1 1 = 1704067200" by code_simp+
  have s: "''2023-12-29:2023-12-31'' = ''2023-12-29'' @ CHR '':'' # ''2023-12-31''" by simp
  show ?thesis using date_range_two_days [OF a b] n u by (simp only: s) simp
qed

text \<open>C23: a non-empty argument with a malformed piece (a bad format, a month
  out of range, a day past the month's end) fails with an error and no bounds,
  and so does an argument of more than two pieces.\<close>

theorem date_range_malformed:
  assumes "dateRange \<noteq> []"
    and "(\<exists>p \<in> set (go_split CHR '':'' dateRange). parse_date p = None) \<or>
         2 < length (go_split CHR '':'' dateRange)"
  shows "\<exists>e. parse_date_range dateRange = Inl e"
  using assms
  by (auto simp: parse_date_range_def split: list.splits option.splits)

theorem date_range_malformed_witness:
  "(\<exists>e. parse_date_range ''2023-02-29'' = Inl e) \<and> (\<exists>e. parse_date_range ''2024-01-01:2024-13-01'' = Inl e)
   \<and> (\<exists>e. parse_date_range ''2024-01-01:2024-01-02:2024-01-03'' = Inl e)"
proof -
  have "''2023-02-29'' \<in> set (go_split CHR '':'' ''2023-02-29'') \<and> parse_date ''2023-02-29'' = None"
    by code_simp
  then have 1: "\<exists>e. parse_date_range ''2023-02-29'' = Inl e"
    using date_range_malformed [of "''2023-02-29''"] by blast
  have "''2024-13-01'' \<in> set (go_split CHR '':'' ''2024-01-01:2024-13-01'') \<and> parse_date ''2024-13-01'' = None"
    by code_simp
  then have 2: "\<exists>e. parse_date_range ''2024-01-01:2024-13-01'' = Inl e"
    using date_range_malformed [of "''2024-01-01:2024-13-01''"] by blast
  have "2 < length (go_split CHR '':'' ''2024-01-01:2024-01-02:2024-01-03'')"
    by code_simp
  then have 3: "\<exists>e. parse_date_range ''2024-01-01:2024-01-02:2024-01-03'' = Inl e"
    using date_range_malformed [of "''2024-01-01:2024-01-02:2024-01-03''"] by blast
  from 1 2 3 show ?thesis by blast
qed

text \<open>The day after a valid date, as \<open>AddDate(0, 0, 1)\<close> computes it, is the
  next calendar day: within a month, across a month end and across a year end,
  leap years included.\<close>

theorem add_one_day_next_calendar_day:
  assumes "valid_date (y, m, d)"
  shows "valid_date (next_day (y, m, d)) \<and>
         (case next_day (y, m, d) of (y', m', d') \<Rightarrow> days_from_civil y' m' d' = days_from_civil y m d + 1)"
proof -
  have "valid_date (next_day (y, m, d))"
    using assms by (auto simp: next_day_def valid_date_def days_in_month_def)
  then show ?thesis using days_from_civil_next_day [OF assms] by simp
qed

theorem add_one_day_next_calendar_day_witness:
  "valid_date (next_day (2024, 2, 29)) \<and> next_day (2024, 2, 29) = (2024, 3, 1) \<and>
   days_from_civil 2024 3 1 = days_from_civil 2024 2 29 + 1"
proof -
  have v: "valid_date (2024, 2, 29)" by code_simp
  have n: "next_day (2024, 2, 29) = (2024, 3, 1)" by code_simp
  show ?thesis using add_one_day_next_calendar_day [OF v] n by simp
qed

text \<open>The range is not checked for order: a start date after the end date gives a
  lower bound above the upper bound.\<close>

lemma date_range_reversed:
  "parse_date_range ''2024-01-05:2024-01-01'' = Inr (Some (1704412800, 1704153599))"
  by code_simp

end
