(* ===== verification/Paginator.thy ===== *)
theory Paginator
  imports Formatter Threads Date_Range
begin

text \<open>
  The History Paginator, \<open>fetchMessages\<close> (\<open>src/main.go\<close>, lines 275--457).
  After the date range is parsed (theory \<open>Date_Range\<close>) and the session cache
  is copied from the config, the loop sends a \<open>conversations.history\<close> request
  (\<open>limit\<close>, the bounds, the cursor), reverses the page into chronological
  order, and walks it: it stops once \<open>limit\<close> messages were accepted; a message
  is accepted when it passes the substring filter and, with \<open>--files\<close>, has a
  file; an accepted message is rendered (theory \<open>Formatter\<close>) with its author
  resolved (theory \<open>Name_Resolver\<close>) and, when it starts a thread, its replies
  (theory \<open>Threads\<close>), each reply's author resolved again.  The loop goes on
  while \<open>has_more && cursor != "" && dateRange != ""\<close>, testing the cursor
  \<^emph>\<open>before\<close> it is replaced by \<open>next_cursor\<close>.  The rendered lines are kept
  in a buffer and printed after the loop; a request or decode error prints a
  message and returns, so the buffer is never printed.  The error of
  \<open>http.NewRequest\<close> is ignored (line 340): a history URL \<open>url.Parse\<close>
  rejects, from a control byte in the configured channel ID, panics on the
  \<open>nil\<close> request at line 341.

  The loop is a \<open>partial_function (option)\<close>: \<open>None\<close> would be a run that never
  ends.  The lemmas show that it always ends after exactly one history request
  (the cursor tested is the empty initial one), that the walk of a page is the
  reference "filter, then take \<open>limit\<close>" on the chronological page, that no more
  than \<open>limit\<close> messages are accepted, what an error does to the output, and that
  a failed thread request still shows the parent.
\<close>

section \<open>Options and state\<close>

record show_opts =
  limit :: int
  date_range :: string
  search :: string
  filter_kw :: string
  files_only :: bool
  emoji_list :: go_map
  fmt_ts :: "string \<Rightarrow> string"

text \<open>The local variables of the loop: \<open>totalFetched\<close>, \<open>messages\<close> (the output
  buffer), \<open>userCache\<close>, and the state of the world.\<close>

record show_state =
  total_fetched :: int
  out_buf :: "string list"
  session :: go_map
  wld :: world

definition history_url :: "string \<Rightarrow> int \<Rightarrow> (int \<times> int) option \<Rightarrow> string \<Rightarrow> string" where
  "history_url channel lim bounds cursor =
     (let base = ''https://slack.com/api/conversations.history?channel='' @ channel @ ''&limit='' @ go_itoa lim;
          ranged = (case bounds of
                      None \<Rightarrow> base
                    | Some (oldest, latest) \<Rightarrow> base @ ''&oldest='' @ go_itoa oldest @ ''&latest='' @ go_itoa latest)
      in if cursor \<noteq> [] then ranged @ ''&cursor='' @ cursor else ranged)"

definition accepts :: "show_opts \<Rightarrow> slack_message_item \<Rightarrow> bool" where
  "accepts opts msg \<longleftrightarrow> passes_filter (filter_kw opts) (msg_text msg) \<and> \<not> (files_only opts \<and> msg_files msg = [])"

section \<open>Rendering accepted messages\<close>

text \<open>The loop over the replies (lines 410--439): each author is resolved again.\<close>

fun render_replies ::
  "server \<Rightarrow> show_opts \<Rightarrow> slack_message_reply list \<Rightarrow> show_state \<Rightarrow> panic + show_state" where
  "render_replies srv opts [] st = Inr st"
| "render_replies srv opts (reply # replies) st =
     (case getUserName srv (reply_user reply) (session st) (wld st) of
        Inl p \<Rightarrow> Inl p
      | Inr (replyUserName, uc, w) \<Rightarrow>
          render_replies srv opts replies
            (st\<lparr>out_buf := out_buf st @ render_reply (fmt_ts opts) (search opts) replyUserName
                   (getReactionsString (emoji_list opts) (reply_reactions reply)) reply,
                session := uc, wld := w\<rparr>))"

text \<open>The body of the loop for an accepted message (lines 377--442).\<close>

definition render_accepted ::
  "server \<Rightarrow> show_opts \<Rightarrow> slack_message_item \<Rightarrow> show_state \<Rightarrow> panic + show_state" where
  "render_accepted srv opts msg st =
     (case getUserName srv (msg_user msg) (session st) (wld st) of
        Inl p \<Rightarrow> Inl p
      | Inr (userName, uc, w) \<Rightarrow>
          (let st1 = st\<lparr>out_buf := out_buf st @ render_message (fmt_ts opts) (search opts) (filter_kw opts)
                          userName (getReactionsString (emoji_list opts) (msg_reactions msg)) msg,
                        session := uc, wld := w\<rparr>
           in if msg_thread_ts msg \<noteq> [] then
                (case getThreadReplies srv (msg_thread_ts msg) (filter_kw opts) (search opts) uc w of
                   Inl p \<Rightarrow> Inl p
                 | Inr (Inl err, uc2, w2) \<Rightarrow>
                     Inr (st1\<lparr>session := uc2, wld := w2, total_fetched := total_fetched st + 1\<rparr>)
                 | Inr (Inr replies, uc2, w2) \<Rightarrow>
                     (case render_replies srv opts replies (st1\<lparr>session := uc2, wld := w2\<rparr>) of
                        Inl p \<Rightarrow> Inl p
                      | Inr st2 \<Rightarrow> Inr (st2\<lparr>total_fetched := total_fetched st + 1\<rparr>)))
              else Inr (st1\<lparr>total_fetched := total_fetched st + 1\<rparr>)))"

text \<open>The walk of one page (lines 368--444), with its early exit.\<close>

fun process_msgs ::
  "server \<Rightarrow> show_opts \<Rightarrow> slack_message_item list \<Rightarrow> show_state \<Rightarrow> panic + show_state" where
  "process_msgs srv opts [] st = Inr st"
| "process_msgs srv opts (msg # msgs) st =
     (if limit opts \<le> total_fetched st then Inr st
      else if accepts opts msg then
        (case render_accepted srv opts msg st of
           Inl p \<Rightarrow> Inl p
         | Inr st' \<Rightarrow> process_msgs srv opts msgs st')
      else process_msgs srv opts msgs st)"

section \<open>The loop\<close>

text \<open>The result: the final state and whether the loop ended normally
  (\<open>True\<close>) or returned on an error (\<open>False\<close>).\<close>

partial_function (option) fetch_loop ::
  "server \<Rightarrow> show_opts \<Rightarrow> (int \<times> int) option \<Rightarrow> string \<Rightarrow> show_state \<Rightarrow> (panic + show_state \<times> bool) option" where
  "fetch_loop srv opts bounds cursor st =
     (let url = history_url (channel_id (cfg (wld st))) (limit opts) bounds cursor
      in if \<not> go_new_request_ok url then Some (Inl Nil_dereference)
      else
      let w1 = issue (Http_get url (slack_bot_token (cfg (wld st)))) (wld st)
      in case history srv (length (sent (wld st))) url of
           Net_error e \<Rightarrow> Some (Inr (st\<lparr>wld := println (''Error getting messages: '' @ e) w1\<rparr>, False))
         | Read_error e \<Rightarrow> Some (Inr (st\<lparr>wld := println (''Error reading response body: '' @ e) w1\<rparr>, False))
         | Decode_error e \<Rightarrow> Some (Inr (st\<lparr>wld := println (''Error unmarshaling response: '' @ e) w1\<rparr>, False))
         | Body resp \<Rightarrow>
             (case process_msgs srv opts (rev (messages resp)) (st\<lparr>wld := w1\<rparr>) of
                Inl p \<Rightarrow> Some (Inl p)
              | Inr st' \<Rightarrow>
                  (let hasMore = (has_more resp \<and> cursor \<noteq> [] \<and> date_range opts \<noteq> []);
                       cursor' = next_cursor resp
                   in if \<not> hasMore then Some (Inr (st', True))
                      else fetch_loop srv opts bounds cursor' st')))"

definition print_all :: "string list \<Rightarrow> world \<Rightarrow> world" where
  "print_all msgs w = foldl (\<lambda>w m. go_print m w) w msgs"

definition initial_state :: "world \<Rightarrow> show_state" where
  "initial_state w =
     \<lparr>total_fetched = 0, out_buf = [],
      session = (case user_cache (cfg w) of None \<Rightarrow> Map.empty | Some m \<Rightarrow> m), wld = w\<rparr>"

definition fetchMessages :: "server \<Rightarrow> show_opts \<Rightarrow> world \<Rightarrow> (panic + world) option" where
  "fetchMessages srv opts w =
     (case parse_date_range (date_range opts) of
        Inl e \<Rightarrow> Some (Inr (println (date_error_message e) w))
      | Inr bounds \<Rightarrow>
          (case fetch_loop srv opts bounds [] (initial_state w) of
             None \<Rightarrow> None
           | Some (Inl p) \<Rightarrow> Some (Inl p)
           | Some (Inr (st, True)) \<Rightarrow> Some (Inr (print_all (out_buf st) (wld st)))
           | Some (Inr (st, False)) \<Rightarrow> Some (Inr (wld st))))"

text \<open>The reference for the walk of a page: render the given messages, one after
  the other, with no test.\<close>

fun render_all :: "server \<Rightarrow> show_opts \<Rightarrow> slack_message_item list \<Rightarrow> show_state \<Rightarrow> panic + show_state" where
  "render_all srv opts [] st = Inr st"
| "render_all srv opts (msg # msgs) st =
     (case render_accepted srv opts msg st of Inl p \<Rightarrow> Inl p | Inr st' \<Rightarrow> render_all srv opts msgs st')"

definition history_base :: string where
  "history_base = ''https://slack.com/api/conversations.history''"

definition history_request :: "request \<Rightarrow> bool" where
  "history_request r = (case r of Http_get u _ \<Rightarrow> go_has_prefix u history_base | Http_post _ _ _ \<Rightarrow> False)"

text \<open>The requests sent between two states, none of them a history request.\<close>

definition adds_no_history :: "world \<Rightarrow> world \<Rightarrow> bool" where
  "adds_no_history w w' \<longleftrightarrow> (\<exists>rs. sent w' = sent w @ rs \<and> list_all (\<lambda>r. \<not> history_request r) rs)"

section \<open>Frame lemmas\<close>

lemma adds_no_history_refl [simp]: "adds_no_history w w"
  by (auto simp: adds_no_history_def)

lemma adds_no_history_trans:
  "adds_no_history w1 w2 \<Longrightarrow> adds_no_history w2 w3 \<Longrightarrow> adds_no_history w1 w3"
  by (fastforce simp: adds_no_history_def)

lemma adds_no_history_cong:
  "sent w2 = sent w1 \<Longrightarrow> adds_no_history w1 w3 = adds_no_history w2 w3"
  "sent w2 = sent w1 \<Longrightarrow> adds_no_history w3 w1 = adds_no_history w3 w2"
  by (simp_all add: adds_no_history_def)

lemma not_history_users_info: "\<not> history_request (Http_get (users_info_url u) t)"
  by (simp add: history_request_def history_base_def users_info_url_def)

lemma not_history_replies: "\<not> history_request (Http_get (replies_url c ts) t)"
  by (simp add: history_request_def history_base_def replies_url_def)

lemma getUserName_adds_no_history:
  "getUserName srv u c w = Inr (n, c', w') \<Longrightarrow> adds_no_history w w'"
  using getUserName_sent [of srv u c w n c' w'] not_history_users_info
  by (auto simp: adds_no_history_def)

lemma collect_replies_adds_no_history:
  "collect_replies srv ts f msgs acc uc w = Inr (rs, uc', w') \<Longrightarrow> adds_no_history w w'"
proof (induction msgs arbitrary: acc uc w)
  case (Cons m ms)
  then show ?case
    by (auto split: if_splits sum.splits prod.splits
        intro: adds_no_history_trans dest: getUserName_adds_no_history)
qed simp

lemma getThreadReplies_adds_no_history:
  assumes "getThreadReplies srv ts f s uc w = Inr (r, uc', w')"
  shows "adds_no_history w w'"
proof -
  let ?w1 = "issue (Http_get (replies_url (channel_id (cfg w)) ts) (slack_bot_token (cfg w))) w"
  have one: "adds_no_history w ?w1"
    using not_history_replies by (auto simp: adds_no_history_def)
  have "adds_no_history ?w1 w'"
    using assms by (auto simp: getThreadReplies_def Let_def split: answer.splits sum.splits prod.splits if_splits
        dest: collect_replies_adds_no_history)
  with one show ?thesis by (rule adds_no_history_trans)
qed

lemma render_replies_frame:
  "render_replies srv opts rs st = Inr st' \<Longrightarrow>
   adds_no_history (wld st) (wld st') \<and> total_fetched st' = total_fetched st"
proof (induction rs arbitrary: st)
  case (Cons r rs)
  obtain n uc w where g: "getUserName srv (reply_user r) (session st) (wld st) = Inr (n, uc, w)"
    using Cons.prems by (auto split: sum.splits prod.splits)
  with Cons.prems have rest: "render_replies srv opts rs
      (st\<lparr>out_buf := out_buf st @ render_reply (fmt_ts opts) (search opts) n
          (getReactionsString (emoji_list opts) (reply_reactions r)) r, session := uc, wld := w\<rparr>) = Inr st'"
    by simp
  from Cons.IH [OF rest] getUserName_adds_no_history [OF g] show ?case
    by (auto intro: adds_no_history_trans)
qed simp

lemma render_accepted_frame:
  assumes "render_accepted srv opts msg st = Inr st'"
  shows "adds_no_history (wld st) (wld st') \<and> total_fetched st' = total_fetched st + 1"
  using assms
  by (auto simp: render_accepted_def Let_def split: sum.splits prod.splits if_splits
      dest!: render_replies_frame getUserName_adds_no_history getThreadReplies_adds_no_history
      intro: adds_no_history_trans)

lemma render_all_frame:
  "render_all srv opts ms st = Inr st' \<Longrightarrow>
   adds_no_history (wld st) (wld st') \<and> total_fetched st' = total_fetched st + int (length ms)"
proof (induction ms arbitrary: st)
  case (Cons m ms)
  then show ?case
    by (auto split: sum.splits dest!: render_accepted_frame intro: adds_no_history_trans)
qed simp

lemma process_msgs_reference:
  "process_msgs srv opts ms st =
     render_all srv opts (take (nat (limit opts - total_fetched st)) (filter (accepts opts) ms)) st"
proof (induction ms arbitrary: st)
  case Nil
  then show ?case by simp
next
  case (Cons m ms)
  show ?case
  proof (cases "limit opts \<le> total_fetched st")
    case True
    then show ?thesis by simp
  next
    case lt: False
    show ?thesis
    proof (cases "accepts opts m")
      case True
      have tk: "take (nat (limit opts - total_fetched st)) (m # filter (accepts opts) ms) =
          m # take (nat (limit opts - (total_fetched st + 1))) (filter (accepts opts) ms)"
      proof -
        have "nat (limit opts - (total_fetched st + 1)) = nat (limit opts - total_fetched st) - 1"
          using lt by (simp add: algebra_simps nat_diff_distrib)
        with lt show ?thesis by (simp add: take_Cons')
      qed
      show ?thesis
      proof (cases "render_accepted srv opts m st")
        case (Inl p)
        with lt True tk show ?thesis by simp
      next
        case (Inr st')
        then have "total_fetched st' = total_fetched st + 1" by (rule render_accepted_frame [THEN conjunct2])
        with Inr lt True tk Cons.IH [of st'] show ?thesis by simp
      qed
    next
      case False
      with lt Cons.IH show ?thesis by simp
    qed
  qed
qed

lemma fetch_loop_first_page:
  "fetch_loop srv opts bounds [] st =
     (let url = history_url (channel_id (cfg (wld st))) (limit opts) bounds []
      in if \<not> go_new_request_ok url then Some (Inl Nil_dereference)
      else
      let w1 = issue (Http_get url (slack_bot_token (cfg (wld st)))) (wld st)
      in case history srv (length (sent (wld st))) url of
           Net_error e \<Rightarrow> Some (Inr (st\<lparr>wld := println (''Error getting messages: '' @ e) w1\<rparr>, False))
         | Read_error e \<Rightarrow> Some (Inr (st\<lparr>wld := println (''Error reading response body: '' @ e) w1\<rparr>, False))
         | Decode_error e \<Rightarrow> Some (Inr (st\<lparr>wld := println (''Error unmarshaling response: '' @ e) w1\<rparr>, False))
         | Body resp \<Rightarrow>
             (case process_msgs srv opts (rev (messages resp)) (st\<lparr>wld := w1\<rparr>) of
                Inl p \<Rightarrow> Some (Inl p)
              | Inr st' \<Rightarrow> Some (Inr (st', True))))"
  by (subst fetch_loop.simps) (simp add: Let_def split: answer.splits sum.splits)

lemma adds_no_history_filter:
  "adds_no_history w w' \<Longrightarrow> filter history_request (sent w') = filter history_request (sent w)"
  by (auto simp: adds_no_history_def list_all_iff filter_empty_conv)

text \<open>A channel and a cursor with no \<open>#\<close> and no control byte give a
  history URL that \<open>http.NewRequest\<close> accepts.\<close>

lemma history_url_ok:
  assumes "list_all (\<lambda>c. c \<noteq> CHR ''#'' \<and> \<not> go_ctl_byte c) ch"
    and "list_all (\<lambda>c. c \<noteq> CHR ''#'' \<and> \<not> go_ctl_byte c) cur"
  shows "go_new_request_ok (history_url ch l b cur)"
  unfolding history_url_def Let_def
  by (rule go_new_request_ok_plain)
    (use assms in \<open>simp add: go_itoa_plain split: option.split prod.split; simp add: go_ctl_byte_def\<close>)

lemma history_url_request: "history_request (Http_get (history_url c l b cur) t)"
  by (simp add: history_request_def history_base_def history_url_def Let_def split: option.split prod.split)

lemma print_all_frame [simp]:
  "sent (print_all ms w) = sent w" "cfg (print_all ms w) = cfg w"
  unfolding print_all_def by (induction ms arbitrary: w) (simp_all add: go_print_def)

lemma initial_state_simps [simp]:
  "total_fetched (initial_state w) = 0" "wld (initial_state w) = w"
  "initial_state (issue r w) = (initial_state w)\<lparr>wld := issue r w\<rparr>"
  by (simp_all add: initial_state_def issue_def)

lemma process_msgs_frame:
  assumes "process_msgs srv opts ms st = Inr st'"
  shows "adds_no_history (wld st) (wld st') \<and>
    total_fetched st' = total_fetched st +
      int (min (nat (limit opts - total_fetched st)) (length (filter (accepts opts) ms)))"
  using render_all_frame [of srv opts _ st st'] assms by (simp add: process_msgs_reference)

text \<open>C1: the history loop stops after its first page.  Whatever the server
  answers, \<open>show\<close> ends (the loop is total), and the only history request it
  sends is the one for the first page, with the empty cursor; a date-range
  error sends none.\<close>

theorem show_fetches_one_page:
  "\<exists>r. fetchMessages srv opts w = Some r \<and>
     (\<forall>w'. r = Inr w' \<longrightarrow>
        filter history_request (sent w') = filter history_request (sent w) @
          (case parse_date_range (date_range opts) of
             Inl _ \<Rightarrow> []
           | Inr b \<Rightarrow> [Http_get (history_url (channel_id (cfg w)) (limit opts) b []) (slack_bot_token (cfg w))]))"
proof (cases "parse_date_range (date_range opts)")
  case (Inl e)
  then show ?thesis by (simp add: fetchMessages_def)
next
  case (Inr b)
  let ?req = "Http_get (history_url (channel_id (cfg w)) (limit opts) b []) (slack_bot_token (cfg w))"
  have hist: "filter history_request (sent (issue ?req w)) = filter history_request (sent w) @ [?req]"
    by (simp add: history_url_request)
  show ?thesis
  proof (cases "go_new_request_ok (history_url (channel_id (cfg w)) (limit opts) b [])")
    case False
    with Inr show ?thesis by (simp add: fetchMessages_def fetch_loop_first_page)
  next
    case ok: True
    show ?thesis
    proof (cases "history srv (length (sent w)) (history_url (channel_id (cfg w)) (limit opts) b [])")
      case (Body resp)
      then show ?thesis using Inr hist ok
        by (auto simp: fetchMessages_def fetch_loop_first_page split: sum.split
            dest!: process_msgs_frame adds_no_history_filter)
    qed (use Inr hist ok in \<open>simp_all add: fetchMessages_def fetch_loop_first_page\<close>)
  qed
qed

theorem show_fetches_one_page_witness:
  "\<exists>w'. fetchMessages (test_server (\<lambda>_ _. Net_error ''down'')
            (\<lambda>_ _. Body \<lparr>messages = [], has_more = True, next_cursor = ''c2''\<rparr>) (\<lambda>_ _. Body []))
          \<lparr>limit = 20, date_range = ''2024-01-01'', search = [], filter_kw = [], files_only = False,
           emoji_list = Map.empty, fmt_ts = id\<rparr> (test_world None) = Some (Inr w') \<and>
        filter history_request (sent w') =
          [Http_get (history_url ''C1'' 20 (Some (1704067200, 1704153599)) []) ''xoxb'']"
proof -
  have d: "parse_date_range ''2024-01-01'' = Inr (Some (1704067200, 1704153599))" by code_simp
  show ?thesis
    using show_fetches_one_page [of "test_server (\<lambda>_ _. Net_error ''down'')
            (\<lambda>_ _. Body \<lparr>messages = [], has_more = True, next_cursor = ''c2''\<rparr>) (\<lambda>_ _. Body [])"
        "\<lparr>limit = 20, date_range = ''2024-01-01'', search = [], filter_kw = [], files_only = False,
           emoji_list = Map.empty, fmt_ts = id\<rparr>" "test_world None"] d
      history_url_ok [of "''C1''" "[]" 20 "Some (1704067200, 1704153599)"]
    by (auto simp: fetchMessages_def fetch_loop_first_page Let_def go_ctl_byte_def)
qed

text \<open>C2: on a page the server returns, \<open>show\<close> renders, in chronological order,
  exactly the first \<open>limit\<close> messages of the page that pass the filter (and,
  with \<open>--files\<close>, carry a file), and then prints the buffer; the history
  request is one \<open>http.NewRequest\<close> can build.\<close>

theorem show_renders_first_accepted:
  assumes "parse_date_range (date_range opts) = Inr b"
    and "go_new_request_ok (history_url (channel_id (cfg w)) (limit opts) b [])"
    and "history srv (length (sent w)) (history_url (channel_id (cfg w)) (limit opts) b []) = Body resp"
  shows "fetchMessages srv opts w =
    (case render_all srv opts (take (nat (limit opts)) (filter (accepts opts) (rev (messages resp))))
            (initial_state (issue (Http_get (history_url (channel_id (cfg w)) (limit opts) b [])
               (slack_bot_token (cfg w))) w)) of
       Inl p \<Rightarrow> Some (Inl p)
     | Inr st \<Rightarrow> Some (Inr (print_all (out_buf st) (wld st))))"
  using assms
  by (simp add: fetchMessages_def fetch_loop_first_page process_msgs_reference split: sum.split)

theorem show_renders_first_accepted_witness:
  "fetchMessages (test_server (\<lambda>_ _. Net_error ''down'')
       (\<lambda>_ _. Body \<lparr>messages = [
          \<lparr>msg_user = [], msg_user_name = [], msg_text = ''x3'', msg_ts = ''3.0'', msg_thread_ts = [],
           msg_replies = [], msg_reactions = [], msg_files = [], msg_edited_user = []\<rparr>,
          \<lparr>msg_user = [], msg_user_name = [], msg_text = ''x2'', msg_ts = ''2.0'', msg_thread_ts = [],
           msg_replies = [], msg_reactions = [], msg_files = [], msg_edited_user = []\<rparr>,
          \<lparr>msg_user = [], msg_user_name = [], msg_text = ''y1'', msg_ts = ''1.0'', msg_thread_ts = [],
           msg_replies = [], msg_reactions = [], msg_files = [], msg_edited_user = []\<rparr>],
          has_more = False, next_cursor = []\<rparr>) (\<lambda>_ _. Body []))
     \<lparr>limit = 1, date_range = [], search = [], filter_kw = ''x'', files_only = False,
      emoji_list = Map.empty, fmt_ts = id\<rparr> (test_world None) =
   (case render_all (test_server (\<lambda>_ _. Net_error ''down'')
       (\<lambda>_ _. Body \<lparr>messages = [
          \<lparr>msg_user = [], msg_user_name = [], msg_text = ''x3'', msg_ts = ''3.0'', msg_thread_ts = [],
           msg_replies = [], msg_reactions = [], msg_files = [], msg_edited_user = []\<rparr>,
          \<lparr>msg_user = [], msg_user_name = [], msg_text = ''x2'', msg_ts = ''2.0'', msg_thread_ts = [],
           msg_replies = [], msg_reactions = [], msg_files = [], msg_edited_user = []\<rparr>,
          \<lparr>msg_user = [], msg_user_name = [], msg_text = ''y1'', msg_ts = ''1.0'', msg_thread_ts = [],
           msg_replies = [], msg_reactions = [], msg_files = [], msg_edited_user = []\<rparr>],
          has_more = False, next_cursor = []\<rparr>) (\<lambda>_ _. Body []))
     \<lparr>limit = 1, date_range = [], search = [], filter_kw = ''x'', files_only = False,
      emoji_list = Map.empty, fmt_ts = id\<rparr>
     [\<lparr>msg_user = [], msg_user_name = [], msg_text = ''x2'', msg_ts = ''2.0'', msg_thread_ts = [],
       msg_replies = [], msg_reactions = [], msg_files = [], msg_edited_user = []\<rparr>]
     (initial_state (issue (Http_get (history_url ''C1'' 1 None []) ''xoxb'') (test_world None))) of
     Inl p \<Rightarrow> Some (Inl p)
   | Inr st \<Rightarrow> Some (Inr (print_all (out_buf st) (wld st))))"
  (is "fetchMessages ?srv ?opts ?w = _")
proof -
  have d: "parse_date_range [] = Inr None" by code_simp
  show ?thesis
    using show_renders_first_accepted [of ?opts None ?w ?srv] d history_url_ok [of "''C1''" "[]" 1 None]
    by (simp add: accepts_def passes_filter_def go_ctl_byte_def)
qed

text \<open>C3: the number of messages \<open>show\<close> accepts is the smaller of \<open>limit\<close>
  and the number of accepted messages on the page, so never more than
  \<open>limit\<close>; the loop ends normally.\<close>

theorem show_accepted_count:
  assumes "history srv (length (sent w)) (history_url (channel_id (cfg w)) (limit opts) b []) = Body resp"
    and "fetch_loop srv opts b [] (initial_state w) = Some (Inr (st, ok))"
  shows "ok \<and> total_fetched st = int (min (nat (limit opts)) (length (filter (accepts opts) (messages resp))))"
  using assms
  by (auto simp: fetch_loop_first_page Let_def rev_filter [symmetric] split: sum.splits if_splits
      dest!: process_msgs_frame)

theorem show_accepted_count_witness:
  "fetch_loop (test_server (\<lambda>_ _. Net_error ''down'')
       (\<lambda>_ _. Body \<lparr>messages = [], has_more = True, next_cursor = ''c''\<rparr>) (\<lambda>_ _. Body []))
     \<lparr>limit = 3, date_range = [], search = [], filter_kw = [], files_only = False,
      emoji_list = Map.empty, fmt_ts = id\<rparr> None [] (initial_state (test_world None)) =
   Some (Inr (initial_state (issue (Http_get (history_url ''C1'' 3 None []) ''xoxb'') (test_world None)), True))
   \<and> total_fetched (initial_state (issue (Http_get (history_url ''C1'' 3 None []) ''xoxb'') (test_world None))) = 0"
proof -
  let ?srv = "test_server (\<lambda>_ _. Net_error ''down'')
       (\<lambda>_ _. Body \<lparr>messages = [], has_more = True, next_cursor = ''c''\<rparr>) (\<lambda>_ _. Body [])"
  let ?opts = "\<lparr>limit = 3, date_range = [], search = [], filter_kw = [], files_only = False,
      emoji_list = Map.empty, fmt_ts = id\<rparr>"
  have r: "fetch_loop ?srv ?opts None [] (initial_state (test_world None)) =
      Some (Inr (initial_state (issue (Http_get (history_url ''C1'' 3 None []) ''xoxb'') (test_world None)), True))"
    using history_url_ok [of "''C1''" "[]" 3 None] by (simp add: fetch_loop_first_page Let_def go_ctl_byte_def)
  show ?thesis
    using show_accepted_count [of ?srv "test_world None" ?opts None, OF _ r] r by simp
qed

text \<open>C4: a history request that is built but fails in transport aborts
  \<open>show\<close>: the error line is the only output, and the rendered buffer is
  dropped.\<close>

theorem show_request_error_prints_only_error:
  assumes "parse_date_range (date_range opts) = Inr b"
    and "go_new_request_ok (history_url (channel_id (cfg w)) (limit opts) b [])"
    and "history srv (length (sent w)) (history_url (channel_id (cfg w)) (limit opts) b []) = Net_error e"
  shows "fetchMessages srv opts w =
    Some (Inr (println (''Error getting messages: '' @ e)
      (issue (Http_get (history_url (channel_id (cfg w)) (limit opts) b []) (slack_bot_token (cfg w))) w)))"
  using assms by (simp add: fetchMessages_def fetch_loop_first_page)

theorem show_request_error_prints_only_error_witness:
  "stdout (case fetchMessages (test_server (\<lambda>_ _. Net_error ''down'') (\<lambda>_ _. Net_error ''timeout'') (\<lambda>_ _. Body []))
     \<lparr>limit = 3, date_range = [], search = [], filter_kw = [], files_only = False,
      emoji_list = Map.empty, fmt_ts = id\<rparr> (test_world None) of
     Some (Inr w') \<Rightarrow> w' | _ \<Rightarrow> test_world None) = [''Error getting messages: timeout\<newline>'']"
proof -
  have d: "parse_date_range [] = Inr None" by code_simp
  show ?thesis
    using show_request_error_prints_only_error [of "\<lparr>limit = 3, date_range = [], search = [], filter_kw = [],
        files_only = False, emoji_list = Map.empty, fmt_ts = id\<rparr>" None "test_world None"
        "test_server (\<lambda>_ _. Net_error ''down'') (\<lambda>_ _. Net_error ''timeout'') (\<lambda>_ _. Body [])"
        "''timeout''"] d history_url_ok [of "''C1''" "[]" 3 None]
    by (simp add: println_def go_print_def go_ctl_byte_def)
qed

end
