(* ===== verification/Download.thy ===== *)
theory Download
  imports Slack_Types
begin

text \<open>
  The download command, \<open>getFile\<close> (\<open>src/main.go\<close>, lines 617--658): a GET
  of the URL with the user token; the file name is \<open>path.Base\<close> of the URL's
  path; when a file of that name exists, the loop \<open>for i := 1; ; i++\<close> tries
  \<open>name(i)ext\<close> until \<open>os.Stat\<close> reports one missing; the body is written to
  the chosen file.  \<open>url.Parse\<close> is a parameter (\<open>url_parse\<close>, the error text or
  the path), and so is the error \<open>os.Create\<close> gives for a name
  (\<open>create_err\<close>); the directory is the map \<open>fs\<close> of the world, and \<open>os.Stat\<close>
  fails with "not exist" exactly on the names it does not hold.  The server
  answers the GET with a transport error or with the bytes \<open>io.Copy\<close> copies.

  The loop may not end for an arbitrary directory, so it is a
  \<open>partial_function (option)\<close>.  The lemmas show that it ends whenever the
  directory is finite, that it picks the least free index, that a download
  never replaces an existing file, and that a URL \<open>url.Parse\<close> rejects makes
  \<open>http.NewRequest\<close> return \<open>nil\<close>, which the code then dereferences: the
  branch printing "Error parsing URL" is dead.
\<close>

section \<open>\<open>path.Base\<close> and \<open>path.Ext\<close>\<close>

definition path_base :: "string \<Rightarrow> string" where
  "path_base p =
     (if p = [] then ''.''
      else (let q = rev (dropWhile (\<lambda>c. c = CHR ''/'') (rev p));
                r = rev (takeWhile (\<lambda>c. c \<noteq> CHR ''/'') (rev q))
            in if r = [] then ''/'' else r))"

definition path_ext :: "string \<Rightarrow> string" where
  "path_ext p =
     (let t = takeWhile (\<lambda>c. c \<noteq> CHR ''/'') (rev p);
          k = takeWhile (\<lambda>c. c \<noteq> CHR ''.'') t
      in if length k < length t then rev (k @ [CHR ''.'']) else [])"

section \<open>The unique-name loop\<close>

definition candidate_name :: "string \<Rightarrow> string \<Rightarrow> nat \<Rightarrow> string" where
  "candidate_name name ext i = name @ ''('' @ go_itoa (int i) @ '')'' @ ext"

partial_function (option) free_name ::
  "(string \<rightharpoonup> fs_entry) \<Rightarrow> string \<Rightarrow> string \<Rightarrow> nat \<Rightarrow> string option" where
  "free_name dir name ext i =
     (let newName = candidate_name name ext i
      in if dir newName = None then Some newName else free_name dir name ext (i + 1))"

section \<open>The command\<close>

text \<open>The name a download is written to (lines 636--646): the base name, or
  when it exists the first free \<open>name(i)ext\<close>.\<close>

definition split_name :: "string \<Rightarrow> string \<times> string" where
  "split_name f = (take (length f - length (path_ext f)) f, path_ext f)"

definition choose_name :: "(string \<rightharpoonup> fs_entry) \<Rightarrow> string \<Rightarrow> string option" where
  "choose_name dir filename =
     (if dir filename \<noteq> None then (case split_name filename of (name, ext) \<Rightarrow> free_name dir name ext 1)
      else Some filename)"

text \<open>What \<open>io.Copy\<close> writes: the bytes of the body.\<close>

definition body_bytes :: "string answer \<Rightarrow> string" where
  "body_bytes a = (case a of Body c \<Rightarrow> c | _ \<Rightarrow> [])"

text \<open>\<open>os.Create\<close>, the copy and the final message (lines 648--657).\<close>

definition write_download ::
  "(string \<Rightarrow> string option) \<Rightarrow> string \<Rightarrow> string \<Rightarrow> world \<Rightarrow> (panic + world) option" where
  "write_download create_err fname content w =
     (case create_err fname of
        Some e \<Rightarrow> Some (Inr (println (''Error creating file: '' @ e) w))
      | None \<Rightarrow> Some (Inr (println (''File downloaded successfully: '' @ fname)
                  (w\<lparr>fs := (fs w)(fname \<mapsto> File content)\<rparr>))))"

definition getFile ::
  "server \<Rightarrow> (string \<Rightarrow> string + string) \<Rightarrow> (string \<Rightarrow> string option) \<Rightarrow> string \<Rightarrow> world
   \<Rightarrow> (panic + world) option" where
  "getFile srv url_parse create_err fileURL w =
     (case url_parse fileURL of
        Inl _ \<Rightarrow> Some (Inl Nil_dereference)
      | Inr _ \<Rightarrow>
          (let w1 = issue (Http_get fileURL (slack_user_token (cfg w))) w;
               ans = file_get srv (length (sent w)) fileURL
           in case ans of
                Net_error e \<Rightarrow> Some (Inr (println (''Error getting file: '' @ e) w1))
              | _ \<Rightarrow>
                  (case url_parse fileURL of
                     Inl e \<Rightarrow> Some (Inr (println (''Error parsing URL: '' @ e) w1))
                   | Inr p \<Rightarrow>
                       (case choose_name (fs w1) (path_base p) of
                          None \<Rightarrow> None
                        | Some fname \<Rightarrow> write_download create_err fname (body_bytes ans) w1))))"

section \<open>The loop's lemmas\<close>

lemma candidate_name_inj [simp]: "candidate_name n e i = candidate_name n e j \<longleftrightarrow> i = j"
  by (simp add: candidate_name_def)

text \<open>Whatever \<open>free_name\<close> returns is free: fixpoint induction, with no
  assumption on termination.\<close>

lemma free_name_free:
  assumes "free_name dir n e i = Some r"
  shows "dir r = None"
  by (rule free_name.raw_induct [where P = "\<lambda>dir _ _ _ r. dir r = None", OF _ assms])
    (auto simp: Let_def split: if_splits)

text \<open>A finite directory misses some candidate from every index on: the
  candidates are pairwise distinct and there are infinitely many of them.\<close>

lemma free_index_exists:
  assumes "finite (dom dir)"
  shows "\<exists>k \<ge> i. dir (candidate_name n e k) = None"
proof (rule ccontr)
  assume "\<not> ?thesis"
  then have "candidate_name n e ` {i..} \<subseteq> dom dir" by auto
  with assms have "finite (candidate_name n e ` {i..})" by (rule finite_subset [rotated])
  moreover have "inj_on (candidate_name n e) {i..}" by (simp add: inj_on_def)
  ultimately have "finite {i..}" by (rule finite_imageD)
  then show False by (simp add: infinite_Ici)
qed

lemma free_name_least:
  assumes "dir (candidate_name n e k) = None" and "i \<le> k"
    and "\<forall>j. i \<le> j \<and> j < k \<longrightarrow> dir (candidate_name n e j) \<noteq> None"
  shows "free_name dir n e i = Some (candidate_name n e k)"
  using assms
proof (induction "k - i" arbitrary: i)
  case 0
  then have "i = k" by simp
  with 0 show ?case by (subst free_name.simps) simp
next
  case (Suc d)
  then have lt: "i < k" and busy: "dir (candidate_name n e i) \<noteq> None" by auto
  have "free_name dir n e (i + 1) = Some (candidate_name n e k)"
    using Suc.hyps(1) [of "i + 1"] Suc.hyps(2) Suc.prems lt by simp
  moreover from busy obtain y where "dir (candidate_name n e i) = Some y" by auto
  ultimately show ?case by (subst free_name.simps) (simp add: Let_def)
qed

lemma free_name_total:
  assumes "finite (dom dir)"
  shows "\<exists>k \<ge> i. free_name dir n e i = Some (candidate_name n e k) \<and> dir (candidate_name n e k) = None
           \<and> (\<forall>j. i \<le> j \<and> j < k \<longrightarrow> dir (candidate_name n e j) \<noteq> None)"
proof -
  define P where "P k \<longleftrightarrow> i \<le> k \<and> dir (candidate_name n e k) = None" for k
  from free_index_exists [OF assms, of i n e] have "\<exists>k. P k" by (auto simp: P_def)
  then have "\<exists>k. P k \<and> (\<forall>m < k. \<not> P m)" by (simp only: exists_least_iff [symmetric])
  then obtain k where k: "P k" and least: "\<forall>m < k. \<not> P m" by (elim exE conjE)
  have busy: "\<forall>j. i \<le> j \<and> j < k \<longrightarrow> dir (candidate_name n e j) \<noteq> None"
    using least by (auto simp: P_def)
  have "free_name dir n e i = Some (candidate_name n e k)"
    using k busy by (intro free_name_least) (auto simp: P_def)
  with k busy show ?thesis by (auto simp: P_def)
qed

section \<open>The command's contract\<close>

lemma choose_name_total:
  assumes "finite (dom dir)"
  shows "\<exists>f. choose_name dir filename = Some f"
proof (cases "dir filename = None")
  case True
  then show ?thesis by (simp add: choose_name_def)
next
  case False
  obtain name ext where s: "split_name filename = (name, ext)" by (cases "split_name filename")
  obtain k where "free_name dir name ext 1 = Some (candidate_name name ext k)"
    using free_name_total [OF assms, of 1 name ext] by blast
  with s False show ?thesis by (simp add: choose_name_def)
qed

lemma choose_name_free: "choose_name dir filename = Some f \<Longrightarrow> dir f = None"
  by (auto simp: choose_name_def split: prod.splits if_splits dest: free_name_free)

lemma write_download_Some: "\<exists>r. write_download create_err f c w = Some r"
  by (simp add: write_download_def split: option.split)

lemma write_download_keeps:
  "write_download create_err f c w = Some (Inr w') \<Longrightarrow> fs w f = None \<Longrightarrow> fs w g = Some x \<Longrightarrow>
   fs w' g = Some x"
  by (auto simp: write_download_def split: option.splits)

text \<open>C29: a download always ends when the working directory holds finitely
  many names: the unique-name loop finds a free name.\<close>

theorem download_terminates:
  assumes "finite (dom (fs w))"
  shows "getFile srv url_parse create_err u w \<noteq> None"
proof (cases "url_parse u")
  case (Inr p)
  obtain f where "choose_name (fs w) (path_base p) = Some f"
    using choose_name_total [OF assms] by blast
  with Inr show ?thesis
    using write_download_Some by (auto simp: getFile_def Let_def split: answer.split)
qed (simp add: getFile_def)

theorem download_terminates_witness:
  "getFile (test_server (\<lambda>_ _. Net_error []) (\<lambda>_ _. Net_error []) (\<lambda>_ _. Net_error []))
     (\<lambda>_. Inr ''/files/a.txt'') (\<lambda>_. None) ''https://f/files/a.txt''
     ((test_world None)\<lparr>fs := [''a.txt'' \<mapsto> File ''old'']\<rparr>) \<noteq> None"
  by (rule download_terminates) simp

text \<open>C30: a download never replaces or removes a file that was there: every
  name of the directory keeps its entry, whatever the server answers.\<close>

theorem download_keeps_existing_files:
  assumes "getFile srv url_parse create_err u w = Some (Inr w')" and "fs w g = Some x"
  shows "fs w' g = Some x"
proof (cases "url_parse u")
  case (Inr p)
  show ?thesis
  proof (cases "choose_name (fs w) (path_base p)")
    case (Some f)
    have "fs (issue (Http_get u (slack_user_token (cfg w))) w) f = None"
      using choose_name_free [OF Some] by simp
    with Inr Some assms show ?thesis
      by (auto simp: getFile_def Let_def split: answer.splits dest: write_download_keeps)
  qed (use Inr assms in \<open>auto simp: getFile_def Let_def split: answer.splits\<close>)
qed (use assms in \<open>simp add: getFile_def\<close>)

theorem download_keeps_existing_files_witness:
  "\<exists>w'. getFile ((test_server (\<lambda>_ _. Net_error []) (\<lambda>_ _. Net_error []) (\<lambda>_ _. Net_error []))
            \<lparr>file_get := \<lambda>_ _. Body ''new''\<rparr>)
          (\<lambda>_. Inr ''/files/a.txt'') (\<lambda>_. None) ''https://f/files/a.txt''
          ((test_world None)\<lparr>fs := [''a.txt'' \<mapsto> File ''old'']\<rparr>) = Some (Inr w')
     \<and> fs w' ''a.txt'' = Some (File ''old'') \<and> fs w' ''a(1).txt'' = Some (File ''new'')"
proof -
  let ?dir = "[''a.txt'' \<mapsto> File ''old'']"
  have c1: "candidate_name ''a'' ''.txt'' 1 = ''a(1).txt''" "candidate_name ''a'' ''.txt'' (Suc 0) = ''a(1).txt''"
    by code_simp+
  have s: "split_name ''a.txt'' = (''a'', ''.txt'')" "path_base ''/files/a.txt'' = ''a.txt''" by code_simp+
  have "free_name ?dir ''a'' ''.txt'' 1 = Some (candidate_name ''a'' ''.txt'' 1)"
    by (rule free_name_least) (simp_all add: c1)
  then have ch: "choose_name ?dir ''a.txt'' = Some ''a(1).txt''" by (simp add: choose_name_def s c1)
  let ?w' = "println (''File downloaded successfully: '' @ ''a(1).txt'')
     ((issue (Http_get ''https://f/files/a.txt'' ''xoxp'') ((test_world None)\<lparr>fs := ?dir\<rparr>))
        \<lparr>fs := ?dir(''a(1).txt'' \<mapsto> File ''new'')\<rparr>)"
  have g: "getFile ((test_server (\<lambda>_ _. Net_error []) (\<lambda>_ _. Net_error []) (\<lambda>_ _. Net_error []))
            \<lparr>file_get := \<lambda>_ _. Body ''new''\<rparr>)
          (\<lambda>_. Inr ''/files/a.txt'') (\<lambda>_. None) ''https://f/files/a.txt''
          ((test_world None)\<lparr>fs := ?dir\<rparr>) = Some (Inr ?w')"
    by (simp add: getFile_def s ch write_download_def body_bytes_def)
  have "fs ?w' ''a.txt'' = Some (File ''old'')"
    by (rule download_keeps_existing_files [OF g]) simp
  with g show ?thesis by auto
qed

text \<open>C31: when the URL's base name is taken, a download goes to
  \<open>name(k)ext\<close> for the least \<open>k \<ge> 1\<close> not taken, keeping the extension, and
  says so.\<close>

theorem download_picks_least_free_name:
  assumes "finite (dom (fs w))" and "url_parse u = Inr p"
    and "file_get srv (length (sent w)) u = Body c" and "fs w (path_base p) \<noteq> None"
    and "\<forall>f. create_err f = None"
  shows "\<exists>k \<ge> 1. getFile srv url_parse create_err u w =
           Some (Inr (println (''File downloaded successfully: '' @
                   candidate_name (fst (split_name (path_base p))) (snd (split_name (path_base p))) k)
             ((issue (Http_get u (slack_user_token (cfg w))) w)\<lparr>fs := (fs w)
                (candidate_name (fst (split_name (path_base p))) (snd (split_name (path_base p))) k \<mapsto> File c)\<rparr>)))
         \<and> fs w (candidate_name (fst (split_name (path_base p))) (snd (split_name (path_base p))) k) = None
         \<and> (\<forall>j. 1 \<le> j \<and> j < k \<longrightarrow>
              fs w (candidate_name (fst (split_name (path_base p))) (snd (split_name (path_base p))) j) \<noteq> None)"
proof -
  obtain k where k: "1 \<le> k"
    and fn: "free_name (fs w) (fst (split_name (path_base p))) (snd (split_name (path_base p))) 1 =
       Some (candidate_name (fst (split_name (path_base p))) (snd (split_name (path_base p))) k)"
    and rest: "fs w (candidate_name (fst (split_name (path_base p))) (snd (split_name (path_base p))) k) = None
         \<and> (\<forall>j. 1 \<le> j \<and> j < k \<longrightarrow>
              fs w (candidate_name (fst (split_name (path_base p))) (snd (split_name (path_base p))) j) \<noteq> None)"
    using free_name_total [OF assms(1), of 1 "fst (split_name (path_base p))" "snd (split_name (path_base p))"]
    by blast
  have "choose_name (fs w) (path_base p) =
      Some (candidate_name (fst (split_name (path_base p))) (snd (split_name (path_base p))) k)"
    using assms(4) fn by (simp add: choose_name_def prod.case_eq_if)
  with assms(2,3,5) k rest show ?thesis
    by (auto simp: getFile_def write_download_def body_bytes_def)
qed

theorem download_picks_least_free_name_witness:
  "\<exists>k \<ge> 1. getFile ((test_server (\<lambda>_ _. Net_error []) (\<lambda>_ _. Net_error []) (\<lambda>_ _. Net_error []))
            \<lparr>file_get := \<lambda>_ _. Body ''v3''\<rparr>)
          (\<lambda>_. Inr ''/f/r.pdf'') (\<lambda>_. None) ''https://h/f/r.pdf''
          ((test_world None)\<lparr>fs := [''r.pdf'' \<mapsto> File ''v1'', ''r(1).pdf'' \<mapsto> File ''v2'']\<rparr>) =
        Some (Inr (println (''File downloaded successfully: '' @ candidate_name ''r'' ''.pdf'' k)
          ((issue (Http_get ''https://h/f/r.pdf'' ''xoxp'')
             ((test_world None)\<lparr>fs := [''r.pdf'' \<mapsto> File ''v1'', ''r(1).pdf'' \<mapsto> File ''v2'']\<rparr>))
             \<lparr>fs := [''r.pdf'' \<mapsto> File ''v1'', ''r(1).pdf'' \<mapsto> File ''v2'', candidate_name ''r'' ''.pdf'' k \<mapsto> File ''v3'']\<rparr>)))
      \<and> k = 2"
proof -
  have s: "split_name ''r.pdf'' = (''r'', ''.pdf'')" "path_base ''/f/r.pdf'' = ''r.pdf''" by code_simp+
  have c: "candidate_name ''r'' ''.pdf'' 1 = ''r(1).pdf''" "candidate_name ''r'' ''.pdf'' (Suc 0) = ''r(1).pdf''"
    "candidate_name ''r'' ''.pdf'' 2 = ''r(2).pdf''"
    by code_simp+
  from download_picks_least_free_name [of "(test_world None)\<lparr>fs := [''r.pdf'' \<mapsto> File ''v1'', ''r(1).pdf'' \<mapsto> File ''v2'']\<rparr>"
      "\<lambda>_. Inr ''/f/r.pdf''" "''https://h/f/r.pdf''" "''/f/r.pdf''"
      "(test_server (\<lambda>_ _. Net_error []) (\<lambda>_ _. Net_error []) (\<lambda>_ _. Net_error []))\<lparr>file_get := \<lambda>_ _. Body ''v3''\<rparr>"
      "''v3''" "\<lambda>_. None"]
  obtain k where k: "1 \<le> k" and g: "getFile ((test_server (\<lambda>_ _. Net_error []) (\<lambda>_ _. Net_error []) (\<lambda>_ _. Net_error []))
            \<lparr>file_get := \<lambda>_ _. Body ''v3''\<rparr>)
          (\<lambda>_. Inr ''/f/r.pdf'') (\<lambda>_. None) ''https://h/f/r.pdf''
          ((test_world None)\<lparr>fs := [''r.pdf'' \<mapsto> File ''v1'', ''r(1).pdf'' \<mapsto> File ''v2'']\<rparr>) =
        Some (Inr (println (''File downloaded successfully: '' @ candidate_name ''r'' ''.pdf'' k)
          ((issue (Http_get ''https://h/f/r.pdf'' ''xoxp'')
             ((test_world None)\<lparr>fs := [''r.pdf'' \<mapsto> File ''v1'', ''r(1).pdf'' \<mapsto> File ''v2'']\<rparr>))
             \<lparr>fs := [''r.pdf'' \<mapsto> File ''v1'', ''r(1).pdf'' \<mapsto> File ''v2'', candidate_name ''r'' ''.pdf'' k \<mapsto> File ''v3'']\<rparr>)))"
    and free: "[''r.pdf'' \<mapsto> File ''v1'', ''r(1).pdf'' \<mapsto> File ''v2''] (candidate_name ''r'' ''.pdf'' k) = None"
    and least: "\<forall>j. 1 \<le> j \<and> j < k \<longrightarrow>
        [''r.pdf'' \<mapsto> File ''v1'', ''r(1).pdf'' \<mapsto> File ''v2''] (candidate_name ''r'' ''.pdf'' j) \<noteq> None"
    by (auto simp: s)
  have "k \<noteq> 1" using free c by auto
  moreover have "\<not> 2 < k" using least c by (auto dest: spec [of _ 2])
  ultimately have "k = 2" using k by linarith
  with g k show ?thesis by blast
qed

text \<open>C32: a URL that \<open>url.Parse\<close> rejects makes \<open>http.NewRequest\<close> return a
  \<open>nil\<close> request, and setting its header panics before anything is sent; so
  the later \<open>url.Parse\<close> of the same URL never fails and no run of the command
  prints "Error parsing URL".\<close>

theorem download_parse_error_unreachable:
  "(url_parse u = Inl e \<longrightarrow> getFile srv url_parse create_err u w = Some (Inl Nil_dereference))
   \<and> (\<forall>w'. getFile srv url_parse create_err u w = Some (Inr w') \<longrightarrow>
        (\<forall>l \<in> set (drop (length (stdout w)) (stdout w')). \<not> go_has_prefix l ''Error parsing URL''))"
  by (auto simp: getFile_def write_download_def Let_def split: sum.splits answer.splits option.splits)

theorem download_parse_error_unreachable_witness:
  "getFile (test_server (\<lambda>_ _. Net_error []) (\<lambda>_ _. Net_error []) (\<lambda>_ _. Net_error []))
     (\<lambda>_. Inl ''invalid URL escape %zz'') (\<lambda>_. None) ''h t'' (test_world None)
   = Some (Inl Nil_dereference)"
  using download_parse_error_unreachable [of "\<lambda>_. Inl ''invalid URL escape %zz''"
      "''h t''" "''invalid URL escape %zz''"] by simp

end
