(* ===== verification/Actions.thy ===== *)
theory Actions
  imports Reactions "HOL-Library.List_Lexorder" "HOL-Library.Char_ord" "HOL-Library.Multiset"
begin

text \<open>
  The one-shot action commands of \<open>src/main.go\<close>: \<open>sendMessage\<close> (lines
  247--273), \<open>addReaction\<close> (660--698), \<open>removeReaction\<close> (700--734),
  \<open>updateMessage\<close> (736--759), \<open>deleteMessage\<close> (761--783), \<open>handleError\<close>
  (785--797), \<open>handleEmoji\<close> (799--811) and \<open>listEmoji\<close> (813--836).  Each
  builds a JSON object from a Go map, sends one POST with the bot token, and
  prints a line; a Go \<open>error\<close> result is a \<open>string option\<close> (\<open>None\<close> is
  \<open>nil\<close>, \<open>Some\<close> the error's text).  \<open>json.Marshal\<close> writes the keys of a map
  in byte order (\<open>marshal_object\<close>); \<open>fmt.Errorf(s)\<close> with no arguments reads
  \<open>s\<close> as a format (\<open>errorf_noargs\<close>: \<open>%%\<close> is a percent sign, any other
  verb is reported missing).  The order in which \<open>range\<close> visits a Go map is
  chosen by the runtime; \<open>listEmoji\<close> takes it as the function \<open>iter\<close>.

  The lemmas show that message commands report success whatever the API
  answers, that a reaction needs a timestamp and sends nothing without one,
  which emoji name each reaction command sends, how \<open>handleEmoji\<close> dispatches,
  and that the emoji listing prints one line per table entry, in any order.
\<close>

section \<open>Go library functions\<close>

definition marshal_object :: "(string \<times> string) list \<Rightarrow> (string \<times> string) list" where
  "marshal_object kvs = sort_key fst kvs"

definition fmt_flag :: "char \<Rightarrow> bool" where
  "fmt_flag c \<longleftrightarrow> c \<in> set ''#0+- 123456789.''"

text \<open>\<open>fmt.Errorf(format)\<close> with no operands: a verb (after its flags, width
  and precision) has no operand and prints as \<open>%!v(MISSING)\<close>, a final
  \<open>%\<close> as \<open>%!(NOVERB)\<close>, and \<open>%%\<close> as \<open>%\<close>.\<close>

fun errorf_noargs :: "string \<Rightarrow> string" and errorf_verb :: "string \<Rightarrow> string" where
  "errorf_noargs [] = []"
| "errorf_noargs (c # s) = (if c = CHR ''%'' then errorf_verb s else c # errorf_noargs s)"
| "errorf_verb [] = ''%!(NOVERB)''"
| "errorf_verb (c # s) =
     (if c = CHR ''%'' then CHR ''%'' # errorf_noargs s
      else if fmt_flag c then errorf_verb s
      else ''%!'' @ [c] @ ''(MISSING)'' @ errorf_noargs s)"

section \<open>Requests\<close>

definition post_message_url :: string where
  "post_message_url = ''https://slack.com/api/chat.postMessage''"

definition reactions_add_url :: string where
  "reactions_add_url = ''https://slack.com/api/reactions.add''"

definition reactions_remove_url :: string where
  "reactions_remove_url = ''https://slack.com/api/reactions.remove''"

definition chat_update_url :: string where
  "chat_update_url = ''https://slack.com/api/chat.update''"

definition chat_delete_url :: string where
  "chat_delete_url = ''https://slack.com/api/chat.delete''"

text \<open>The steps every action shares: marshal the payload, send it as a POST with
  the bot token, and take the server's answer.\<close>

definition post_json ::
  "server \<Rightarrow> string \<Rightarrow> (string \<times> string) list \<Rightarrow> world \<Rightarrow> (bool \<times> string) answer \<times> world" where
  "post_json srv url kvs w =
     (api_post srv (length (sent w)) url,
      issue (Http_post url (slack_bot_token (cfg w)) (marshal_object kvs)) w)"

definition handleError :: "(bool \<times> string) answer \<Rightarrow> string option" where
  "handleError a =
     (case a of
        Net_error e \<Rightarrow> Some e
      | Read_error e \<Rightarrow> Some e
      | Decode_error e \<Rightarrow> Some e
      | Body (ok, err) \<Rightarrow> if \<not> ok then Some (errorf_noargs err) else None)"

section \<open>The actions\<close>

definition sendMessage :: "server \<Rightarrow> string \<Rightarrow> string \<Rightarrow> world \<Rightarrow> string option \<times> world" where
  "sendMessage srv message threadTS w =
     (let payload = [(''channel'', channel_id (cfg w)), (''text'', message)] @
                   (if threadTS \<noteq> [] then [(''thread_ts'', threadTS)] else []);
          (a, w1) = post_json srv post_message_url payload w
      in case a of
           Net_error e \<Rightarrow> (Some e, println (''Error sending message: '' @ e) w1)
         | _ \<Rightarrow> (None, println ''Message sent successfully'' w1))"

definition addReaction :: "server \<Rightarrow> string \<Rightarrow> string \<Rightarrow> world \<Rightarrow> string option \<times> world" where
  "addReaction srv ts emoji w =
     (if ts = [] then (Some ''Error: ts (timestamp) is required'', w)
      else
        (let emoji' = (if emoji = [] then
                         (if default_emoji (cfg w) \<noteq> [] then default_emoji (cfg w) else ''white_check_mark'')
                       else emoji);
             (a, w1) = post_json srv reactions_add_url
                         [(''channel'', channel_id (cfg w)), (''name'', emoji'), (''timestamp'', ts)] w
         in case a of
              Net_error e \<Rightarrow> (Some (''Error adding reaction: '' @ e), w1)
            | _ \<Rightarrow>
                (case handleError a of
                   Some e \<Rightarrow> (Some (''Error response from API: '' @ e), w1)
                 | None \<Rightarrow> (None, println ''Reaction added successfully'' w1))))"

definition removeReaction :: "server \<Rightarrow> string \<Rightarrow> string \<Rightarrow> world \<Rightarrow> string option \<times> world" where
  "removeReaction srv ts emoji w =
     (if ts = [] then (Some ''Error: ts (timestamp) is required'', w)
      else
        (let emoji' = (if emoji = [] then ''white_check_mark'' else emoji);
             (a, w1) = post_json srv reactions_remove_url
                         [(''channel'', channel_id (cfg w)), (''name'', emoji'), (''timestamp'', ts)] w
         in case a of
              Net_error e \<Rightarrow> (Some (''Error removing reaction: '' @ e), w1)
            | _ \<Rightarrow>
                (case handleError a of
                   Some e \<Rightarrow> (Some (''Error response from API: '' @ e), w1)
                 | None \<Rightarrow> (None, println ''Reaction removed successfully'' w1))))"

definition updateMessage :: "server \<Rightarrow> string \<Rightarrow> string \<Rightarrow> world \<Rightarrow> string option \<times> world" where
  "updateMessage srv ts message w =
     (let (a, w1) = post_json srv chat_update_url
                      [(''channel'', channel_id (cfg w)), (''ts'', ts), (''text'', message)] w
      in case a of
           Net_error e \<Rightarrow> (Some e, println (''Error updating message: '' @ e) w1)
         | _ \<Rightarrow> (None, println ''Message updated successfully'' w1))"

definition deleteMessage :: "server \<Rightarrow> string \<Rightarrow> world \<Rightarrow> string option \<times> world" where
  "deleteMessage srv ts w =
     (let (a, w1) = post_json srv chat_delete_url [(''channel'', channel_id (cfg w)), (''ts'', ts)] w
      in case a of
           Net_error e \<Rightarrow> (Some e, println (''Error deleting message: '' @ e) w1)
         | _ \<Rightarrow> (None, println ''Message deleted successfully'' w1))"

section \<open>The emoji table\<close>

text \<open>\<open>loadEmojiConfig\<close> (lines 57--70): decoding into the existing map adds the
  file's entries to it.\<close>

definition loadEmojiConfig :: "world \<Rightarrow> string option \<times> world" where
  "loadEmojiConfig w =
     (case emoji_disk w of
        No_file e \<Rightarrow> (Some (''could not open emoji file: '' @ e), w)
      | Bad_json e \<Rightarrow> (Some (''could not decode emoji JSON: '' @ e), w)
      | Json m \<Rightarrow> (None, w\<lparr>emoji_tab := emoji_tab w ++ m\<rparr>))"

definition emoji_line :: "string \<Rightarrow> string \<Rightarrow> string" where
  "emoji_line name code =
     (case unicodeToEmoji code of
        Inl _ \<Rightarrow> name @ '': '' @ code @ '' (failed to convert)\<newline>''
      | Inr emoji \<Rightarrow> name @ '': '' @ emoji @ ''\<newline>'')"

definition listEmoji :: "(go_map \<Rightarrow> string list) \<Rightarrow> world \<Rightarrow> string option \<times> world" where
  "listEmoji iter w =
     (let loaded =
        (if iter (emoji_tab w) = [] then
           (let w1 = println ''Loading emoji list from file...'' w
            in case loadEmojiConfig w1 of
                 (Some e, w2) \<Rightarrow> Inl (''Error loading emoji list from file: '' @ e, w2)
               | (None, w2) \<Rightarrow> Inr (println ''Emoji list loaded successfully'' w2))
         else Inr w)
      in case loaded of
           Inl (e, w') \<Rightarrow> (Some e, w')
         | Inr w1 \<Rightarrow>
             (let w2 = println ''Emoji List:'' w1;
                  tab = emoji_tab w2
              in (None, foldl (\<lambda>w k. go_print (emoji_line k (the (tab k))) w) w2 (iter tab))))"

definition handleEmoji ::
  "server \<Rightarrow> (go_map \<Rightarrow> string list) \<Rightarrow> string \<Rightarrow> string \<Rightarrow> string \<Rightarrow> string \<Rightarrow> world \<Rightarrow> string option \<times> world" where
  "handleEmoji srv iter ts emoji add del w =
     (if add \<noteq> [] then addReaction srv ts add w
      else if del \<noteq> [] then removeReaction srv ts del w
      else if emoji = [] then listEmoji iter w
      else addReaction srv ts emoji w)"

section \<open>Helper lemmas\<close>

text \<open>The payloads of the actions, in the order \<open>json.Marshal\<close> writes them.\<close>

lemma marshal_payloads [simp]:
  "marshal_object [(''channel'', c), (''name'', n), (''timestamp'', t)] =
     [(''channel'', c), (''name'', n), (''timestamp'', t)]"
  "marshal_object [(''channel'', c), (''ts'', t), (''text'', m)] = [(''channel'', c), (''text'', m), (''ts'', t)]"
  "marshal_object [(''channel'', c), (''ts'', t)] = [(''channel'', c), (''ts'', t)]"
  "marshal_object [(''channel'', c), (''text'', m)] = [(''channel'', c), (''text'', m)]"
  "marshal_object [(''channel'', c), (''text'', m), (''thread_ts'', t)] =
     [(''channel'', c), (''text'', m), (''thread_ts'', t)]"
  by (simp_all add: marshal_object_def)

lemma errorf_noargs_plain: "CHR ''%'' \<notin> set s \<Longrightarrow> errorf_noargs s = s"
  by (induction s) auto

lemma foldl_go_print_stdout:
  "stdout (foldl (\<lambda>w k. go_print (f k) w) w ks) = stdout w @ map f ks"
  by (induction ks arbitrary: w) simp_all

lemma foldl_go_print_frame [simp]:
  "emoji_tab (foldl (\<lambda>w k. go_print (f k) w) w ks) = emoji_tab w"
  "sent (foldl (\<lambda>w k. go_print (f k) w) w ks) = sent w"
  by (induction ks arbitrary: w) simp_all

lemma mset_map_distinct:
  "distinct xs \<Longrightarrow> mset (map f xs) = image_mset f (mset_set (set xs))"
  by (simp add: mset_set_set)

section \<open>The actions' contract\<close>

text \<open>C25: the message commands \<open>send\<close>, \<open>edit\<close> and \<open>delete\<close> never read the
  answer's body: whenever the request itself goes through, they return no error
  and print their success line, even when the API answers \<open>ok: false\<close>.\<close>

theorem message_commands_ignore_api_errors:
  assumes "\<forall>u. api_post srv (length (sent w)) u = a" and "\<forall>e. a \<noteq> Net_error e"
  shows "sendMessage srv m t w = (None, println ''Message sent successfully''
            (snd (post_json srv post_message_url
               ([(''channel'', channel_id (cfg w)), (''text'', m)] @ (if t \<noteq> [] then [(''thread_ts'', t)] else [])) w)))
       \<and> fst (updateMessage srv ts m w) = None
       \<and> stdout (snd (updateMessage srv ts m w)) = stdout w @ [''Message updated successfully\<newline>'']
       \<and> fst (deleteMessage srv ts w) = None
       \<and> stdout (snd (deleteMessage srv ts w)) = stdout w @ [''Message deleted successfully\<newline>'']"
  using assms by (cases a) (simp_all add: sendMessage_def updateMessage_def deleteMessage_def post_json_def)

theorem message_commands_ignore_api_errors_witness:
  "fst (deleteMessage ((test_server (\<lambda>_ _. Net_error []) (\<lambda>_ _. Net_error []) (\<lambda>_ _. Net_error []))
          \<lparr>api_post := \<lambda>_ _. Body (False, ''message_not_found'')\<rparr>) ''1.0'' (test_world None)) = None"
  using message_commands_ignore_api_errors [of "(test_server (\<lambda>_ _. Net_error []) (\<lambda>_ _. Net_error [])
          (\<lambda>_ _. Net_error []))\<lparr>api_post := \<lambda>_ _. Body (False, ''message_not_found'')\<rparr>" "test_world None"
      "Body (False, ''message_not_found'')"]
  by simp

text \<open>C26: with a timestamp, each reaction command sends exactly one POST with
  the bot token, whatever the answer, naming the emoji given or else its
  default: \<open>addReaction\<close> falls back to the config's \<open>default_emoji\<close> and then to
  \<open>white_check_mark\<close>, \<open>removeReaction\<close> to \<open>white_check_mark\<close> only.\<close>

theorem reaction_request:
  assumes "ts \<noteq> []"
  shows "sent (snd (addReaction srv ts emoji w)) = sent w @
           [Http_post reactions_add_url (slack_bot_token (cfg w))
              [(''channel'', channel_id (cfg w)),
               (''name'', if emoji \<noteq> [] then emoji
                          else if default_emoji (cfg w) \<noteq> [] then default_emoji (cfg w) else ''white_check_mark''),
               (''timestamp'', ts)]]
       \<and> sent (snd (removeReaction srv ts emoji w)) = sent w @
           [Http_post reactions_remove_url (slack_bot_token (cfg w))
              [(''channel'', channel_id (cfg w)), (''name'', if emoji \<noteq> [] then emoji else ''white_check_mark''),
               (''timestamp'', ts)]]"
  using assms
  by (auto simp: addReaction_def removeReaction_def post_json_def handleError_def
      split: answer.split option.split prod.split)

theorem reaction_request_witness:
  "sent (snd (removeReaction (test_server (\<lambda>_ _. Net_error []) (\<lambda>_ _. Net_error []) (\<lambda>_ _. Net_error []))
      ''1.0'' [] (test_world None))) =
   [Http_post reactions_remove_url ''xoxb'' [(''channel'', ''C1''), (''name'', ''white_check_mark''), (''timestamp'', ''1.0'')]]"
  using reaction_request [of "''1.0''" "test_server (\<lambda>_ _. Net_error []) (\<lambda>_ _. Net_error []) (\<lambda>_ _. Net_error [])"
      "[]" "test_world None"]
  by simp

text \<open>Without a timestamp, \<open>emoji\<close> with a name to add, to remove or to
  react with fails with the timestamp error before any request, and changes
  nothing.\<close>

theorem emoji_without_ts:
  assumes "add \<noteq> [] \<or> del \<noteq> [] \<or> emoji \<noteq> []"
  shows "handleEmoji srv iter [] emoji add del w = (Some ''Error: ts (timestamp) is required'', w)"
  using assms by (auto simp: handleEmoji_def addReaction_def removeReaction_def)

theorem emoji_without_ts_witness:
  "handleEmoji (test_server (\<lambda>_ _. Net_error []) (\<lambda>_ _. Net_error []) (\<lambda>_ _. Net_error [])) (\<lambda>_. [])
     [] [] [] ''thumbsup'' (test_world None) = (Some ''Error: ts (timestamp) is required'', test_world None)"
  using emoji_without_ts [of "[]" "''thumbsup''" "[]"] by simp

text \<open>C27: a reaction the API rejects (\<open>ok: false\<close>, an error code without
  \<open>%\<close>) is returned as \<open>"Error response from API: "\<close> and the code, and
  nothing is printed.\<close>

theorem reaction_api_error:
  assumes "ts \<noteq> []" and "api_post srv (length (sent w)) reactions_add_url = Body (False, err)"
    and "CHR ''%'' \<notin> set err"
  shows "fst (addReaction srv ts emoji w) = Some (''Error response from API: '' @ err)
       \<and> stdout (snd (addReaction srv ts emoji w)) = stdout w"
  using assms by (simp add: addReaction_def post_json_def handleError_def errorf_noargs_plain)

theorem reaction_api_error_witness:
  "fst (addReaction ((test_server (\<lambda>_ _. Net_error []) (\<lambda>_ _. Net_error []) (\<lambda>_ _. Net_error []))
          \<lparr>api_post := \<lambda>_ _. Body (False, ''already_reacted'')\<rparr>) ''1.0'' [] (test_world None))
   = Some ''Error response from API: already_reacted''"
  using reaction_api_error [of "''1.0''" "(test_server (\<lambda>_ _. Net_error []) (\<lambda>_ _. Net_error [])
          (\<lambda>_ _. Net_error []))\<lparr>api_post := \<lambda>_ _. Body (False, ''already_reacted'')\<rparr>" "test_world None"
      "''already_reacted''" "[]"]
  by (simp add: reactions_add_url_def)

text \<open>C28: listing a loaded emoji table prints the heading and then one line per
  entry of the table, in whatever order \<open>range\<close> visits the map: as a multiset
  the lines are the entries' lines, so every order prints the same lines.\<close>

theorem list_emoji_lines:
  assumes "set (iter (emoji_tab w)) = dom (emoji_tab w)" and "distinct (iter (emoji_tab w))"
    and "iter (emoji_tab w) \<noteq> []"
  shows "fst (listEmoji iter w) = None
       \<and> (\<exists>lines. stdout (snd (listEmoji iter w)) = stdout w @ ''Emoji List:\<newline>'' # lines
            \<and> mset lines = image_mset (\<lambda>k. emoji_line k (the (emoji_tab w k))) (mset_set (dom (emoji_tab w))))"
  using assms mset_map_distinct [OF assms(2), of "\<lambda>k. emoji_line k (the (emoji_tab w k))"]
  by (simp add: listEmoji_def Let_def foldl_go_print_stdout)

theorem list_emoji_lines_witness:
  "stdout (snd (listEmoji (\<lambda>_. [''x'']) ((test_world None)\<lparr>emoji_tab := [''x'' \<mapsto> ''&#x2705;'']\<rparr>))) =
     [''Emoji List:\<newline>'', ''x: '' @ [CHR 0xE2, CHR 0x9C, CHR 0x85] @ ''\<newline>'']"
proof -
  have e: "emoji_line ''x'' ''&#x2705;'' = ''x: '' @ [CHR 0xE2, CHR 0x9C, CHR 0x85] @ ''\<newline>''" by code_simp
  from list_emoji_lines [of "\<lambda>_. [''x'']" "(test_world None)\<lparr>emoji_tab := [''x'' \<mapsto> ''&#x2705;'']\<rparr>"]
  obtain lines where
    "stdout (snd (listEmoji (\<lambda>_. [''x'']) ((test_world None)\<lparr>emoji_tab := [''x'' \<mapsto> ''&#x2705;'']\<rparr>))) =
       [''Emoji List:\<newline>''] @ lines" and "mset lines = {# emoji_line ''x'' ''&#x2705;'' #}"
    by auto
  with e show ?thesis by simp
qed

end
