(* ===== verification/Upload.thy ===== *)
theory Upload
  imports Download Actions
begin

text \<open>
  The upload command, \<open>uploadFile\<close> (\<open>src/main.go\<close>, lines 513--615), Slack's
  two-phase external upload: a form POST to \<open>files.getUploadURLExternal\<close>
  (file name, length, channel and the bot token as form fields, no
  \<open>Authorization\<close> header: the request's token is empty), a POST of the file's
  bytes to the returned upload URL, and a JSON POST to
  \<open>files.completeUploadExternal\<close> with the file's ID (the nested member
  \<open>files[0].id\<close> is written with its dotted path).  The code ignores the
  errors of the first request: a transport error leaves \<open>resp\<close> \<open>nil\<close>, and
  \<open>resp.Body\<close> panics; a read or decode error leaves the upload URL and the
  file ID empty and the upload goes on.  The answer to the second POST is not
  looked at.  The answer to the last one is checked step by step, each failure
  printing its line.  \<open>time.Sleep\<close> is not modelled.  A directory is opened as
  a file with no bytes (its \<open>Stat\<close> size depends on the platform).
\<close>

definition upload_url_endpoint :: string where
  "upload_url_endpoint = ''https://slack.com/api/files.getUploadURLExternal''"

definition complete_upload_endpoint :: string where
  "complete_upload_endpoint = ''https://slack.com/api/files.completeUploadExternal''"

definition file_bytes :: "fs_entry \<Rightarrow> string" where
  "file_bytes e = (case e of File c \<Rightarrow> c | Dir \<Rightarrow> [])"

text \<open>The checks on the answer of \<open>files.completeUploadExternal\<close> (lines
  586--612), as the line they print.\<close>

definition complete_message :: "file_obj list option answer \<Rightarrow> string" where
  "complete_message a =
     (case a of
        Net_error _ \<Rightarrow> ''Failed to complete file upload''
      | Read_error _ \<Rightarrow> ''Failed to read complete upload response''
      | Decode_error _ \<Rightarrow> ''Failed to decode complete upload response''
      | Body None \<Rightarrow> ''File information not found in response''
      | Body (Some []) \<Rightarrow> ''File information not found in response''
      | Body (Some (Not_object # _)) \<Rightarrow> ''File information not found in response''
      | Body (Some (File_object permalink urlPrivate # _)) \<Rightarrow>
          if \<not> permalink \<or> \<not> urlPrivate then ''File URLs not found in response''
          else ''File uploaded and shared to Slack'')"

definition uploadFile ::
  "server \<Rightarrow> (string \<Rightarrow> string + string) \<Rightarrow> string \<Rightarrow> world \<Rightarrow> panic + world" where
  "uploadFile srv url_parse filePath w =
     (case fs w filePath of
        None \<Rightarrow> Inr (println (''Error opening file: open '' @ filePath @ '': no such file or directory'') w)
      | Some entry \<Rightarrow>
          (let content = file_bytes entry;
               name = path_base filePath;
               w1 = issue (Http_post upload_url_endpoint []
                      [(''filename'', name), (''length'', go_itoa (int (length content))),
                       (''channels'', channel_id (cfg w)), (''token'', slack_bot_token (cfg w))]) w
           in case upload_url_api srv (length (sent w)) of
                Net_error _ \<Rightarrow> Inl Nil_dereference
              | a \<Rightarrow>
                  (let (uploadURL, fileID) = (case a of Body r \<Rightarrow> r | _ \<Rightarrow> ([], []))
                   in case url_parse uploadURL of
                        Inl _ \<Rightarrow> Inl Nil_dereference
                      | Inr _ \<Rightarrow>
                          (let w2 = issue (Http_post uploadURL [] [(''file'', content)]) w1;
                               w3 = issue (Http_post complete_upload_endpoint (slack_bot_token (cfg w))
                                      (marshal_object [(''files.0.id'', fileID), (''channel_id'', channel_id (cfg w))])) w2
                           in Inr (println (complete_message (complete_api srv (length (sent w2)))) w3)))))"

lemma marshal_complete [simp]:
  "marshal_object [(''files.0.id'', i), (''channel_id'', c)] = [(''channel_id'', c), (''files.0.id'', i)]"
  by (simp add: marshal_object_def)

text \<open>The three requests of an upload, in the order they are sent.\<close>

definition upload_requests :: "world \<Rightarrow> string \<Rightarrow> string \<Rightarrow> string \<Rightarrow> string \<Rightarrow> request list" where
  "upload_requests w filePath content uploadURL fileID =
     [Http_post upload_url_endpoint []
        [(''filename'', path_base filePath), (''length'', go_itoa (int (length content))),
         (''channels'', channel_id (cfg w)), (''token'', slack_bot_token (cfg w))],
      Http_post uploadURL [] [(''file'', content)],
      Http_post complete_upload_endpoint (slack_bot_token (cfg w))
        [(''channel_id'', channel_id (cfg w)), (''files.0.id'', fileID)]]"

text \<open>C33: when the first request of an upload fails in transport, the ignored
  error leaves the response \<open>nil\<close> and reading its body panics.\<close>

theorem upload_transport_error_panics:
  assumes "fs w filePath \<noteq> None" and "upload_url_api srv (length (sent w)) = Net_error e"
  shows "uploadFile srv url_parse filePath w = Inl Nil_dereference"
  using assms by (auto simp: uploadFile_def)

theorem upload_transport_error_panics_witness:
  "uploadFile (test_server (\<lambda>_ _. Net_error []) (\<lambda>_ _. Net_error []) (\<lambda>_ _. Net_error []))
     (\<lambda>_. Inr []) ''a.txt'' ((test_world None)\<lparr>fs := [''a.txt'' \<mapsto> File ''hi'']\<rparr>) = Inl Nil_dereference"
  by (rule upload_transport_error_panics [of _ _ _ "''down''"]) simp_all

text \<open>C34: an upload that the server accepts sends exactly three requests, in
  order: the form asking for an upload URL, the file's bytes to that URL, and
  the completion naming the file's ID; then it reports success.\<close>

theorem upload_request_sequence:
  assumes "fs w filePath = Some (File c)"
    and "upload_url_api srv (length (sent w)) = Body (uploadURL, fileID)"
    and "url_parse uploadURL = Inr x"
    and "complete_api srv (length (sent w) + 2) = Body (Some (File_object True True # objs))"
  shows "uploadFile srv url_parse filePath w =
           Inr (println ''File uploaded and shared to Slack''
             (w\<lparr>sent := sent w @ upload_requests w filePath c uploadURL fileID\<rparr>))"
  using assms
  by (simp add: uploadFile_def upload_requests_def file_bytes_def complete_message_def issue_def)

theorem upload_request_sequence_witness:
  "uploadFile ((test_server (\<lambda>_ _. Net_error []) (\<lambda>_ _. Net_error []) (\<lambda>_ _. Net_error []))
       \<lparr>upload_url_api := \<lambda>_. Body (''https://files.slack.com/upload/v1/X'', ''F1''),
        complete_api := \<lambda>_. Body (Some [File_object True True])\<rparr>)
     (\<lambda>_. Inr ''/upload/v1/X'') ''a.txt'' ((test_world None)\<lparr>fs := [''a.txt'' \<mapsto> File ''hi'']\<rparr>) =
   Inr (println ''File uploaded and shared to Slack''
     (((test_world None)\<lparr>fs := [''a.txt'' \<mapsto> File ''hi'']\<rparr>)\<lparr>sent :=
        upload_requests (test_world None) ''a.txt'' ''hi'' ''https://files.slack.com/upload/v1/X'' ''F1''\<rparr>))"
  using upload_request_sequence [of "(test_world None)\<lparr>fs := [''a.txt'' \<mapsto> File ''hi'']\<rparr>" "''a.txt''" "''hi''"
      "(test_server (\<lambda>_ _. Net_error []) (\<lambda>_ _. Net_error []) (\<lambda>_ _. Net_error []))
       \<lparr>upload_url_api := \<lambda>_. Body (''https://files.slack.com/upload/v1/X'', ''F1''),
        complete_api := \<lambda>_. Body (Some [File_object True True])\<rparr>"
      "''https://files.slack.com/upload/v1/X''" "''F1''" "\<lambda>_. Inr ''/upload/v1/X''" "''/upload/v1/X''" "[]"]
  by (simp add: upload_requests_def)

text \<open>When the first answer does not decode, the upload is not stopped:
  the bytes are sent to the empty URL and the completion names the empty file
  ID, and only the completion's answer decides the message.\<close>

theorem upload_decode_error_continues:
  assumes "fs w filePath = Some (File c)"
    and "upload_url_api srv (length (sent w)) = Decode_error e"
    and "url_parse [] = Inr x"
  shows "uploadFile srv url_parse filePath w =
           Inr (println (complete_message (complete_api srv (length (sent w) + 2)))
             (w\<lparr>sent := sent w @ upload_requests w filePath c [] []\<rparr>))"
  using assms by (simp add: uploadFile_def upload_requests_def file_bytes_def issue_def)

theorem upload_decode_error_continues_witness:
  "uploadFile ((test_server (\<lambda>_ _. Net_error []) (\<lambda>_ _. Net_error []) (\<lambda>_ _. Net_error []))
       \<lparr>upload_url_api := \<lambda>_. Decode_error ''invalid character'', complete_api := \<lambda>_. Body None\<rparr>)
     (\<lambda>_. Inr []) ''a.txt'' ((test_world None)\<lparr>fs := [''a.txt'' \<mapsto> File ''hi'']\<rparr>) =
   Inr (println ''File information not found in response''
     (((test_world None)\<lparr>fs := [''a.txt'' \<mapsto> File ''hi'']\<rparr>)\<lparr>sent :=
        upload_requests (test_world None) ''a.txt'' ''hi'' [] []\<rparr>))"
  using upload_decode_error_continues [of "(test_world None)\<lparr>fs := [''a.txt'' \<mapsto> File ''hi'']\<rparr>" "''a.txt''" "''hi''"
      "(test_server (\<lambda>_ _. Net_error []) (\<lambda>_ _. Net_error []) (\<lambda>_ _. Net_error []))
       \<lparr>upload_url_api := \<lambda>_. Decode_error ''invalid character'', complete_api := \<lambda>_. Body None\<rparr>"
      "''invalid character''" "\<lambda>_. Inr []" "[]"]
  by (simp add: upload_requests_def complete_message_def)

end
