(* ===== verification/Go_Float.thy ===== *)
theory Go_Float
  imports Go_Prelude
begin

text \<open>
  The part of Go's \<open>strconv\<close> that \<open>formatTimestamp\<close> calls:
  \<open>ParseFloat(s, 64)\<close> as its \<open>special\<close> and \<open>readFloat\<close> read a literal
  (decimal or hexadecimal, with a point, an exponent, underscores between
  digits, \<open>inf\<close>, \<open>infinity\<close> and \<open>nan\<close>), the exact value of the literal
  rounded to the nearest \<open>float64\<close> (ties to even, with subnormals and
  overflow to an infinity), and the conversion \<open>int64(f)\<close>.  Go's own
  algorithms (Eisel-Lemire, the decimal slow path, \<open>atofHex\<close>) all return
  the correctly rounded value, which is what is modelled; the exponent is read
  as \<open>readFloat\<close> reads it, ceasing to grow at 10000.  Values are kept as
  integers (\<open>m * 2 ^ e\<close>, and fractions as numerator and denominator) so that
  they compute.

  The lemmas show that an integer below \<open>2 ^ 53\<close> in decimal reads back
  exactly, and that a decimal with at most six digits after the point and an
  integer part below \<open>2 ^ 33\<close> truncates to its integer part: the rounding to
  53 bits never carries into the next integer.
\<close>

unbundle bit_operations_syntax

section \<open>\<open>strconv.ParseFloat(s, 64)\<close>\<close>

text \<open>A \<open>float64\<close>: a finite value \<open>m * 2 ^ e\<close>, an infinity, or NaN.\<close>

datatype float64 = Finite int int | Pos_inf | Neg_inf | NaN

text \<open>\<open>lower\<close> of \<open>strconv\<close>: the byte with bit 5 set (so that \<open>X\<close> becomes
  \<open>x\<close>), compared with the codes of lower-case letters.\<close>

definition go_lower :: "char \<Rightarrow> nat" where
  "go_lower c = of_char c OR 32"

definition ascii_lower :: "char \<Rightarrow> char" where
  "ascii_lower c = (if (65::nat) \<le> of_char c \<and> of_char c \<le> (90::nat) then char_of (of_char c + (32::nat)) else c)"

fun common_prefix_len_ic :: "string \<Rightarrow> string \<Rightarrow> nat" where
  "common_prefix_len_ic (c # cs) (p # ps) = (if ascii_lower c = p then Suc (common_prefix_len_ic cs ps) else 0)"
| "common_prefix_len_ic _ _ = 0"

definition special_inf :: "bool \<Rightarrow> nat \<Rightarrow> string \<Rightarrow> (float64 \<times> nat) option" where
  "special_inf neg nsign s =
     (let n = common_prefix_len_ic s ''infinity'';
          n' = (if 3 < n \<and> n < 8 then 3 else n)
      in if n' = 3 \<or> n' = 8 then Some (if neg then Neg_inf else Pos_inf, nsign + n') else None)"

definition special :: "string \<Rightarrow> (float64 \<times> nat) option" where
  "special s =
     (case s of
        [] \<Rightarrow> None
      | c # cs \<Rightarrow>
          if c = CHR ''+'' \<or> c = CHR ''-'' then special_inf (c = CHR ''-'') 1 cs
          else if c = CHR ''i'' \<or> c = CHR ''I'' then special_inf False 0 s
          else if c = CHR ''n'' \<or> c = CHR ''N'' then
            (if common_prefix_len_ic s ''nan'' = 3 then Some (NaN, 3) else None)
          else None)"

definition is_hex_letter :: "char \<Rightarrow> bool" where
  "is_hex_letter c \<longleftrightarrow> 97 \<le> go_lower c \<and> go_lower c \<le> 102"

definition hex_digit_val :: "char \<Rightarrow> nat" where
  "hex_digit_val c = (if is_digit c then digit_val c else go_lower c - 87)"

text \<open>The mantissa loop of \<open>readFloat\<close>: the digits read (underscores and the
  point dropped), how many of them follow the point, whether an underscore was
  seen, and the rest of the input.\<close>

fun scan_mantissa :: "bool \<Rightarrow> bool \<Rightarrow> string \<Rightarrow> string \<times> nat \<times> bool \<times> string" where
  "scan_mantissa hex dot [] = ([], 0, False, [])"
| "scan_mantissa hex dot (c # cs) =
     (if c = CHR ''_'' then (case scan_mantissa hex dot cs of (ds, nf, u, r) \<Rightarrow> (ds, nf, True, r))
      else if c = CHR ''.'' then (if dot then ([], 0, False, c # cs) else scan_mantissa hex True cs)
      else if is_digit c \<or> (hex \<and> is_hex_letter c) then
        (case scan_mantissa hex dot cs of (ds, nf, u, r) \<Rightarrow> (c # ds, if dot then Suc nf else nf, u, r))
      else ([], 0, False, c # cs))"

text \<open>The digits of the exponent: \<open>e\<close> stops growing once it reaches 10000.\<close>

fun scan_exp_digits :: "nat \<Rightarrow> string \<Rightarrow> nat \<times> bool \<times> string" where
  "scan_exp_digits e [] = (e, False, [])"
| "scan_exp_digits e (c # cs) =
     (if c = CHR ''_'' then (case scan_exp_digits e cs of (e', u, r) \<Rightarrow> (e', True, r))
      else if is_digit c then scan_exp_digits (if e < 10000 then e * 10 + digit_val c else e) cs
      else (e, False, c # cs))"

text \<open>The optional exponent, introduced by the byte whose \<open>lower\<close> is \<open>expChar\<close>
  (\<open>e\<close>, or \<open>p\<close> in base 16): \<open>None\<close> when it is malformed or, in base 16,
  missing.\<close>

definition scan_exponent :: "nat \<Rightarrow> bool \<Rightarrow> string \<Rightarrow> (int \<times> bool \<times> string) option" where
  "scan_exponent expChar hex s =
     (case s of
        c # cs \<Rightarrow>
          if go_lower c = expChar then
            (let (neg, r) = (case cs of
                               d # ds \<Rightarrow> if d = CHR ''+'' then (False, ds) else if d = CHR ''-'' then (True, ds) else (False, cs)
                             | [] \<Rightarrow> (False, []))
             in case r of
                  d # _ \<Rightarrow> if is_digit d then
                             (case scan_exp_digits 0 r of (e, u, rest) \<Rightarrow> Some (if neg then - int e else int e, u, rest))
                           else None
                | [] \<Rightarrow> None)
          else if hex then None else Some (0, False, s)
      | [] \<Rightarrow> if hex then None else Some (0, False, []))"

datatype saw = Saw_start | Saw_digit | Saw_underscore | Saw_other

fun underscore_scan :: "bool \<Rightarrow> saw \<Rightarrow> string \<Rightarrow> bool" where
  "underscore_scan hex sw [] = (sw \<noteq> Saw_underscore)"
| "underscore_scan hex sw (c # cs) =
     (if is_digit c \<or> (hex \<and> is_hex_letter c) then underscore_scan hex Saw_digit cs
      else if c = CHR ''_'' then sw = Saw_digit \<and> underscore_scan hex Saw_underscore cs
      else if sw = Saw_underscore then False
      else underscore_scan hex Saw_other cs)"

definition underscoreOK :: "string \<Rightarrow> bool" where
  "underscoreOK s =
     (let s1 = (case s of c # cs \<Rightarrow> if c = CHR ''-'' \<or> c = CHR ''+'' then cs else s | [] \<Rightarrow> [])
      in case s1 of
           z # b # rest \<Rightarrow>
             if z = CHR ''0'' \<and> (go_lower b = 98 \<or> go_lower b = 111 \<or> go_lower b = 120)
             then underscore_scan (go_lower b = 120) Saw_digit rest
             else underscore_scan False Saw_start s1
         | _ \<Rightarrow> underscore_scan False Saw_start s1)"

text \<open>A literal \<open>readFloat\<close> accepts: its sign, base (10 or 16), digits, the number
  of digits after the point, and the exponent (of 10, or of 2 for base 16).\<close>

record float_literal =
  lit_neg :: bool
  lit_hex :: bool
  lit_digits :: string
  lit_frac :: nat
  lit_exp :: int

text \<open>The optional sign of \<open>readFloat\<close> and \<open>ParseFloat\<close>'s test for the base
  prefix \<open>0x\<close> (it needs a byte after the prefix).\<close>

definition read_sign :: "string \<Rightarrow> bool \<times> string" where
  "read_sign s =
     (case s of
        c # cs \<Rightarrow> if c = CHR ''+'' then (False, cs) else if c = CHR ''-'' then (True, cs) else (False, s)
      | [] \<Rightarrow> (False, []))"

definition has_hex_prefix :: "string \<Rightarrow> bool" where
  "has_hex_prefix s \<longleftrightarrow> 2 < length s \<and> s ! 0 = CHR ''0'' \<and> go_lower (s ! 1) = 120"

definition readFloat :: "string \<Rightarrow> (float_literal \<times> bool \<times> string) option" where
  "readFloat s =
     (case read_sign s of
        (neg, s1) \<Rightarrow>
          (let hex = has_hex_prefix s1
           in case scan_mantissa hex False (if hex then drop 2 s1 else s1) of
                (ds, nf, u1, r1) \<Rightarrow>
                  if ds = [] then None
                  else case scan_exponent (if hex then 112 else 101) hex r1 of
                         None \<Rightarrow> None
                       | Some (e, u2, r2) \<Rightarrow>
                           Some (\<lparr>lit_neg = neg, lit_hex = hex, lit_digits = ds, lit_frac = nf, lit_exp = e\<rparr>,
                                 u1 \<or> u2, r2)))"

text \<open>The exact value of a literal, as a numerator and a denominator of its
  magnitude: \<open>digits * base ^ (- frac) * b ^ exp\<close> with \<open>b\<close> 10, or 2 for base 16.\<close>

definition literal_value :: "float_literal \<Rightarrow> nat \<times> nat" where
  "literal_value l =
     (let base = (if lit_hex l then 16 else 10);
          eb = (if lit_hex l then 2 else 10::nat);
          mant = foldl (\<lambda>n c. base * n + hex_digit_val c) 0 (lit_digits l)
      in (mant * (if 0 \<le> lit_exp l then eb ^ nat (lit_exp l) else 1),
          base ^ lit_frac l * (if lit_exp l < 0 then eb ^ nat (- lit_exp l) else 1)))"

section \<open>Rounding to \<open>float64\<close>\<close>

fun nbits :: "nat \<Rightarrow> nat" where
  "nbits n = (if n = 0 then 0 else Suc (nbits (n div 2)))"

text \<open>Whether \<open>num / den < 2 ^ k\<close>.\<close>

definition below_pow2 :: "nat \<Rightarrow> nat \<Rightarrow> int \<Rightarrow> bool" where
  "below_pow2 num den k \<longleftrightarrow> (if 0 \<le> k then num < den * 2 ^ nat k else num * 2 ^ nat (- k) < den)"

text \<open>The \<open>k\<close> with \<open>2 ^ k \<le> num / den < 2 ^ (k + 1)\<close>.\<close>

definition floor_log2 :: "nat \<Rightarrow> nat \<Rightarrow> int" where
  "floor_log2 num den =
     (let k = int (nbits num) - int (nbits den) in if below_pow2 num den k then k - 1 else k)"

text \<open>\<open>num / den * 2 ^ (- e)\<close> as a numerator and a denominator.\<close>

definition scale2 :: "nat \<Rightarrow> nat \<Rightarrow> int \<Rightarrow> nat \<times> nat" where
  "scale2 num den e = (if 0 \<le> e then (num, den * 2 ^ nat e) else (num * 2 ^ nat (- e), den))"

definition round_half_even :: "nat \<Rightarrow> nat \<Rightarrow> nat" where
  "round_half_even p q =
     (let f = p div q; r = p mod q
      in if 2 * r < q then f else if q < 2 * r then Suc f else if even f then f else Suc f)"

text \<open>IEEE round to nearest, ties to even, of \<open>\<plusminus>num / den\<close>: 53 significant
  bits, the unit never below \<open>2 ^ -1074\<close> (subnormals), and an infinity at
  \<open>2 ^ 1024\<close> and above.\<close>

definition float64_overflow :: nat where
  "float64_overflow = 2 ^ 1024"

definition round_float64 :: "bool \<Rightarrow> nat \<Rightarrow> nat \<Rightarrow> float64" where
  "round_float64 neg num den =
     (if num = 0 then Finite 0 0
      else let e = max (floor_log2 num den - 52) (-1074);
               (p, q) = scale2 num den e;
               m = round_half_even p q
           in if 0 \<le> e \<and> float64_overflow \<le> m * 2 ^ nat e then (if neg then Neg_inf else Pos_inf)
              else Finite (if neg then - int m else int m) e)"

text \<open>\<open>strconv.ParseFloat(s, 64)\<close> with its error dropped: the value of a
  well-formed literal, \<open>\<plusminus>Inf\<close> for one out of range, and 0 for a syntax error
  (the value \<open>ParseFloat\<close> returns with it).  The whole string must be read.\<close>

definition go_parse_float :: "string \<Rightarrow> float64" where
  "go_parse_float s =
     (case special s of
        Some (f, n) \<Rightarrow> if n = length s then f else Finite 0 0
      | None \<Rightarrow>
          (case readFloat s of
             None \<Rightarrow> Finite 0 0
           | Some (l, u, rest) \<Rightarrow>
               if rest \<noteq> [] \<or> (u \<and> \<not> underscoreOK s) then Finite 0 0
               else (case literal_value l of (num, den) \<Rightarrow> round_float64 (lit_neg l) num den)))"

text \<open>The conversion \<open>int64(f)\<close>: truncation toward zero.  A NaN, an infinity
  or a value out of range converts to \<open>-2 ^ 63\<close> (the result of \<open>CVTTSD2SQ\<close> on
  amd64; the Go specification leaves it to the implementation).\<close>

definition int64_min :: int where
  "int64_min = - (2 ^ 63)"

definition int64_lim :: int where
  "int64_lim = 2 ^ 63"

definition go_int64_of_float :: "float64 \<Rightarrow> int" where
  "go_int64_of_float f =
     (case f of
        Finite m e \<Rightarrow>
          (let t = (if 0 \<le> e then m * 2 ^ nat e
                    else if 0 \<le> m then m div 2 ^ nat (- e) else - ((- m) div 2 ^ nat (- e)))
           in if int64_min \<le> t \<and> t < int64_lim then t else int64_min)
      | _ \<Rightarrow> int64_min)"

section \<open>Reading a literal\<close>

lemma go_lower_digit: "is_digit c \<Longrightarrow> go_lower c = of_char c"
proof -
  assume "is_digit c"
  then have "48 \<le> (of_char c::nat)" "(of_char c::nat) \<le> 57" by (simp_all add: is_digit_def)
  then have "of_char c = (48::nat) \<or> of_char c = (49::nat) \<or> of_char c = (50::nat) \<or> of_char c = (51::nat) \<or>
             of_char c = (52::nat) \<or> of_char c = (53::nat) \<or> of_char c = (54::nat) \<or> of_char c = (55::nat) \<or>
             of_char c = (56::nat) \<or> of_char c = (57::nat)"
    by arith
  then show ?thesis by (elim disjE) (simp_all add: go_lower_def)
qed

lemma digit_not_special_char:
  "is_digit c \<Longrightarrow> c \<noteq> CHR ''_'' \<and> c \<noteq> CHR ''.'' \<and> c \<noteq> CHR ''+'' \<and> c \<noteq> CHR ''-'' \<and>
     c \<noteq> CHR ''i'' \<and> c \<noteq> CHR ''I'' \<and> c \<noteq> CHR ''n'' \<and> c \<noteq> CHR ''N''"
  by (auto simp: is_digit_def)

lemma scan_mantissa_digits:
  "list_all is_digit ds \<Longrightarrow>
   scan_mantissa hex dot (ds @ rest) =
     (case scan_mantissa hex dot rest of (ds', nf, u, r) \<Rightarrow> (ds @ ds', (if dot then length ds else 0) + nf, u, r))"
  by (induction ds) (auto simp: digit_not_special_char split: prod.split)

lemma ascii_lower_digit: "is_digit c \<Longrightarrow> ascii_lower c = c"
  by (simp add: ascii_lower_def is_digit_def)

lemma special_digits:
  assumes "list_all is_digit ds" "ds \<noteq> []"
  shows "special ds = None" "special (CHR ''-'' # ds) = None"
proof -
  obtain c cs where ds: "ds = c # cs" and c: "is_digit c" using assms by (cases ds) auto
  have "common_prefix_len_ic ds ''infinity'' = 0"
    using c ds by (simp add: ascii_lower_digit digit_not_special_char)
  then show "special ds = None" "special (CHR ''-'' # ds) = None"
    using c ds by (simp_all add: special_def special_inf_def digit_not_special_char)
qed

lemma hex_prefix_digits:
  "list_all is_digit (take 2 s) \<Longrightarrow> \<not> has_hex_prefix s"
proof (cases s)
  case (Cons a t)
  assume d: "list_all is_digit (take 2 s)"
  show ?thesis
  proof (cases t)
    case (Cons b u)
    with d \<open>s = a # t\<close> have "is_digit b" by simp
    then have "go_lower b \<noteq> 120" by (auto simp: go_lower_digit is_digit_def)
    with Cons \<open>s = a # t\<close> show ?thesis by (simp add: has_hex_prefix_def)
  qed (use \<open>s = a # t\<close> in \<open>simp add: has_hex_prefix_def\<close>)
qed (simp add: has_hex_prefix_def)

lemma read_sign_digits:
  "list_all is_digit ds \<Longrightarrow> ds \<noteq> [] \<Longrightarrow> read_sign (ds @ rest) = (False, ds @ rest)"
  "read_sign (CHR ''-'' # s) = (True, s)"
  by (auto simp: read_sign_def digit_not_special_char neq_Nil_conv)

lemma foldl_digits_value:
  "list_all is_digit ds \<Longrightarrow> foldl (\<lambda>n c. 10 * n + hex_digit_val c) a ds = foldl (\<lambda>n c. 10 * n + digit_val c) a ds"
  by (induction ds arbitrary: a) (simp_all add: hex_digit_val_def)

text \<open>A decimal literal with no exponent: its digits, the point, and a fraction.\<close>

lemma readFloat_decimal:
  assumes "list_all is_digit ds" "ds \<noteq> []" "list_all is_digit fr"
  shows "readFloat (ds @ CHR ''.'' # fr) =
           Some (\<lparr>lit_neg = False, lit_hex = False, lit_digits = ds @ fr, lit_frac = length fr, lit_exp = 0\<rparr>, False, [])"
proof -
  have nh: "\<not> has_hex_prefix (ds @ CHR ''.'' # fr)"
  proof (cases "length ds")
    case (Suc k)
    show ?thesis
    proof (cases k)
      case 0
      with Suc obtain c where "ds = [c]" by (cases ds) auto
      moreover have "go_lower CHR ''.'' = 46" by (simp add: go_lower_def)
      ultimately show ?thesis by (simp add: has_hex_prefix_def)
    next
      case (Suc j)
      with \<open>length ds = Suc k\<close> have "take 2 (ds @ CHR ''.'' # fr) = take 2 ds" by simp
      with assms(1) have "list_all is_digit (take 2 (ds @ CHR ''.'' # fr))"
        by (auto simp: list_all_iff dest: in_set_takeD)
      then show ?thesis by (rule hex_prefix_digits)
    qed
  qed (use assms(2) in simp)
  have sc: "scan_mantissa False False (ds @ CHR ''.'' # fr) = (ds @ fr, length fr, False, [])"
    using assms scan_mantissa_digits [of ds False False "CHR ''.'' # fr"]
      scan_mantissa_digits [of fr False True "[]"] by simp
  show ?thesis
    using assms by (simp add: readFloat_def read_sign_digits nh sc scan_exponent_def)
qed

lemma readFloat_integer:
  assumes "list_all is_digit ds" "ds \<noteq> []" "s = (if neg then CHR ''-'' # ds else ds)"
  shows "readFloat s =
           Some (\<lparr>lit_neg = neg, lit_hex = False, lit_digits = ds, lit_frac = 0, lit_exp = 0\<rparr>, False, [])"
proof -
  have "list_all is_digit (take 2 ds)"
    using assms(1) by (auto simp: list_all_iff dest: in_set_takeD)
  then have nh: "\<not> has_hex_prefix ds" by (rule hex_prefix_digits)
  have sc: "scan_mantissa False False ds = (ds, 0, False, [])"
    using assms scan_mantissa_digits [of ds False False "[]"] by simp
  have "read_sign s = (neg, ds)"
    using assms read_sign_digits(1) [of ds "[]"] read_sign_digits(2) by (cases neg) simp_all
  then show ?thesis
    using assms(2) by (simp add: readFloat_def nh sc scan_exponent_def)
qed

section \<open>Rounding\<close>

declare nbits.simps [simp del]

lemma nbits_bounds: "0 < n \<Longrightarrow> 2 ^ (nbits n - 1) \<le> n \<and> n < 2 ^ nbits n"
proof (induction n rule: nbits.induct)
  case (1 n)
  show ?case
  proof (cases "n div 2 = 0")
    case True
    with 1 have "n = 1" by arith
    then show ?thesis by (simp add: nbits.simps)
  next
    case False
    with 1 have ih: "2 ^ (nbits (n div 2) - 1) \<le> n div 2 \<and> n div 2 < 2 ^ nbits (n div 2)" by simp
    have nb: "nbits n = Suc (nbits (n div 2))" using 1 by (simp add: nbits.simps)
    have "0 < nbits (n div 2)" using False by (simp add: nbits.simps)
    then have "(2::nat) ^ nbits (n div 2) = 2 * 2 ^ (nbits (n div 2) - 1)"
      by (metis Suc_diff_1 power_Suc)
    define X where "X = (2::nat) ^ (nbits (n div 2) - 1)"
    have h: "2 * (n div 2) \<le> n" "n \<le> 2 * (n div 2) + 1" by arith+
    have x: "2 ^ nbits n = 4 * X" "2 ^ (nbits n - 1) = 2 * X"
      using nb \<open>(2::nat) ^ nbits (n div 2) = 2 * 2 ^ (nbits (n div 2) - 1)\<close> by (simp_all add: X_def)
    have "X \<le> n div 2" "n div 2 < 2 * X"
      using ih \<open>(2::nat) ^ nbits (n div 2) = 2 * 2 ^ (nbits (n div 2) - 1)\<close> by (simp_all add: X_def)
    with h have "2 * X \<le> n" "n < 4 * X" by linarith+
    with x show ?thesis by simp
  qed
qed

lemma nbits_le: "n < 2 ^ j \<Longrightarrow> nbits n \<le> j"
proof (rule ccontr)
  assume n: "n < 2 ^ j" and "\<not> nbits n \<le> j"
  then have "j \<le> nbits n - 1" by simp
  moreover have "0 < n" using \<open>\<not> nbits n \<le> j\<close> by (cases "n = 0") (auto simp: nbits.simps)
  ultimately have "2 ^ j \<le> n" using nbits_bounds [of n] by (meson le_trans power_increasing one_le_numeral)
  with n show False by simp
qed

lemma floor_log2_lt:
  assumes "0 < den" "num < den * 2 ^ j"
  shows "floor_log2 num den < int j"
proof -
  have "den < 2 ^ nbits den" using assms nbits_bounds [of den] by simp
  then have "den * 2 ^ j < 2 ^ nbits den * 2 ^ j" by simp
  with assms(2) have "num < 2 ^ nbits den * 2 ^ j" by (rule less_trans)
  then have "num < 2 ^ (nbits den + j)" by (simp add: power_add)
  then have k0: "int (nbits num) - int (nbits den) \<le> int j" using nbits_le by fastforce
  show ?thesis
  proof (cases "below_pow2 num den (int (nbits num) - int (nbits den))")
    case True
    with k0 show ?thesis by (simp add: floor_log2_def)
  next
    case False
    have "int (nbits num) - int (nbits den) \<noteq> int j"
    proof
      assume "int (nbits num) - int (nbits den) = int j"
      with False assms(2) show False by (simp add: below_pow2_def)
    qed
    with k0 False show ?thesis by (simp add: floor_log2_def)
  qed
qed

lemma round_half_even_bounds:
  assumes "0 < q"
  shows "2 * round_half_even p q * q \<le> 2 * p + q \<and> 2 * p \<le> 2 * round_half_even p q * q + q"
proof -
  define f r where "f = p div q" and "r = p mod q"
  have p: "p = f * q + r" and r: "r < q" using assms by (simp_all add: f_def r_def)
  have "2 * r < q \<or> q < 2 * r \<or> 2 * r = q" by arith
  then show ?thesis
  proof (elim disjE)
    assume "2 * r < q"
    then show ?thesis unfolding round_half_even_def Let_def f_def [symmetric] r_def [symmetric]
      using p by (simp add: add_mult_distrib2)
  next
    assume "q < 2 * r"
    then show ?thesis unfolding round_half_even_def Let_def f_def [symmetric] r_def [symmetric]
      using p r by (simp add: add_mult_distrib2)
  next
    assume "2 * r = q"
    then show ?thesis unfolding round_half_even_def Let_def f_def [symmetric] r_def [symmetric]
      using p by (simp add: add_mult_distrib2)
  qed
qed

lemma round_half_even_one [simp]: "round_half_even p 1 = p" "round_half_even p (Suc 0) = p"
  by (simp_all add: round_half_even_def)

lemma round_float64_eq:
  assumes "0 < num" and "e = max (floor_log2 num den - 52) (-1074)" and "scale2 num den e = (p, q)"
  shows "round_float64 neg num den =
           (if 0 \<le> e \<and> float64_overflow \<le> round_half_even p q * 2 ^ nat e then (if neg then Neg_inf else Pos_inf)
            else Finite (if neg then - int (round_half_even p q) else int (round_half_even p q)) e)"
  using assms(1,3) unfolding round_float64_def Let_def assms(2) [symmetric] by simp

lemma go_int64_finite_neg_exp:
  "e < 0 \<Longrightarrow> go_int64_of_float (Finite (int m) e) =
     (if int m div 2 ^ nat (- e) < int64_lim then int m div 2 ^ nat (- e) else int64_min)"
  "e < 0 \<Longrightarrow> go_int64_of_float (Finite (- int m) e) =
     (if int64_min \<le> - (int m div 2 ^ nat (- e)) then - (int m div 2 ^ nat (- e)) else int64_min)"
proof -
  assume "e < 0"
  have "0 \<le> int m div 2 ^ nat (- e)" by (simp add: div_int_pos_iff)
  then show "go_int64_of_float (Finite (int m) e) =
     (if int m div 2 ^ nat (- e) < int64_lim then int m div 2 ^ nat (- e) else int64_min)"
    using \<open>e < 0\<close> by (auto simp: go_int64_of_float_def Let_def int64_min_def int64_lim_def)
next
  assume "e < 0"
  have "0 \<le> int m div 2 ^ nat (- e)" by (simp add: div_int_pos_iff)
  then show "go_int64_of_float (Finite (- int m) e) =
     (if int64_min \<le> - (int m div 2 ^ nat (- e)) then - (int m div 2 ^ nat (- e)) else int64_min)"
    using \<open>e < 0\<close> by (auto simp: go_int64_of_float_def Let_def int64_min_def int64_lim_def)
qed

lemma pow53_bounds: "(2::nat) ^ 53 < float64_overflow" "int (2 ^ 53) < int64_lim"
  by (simp_all add: float64_overflow_def int64_lim_def)

lemma int64_round_integer:
  assumes "k < 2 ^ 53"
  shows "go_int64_of_float (round_float64 neg k 1) = (if neg then - int k else int k)"
proof (cases "k = 0")
  case True
  then show ?thesis by (simp add: round_float64_def go_int64_of_float_def int64_min_def int64_lim_def)
next
  case False
  have fl: "floor_log2 k 1 < 53" using floor_log2_lt [of 1 k 53] assms by simp
  obtain e where e: "e = max (floor_log2 k 1 - 52) (-1074)" by simp
  have e0: "e \<le> 0" using fl e by simp
  have k63: "int k < int64_lim" "int64_min \<le> - int k"
    using assms pow53_bounds(2) by (simp_all add: int64_min_def int64_lim_def)
  show ?thesis
  proof (cases "e = 0")
    case True
    have r: "round_float64 neg k 1 = Finite (if neg then - int k else int k) 0"
      using round_float64_eq [OF _ e, of k 1 neg] False True assms pow53_bounds(1)
      by (simp add: scale2_def)
    show ?thesis unfolding r using k63 by (cases neg) (simp_all add: go_int64_of_float_def)
  next
    case ne: False
    with e0 have "e < 0" by simp
    have r: "round_float64 neg k 1 = Finite (if neg then - int (k * 2 ^ nat (- e)) else int (k * 2 ^ nat (- e))) e"
      using round_float64_eq [OF _ e, of "k * 2 ^ nat (- e)" 1 neg] False \<open>e < 0\<close> by (simp add: scale2_def)
    have p: "int (k * 2 ^ nat (- e)) div 2 ^ nat (- e) = int k" by simp
    show ?thesis unfolding r using \<open>e < 0\<close> k63 p
      by (cases neg) (simp_all add: go_int64_finite_neg_exp del: of_nat_mult)
  qed
qed

lemma int64_round_ts:
  assumes N: "N < 2 ^ 33" and v: "v < 10 ^ L" and L: "L \<le> 6"
  shows "go_int64_of_float (round_float64 False (N * 10 ^ L + v) (10 ^ L)) = int N"
proof (cases "N * 10 ^ L + v = 0")
  case True
  then have "N = 0" by simp
  with True show ?thesis by (simp add: round_float64_def go_int64_of_float_def int64_min_def int64_lim_def)
next
  case False
  define num den where "num = N * 10 ^ L + v" and "den = (10::nat) ^ L"
  have den0: "0 < den" by (simp add: den_def)
  have "num < N * den + den" using v by (simp add: num_def den_def)
  also have "N * den + den = (N + 1) * den" by simp
  also have "(N + 1) * den \<le> 2 ^ 33 * den" using N by (intro mult_le_mono1) simp
  also have "2 ^ 33 * den = den * 2 ^ 33" by (rule mult.commute)
  finally have "num < den * 2 ^ 33" .
  then have fl: "floor_log2 num den < 33" using floor_log2_lt [OF den0, of num 33] by simp
  obtain e where e: "e = max (floor_log2 num den - 52) (-1074)" by simp
  have e20: "e \<le> -20" using fl e by simp
  define E where "E = nat (- e)"
  define A where "A = (2::nat) ^ E"
  have A20: "2 ^ 20 \<le> A" unfolding A_def E_def by (rule power_increasing) (use e20 in simp_all)
  define m where "m = round_half_even (num * A) den"
  have r: "round_float64 False num den = Finite (int m) e"
    using round_float64_eq [OF _ e, of "num * A" den False] False e20
    by (simp add: num_def [symmetric] scale2_def m_def A_def E_def)
  from round_half_even_bounds [OF den0, of "num * A"]
  have a: "2 * (m * den) \<le> 2 * (num * A) + den" and b: "2 * (num * A) \<le> 2 * (m * den) + den"
    by (simp_all add: m_def mult.assoc)
  have lo: "N * A \<le> m"
  proof (rule ccontr)
    assume "\<not> N * A \<le> m"
    then have "(m + 1) * den \<le> N * A * den" by (intro mult_le_mono1) simp
    moreover have "N * A * den \<le> num * A" by (simp add: num_def den_def algebra_simps)
    moreover have "(m + 1) * den = m * den + den" by (simp add: add_mult_distrib)
    ultimately have "m * den + den \<le> num * A" by linarith
    with b den0 show False by linarith
  qed
  have hi: "m < (N + 1) * A"
  proof (rule ccontr)
    assume "\<not> m < (N + 1) * A"
    then have "(N + 1) * A * den \<le> m * den" by (intro mult_le_mono1) simp
    moreover have "(v + 1) * (2 * A) \<le> den * (2 * A)" using v by (intro mult_le_mono1) (simp add: den_def)
    moreover have "den \<le> 10 ^ 6" using L unfolding den_def by (rule power_increasing) simp
    moreover have "(10::nat) ^ 6 < 2 * 2 ^ 20" by simp
    ultimately show False using a A20 by (simp add: num_def den_def algebra_simps)
  qed
  have "m div A = N" using lo hi by (intro div_nat_eqI) (simp_all add: mult.commute)
  then have d: "int m div 2 ^ nat (- e) = int N"
    by (metis A_def E_def of_nat_numeral of_nat_power zdiv_int)
  moreover have "int N < int64_lim" using N by (simp add: int64_lim_def)
  ultimately have "go_int64_of_float (round_float64 False num den) = int N"
    unfolding r using e20 by (simp add: go_int64_finite_neg_exp)
  then show ?thesis by (simp add: num_def den_def)
qed

section \<open>Decimal literals\<close>

lemma special_digit_first:
  "is_digit c \<Longrightarrow> special (c # cs) = None"
  "is_digit c \<Longrightarrow> special (CHR ''-'' # c # cs) = None"
  by (simp_all add: special_def special_inf_def digit_not_special_char ascii_lower_digit)

lemma literal_value_decimal:
  "\<not> lit_hex l \<Longrightarrow> lit_exp l = 0 \<Longrightarrow> list_all is_digit (lit_digits l) \<Longrightarrow>
   literal_value l = (dec_value (lit_digits l), 10 ^ lit_frac l)"
  by (simp add: literal_value_def foldl_digits_value dec_value_def)

lemma parse_float_ts:
  assumes "N < 2 ^ 33" and "list_all is_digit fr" and "length fr \<le> 6"
  shows "go_int64_of_float (go_parse_float (nat_to_dec N @ CHR ''.'' # fr)) = int N"
proof -
  obtain c cs where c: "nat_to_dec N = c # cs" "is_digit c"
    using nat_to_dec_digits [of N] nat_to_dec_nonempty [of N] by (cases "nat_to_dec N") auto
  have sp: "special (nat_to_dec N @ CHR ''.'' # fr) = None" using c by (simp add: special_digit_first)
  have rf: "readFloat (nat_to_dec N @ CHR ''.'' # fr) =
      Some (\<lparr>lit_neg = False, lit_hex = False, lit_digits = nat_to_dec N @ fr, lit_frac = length fr, lit_exp = 0\<rparr>,
            False, [])"
    using assms(2) by (intro readFloat_decimal) simp_all
  have lv: "literal_value \<lparr>lit_neg = False, lit_hex = False, lit_digits = nat_to_dec N @ fr,
      lit_frac = length fr, lit_exp = 0\<rparr> = (N * 10 ^ length fr + dec_value fr, 10 ^ length fr)"
    using assms(2) by (simp add: literal_value_decimal dec_value_append)
  show ?thesis
    using int64_round_ts [OF assms(1) dec_value_bound [OF assms(2)] assms(3)]
    by (simp add: go_parse_float_def sp rf lv)
qed

lemma parse_float_itoa:
  assumes "\<bar>n\<bar> < 2 ^ 53"
  shows "go_int64_of_float (go_parse_float (go_itoa n)) = n"
proof -
  define k where "k = nat \<bar>n\<bar>"
  have k53: "k < 2 ^ 53" using assms by (simp add: k_def nat_less_iff)
  obtain c cs where c: "nat_to_dec k = c # cs" "is_digit c"
    using nat_to_dec_digits [of k] nat_to_dec_nonempty [of k] by (cases "nat_to_dec k") auto
  have s: "go_itoa n = (if n < 0 then CHR ''-'' # nat_to_dec k else nat_to_dec k)"
    by (simp add: go_itoa_def k_def)
  have sp: "special (go_itoa n) = None" using c s by (simp add: special_digit_first)
  have rf: "readFloat (go_itoa n) =
      Some (\<lparr>lit_neg = (n < 0), lit_hex = False, lit_digits = nat_to_dec k, lit_frac = 0, lit_exp = 0\<rparr>, False, [])"
    using s by (intro readFloat_integer) simp_all
  have lv: "literal_value \<lparr>lit_neg = (n < 0), lit_hex = False, lit_digits = nat_to_dec k, lit_frac = 0, lit_exp = 0\<rparr> =
      (k, 1)"
    by (simp add: literal_value_decimal)
  have "go_parse_float (go_itoa n) = round_float64 (n < 0) k 1" by (simp add: go_parse_float_def sp rf lv)
  moreover have "(if n < 0 then - int k else int k) = n" by (simp add: k_def)
  ultimately show ?thesis using int64_round_integer [OF k53, of "n < 0"] by simp
qed

end
