(* ===== verification/Timestamp.thy ===== *)
theory Timestamp
  imports Go_Float Date_Range
begin

text \<open>
  \<open>formatTimestamp\<close> (\<open>src/main.go\<close>, lines 458--462), the local time of a
  message in the header of \<open>show\<close>: \<open>ParseFloat\<close> (\<open>Go_Float\<close>), \<open>int64\<close>,
  \<open>time.Unix(sec, 0)\<close> in the local zone, and \<open>Format\<close> with the layout
  \<open>2006-01-02 15:04:05\<close>.  The calendar is the proleptic Gregorian one of
  \<open>time\<close>, here the inverse of \<open>days_from_civil\<close> of the date parser.  The
  local zone is its offset in seconds at each instant (\<open>zone\<close>); a local time
  outside \<open>[-2 ^ 62, 2 ^ 62)\<close>, where Go's internal representation wraps, is
  printed by the parameter \<open>far\<close>.

  The lemmas show that the calendar inverts \<open>days_from_civil\<close> on every valid
  date, that a Slack timestamp shows the local time of its integer second, and
  that the bounds \<open>show --date D\<close> computes print back, in UTC, as the first
  and the last second of \<open>D\<close>.
\<close>

section \<open>\<open>Time.Format("2006-01-02 15:04:05")\<close>\<close>

text \<open>The proleptic Gregorian calendar of \<open>time\<close>, inverse to \<open>days_from_civil\<close>
  of the date parser: the first day of a year, the year of a day (searched
  upward from an estimate that is never too late), the month of a day of the
  year.\<close>

definition year_start :: "int \<Rightarrow> int" where
  "year_start y = days_from_civil y 1 1"

lemma year_start_succ: "year_start (y + 1) = year_start y + (if is_leap y then 366 else 365)"
  using days_from_civil_year_end [of y]
  by (simp add: year_start_def days_from_civil_def days_before_month_def leaps_before_succ)

function year_from :: "int \<Rightarrow> int \<Rightarrow> int" where
  "year_from z y = (if year_start (y + 1) \<le> z then year_from z (y + 1) else y)"
  by auto
termination
  by (relation "measure (\<lambda>(z, y). nat (z - year_start y))") (auto simp: year_start_succ split: if_splits)

declare year_from.simps [simp del]

function month_from :: "int \<Rightarrow> int \<Rightarrow> nat \<Rightarrow> nat" where
  "month_from y doy m = (if m < 12 \<and> days_before_month y (Suc m) \<le> doy then month_from y doy (Suc m) else m)"
  by auto
termination
  by (relation "measure (\<lambda>(y, doy, m). 12 - m)") auto

declare month_from.simps [simp del]

text \<open>The date of a day number (days since 1970-01-01): whole 400-year cycles
  of 146097 days first, so that the search starts from a day in the cycle.\<close>

definition civil_from_days :: "int \<Rightarrow> int \<times> nat \<times> nat" where
  "civil_from_days z =
     (let q = z div 146097; r = z mod 146097;
          y = year_from r (1970 + r div 366);
          doy = r - year_start y;
          m = month_from y doy 1
      in (y + 400 * q, m, nat (doy - days_before_month y m + 1)))"

text \<open>\<open>appendInt(b, x, width)\<close> of \<open>time\<close>: the sign, then the decimal digits
  padded with zeros to \<open>width\<close>.\<close>

definition go_append_int :: "int \<Rightarrow> nat \<Rightarrow> string" where
  "go_append_int x width =
     (let d = nat_to_dec (nat \<bar>x\<bar>)
      in (if x < 0 then ''-'' else []) @ replicate (width - length d) (CHR ''0'') @ d)"

text \<open>The layout \<open>2006-01-02 15:04:05\<close> of the local time \<open>t\<close>, in seconds since
  1970-01-01 00:00:00 of the local clock.\<close>

definition format_local :: "int \<Rightarrow> string" where
  "format_local t =
     (case civil_from_days (t div 86400) of (y, mo, d) \<Rightarrow>
        (let s = t mod 86400
         in go_append_int y 4 @ ''-'' @ go_append_int (int mo) 2 @ ''-'' @ go_append_int (int d) 2 @ '' '' @
            go_append_int (s div 3600) 2 @ '':'' @ go_append_int (s mod 3600 div 60) 2 @ '':'' @
            go_append_int (s mod 60) 2))"

section \<open>\<open>formatTimestamp\<close>\<close>

text \<open>\<open>formatTimestamp\<close> (\<open>src/main.go\<close>, lines 458--462): \<open>ParseFloat\<close> with its
  error dropped, \<open>int64\<close>, \<open>time.Unix(sec, 0)\<close> in the local zone, and
  \<open>Format\<close>.  The local zone is \<open>zone\<close>: the offset in seconds east of UTC in
  effect at each instant.  Far from the epoch (a local time beyond
  \<open>2 ^ 62\<close> seconds either side, such as the \<open>-2 ^ 63\<close> of a NaN or an
  infinity) Go's internal unsigned time arithmetic wraps around in a way that
  depends on the Go release; the text it prints there is the parameter
  \<open>far\<close>.\<close>

definition formatTimestamp :: "(int \<Rightarrow> int) \<Rightarrow> (int \<Rightarrow> string) \<Rightarrow> string \<Rightarrow> string" where
  "formatTimestamp zone far ts =
     (let sec = go_int64_of_float (go_parse_float ts);
          t = sec + zone sec
      in if - (2 ^ 62) \<le> t \<and> t < 2 ^ 62 then format_local t else far sec)"

section \<open>Calendar lemmas\<close>

lemma leaps_before_cycles: "leaps_before (y + 400 * q) = leaps_before y + 97 * q"
proof -
  have a: "(y - 1 + 400 * q) div 4 = (y - 1) div 4 + 100 * q"
    and b: "(y - 1 + 400 * q) div 100 = (y - 1) div 100 + 4 * q"
    and c: "(y - 1 + 400 * q) div 400 = (y - 1) div 400 + q" by simp_all
  have "y + 400 * q - 1 = y - 1 + 400 * q" by simp
  then show ?thesis by (simp only: leaps_before_def a b c)
qed

lemma is_leap_cycles: "is_leap (y + 400 * q) = is_leap y"
proof -
  have "(y + 400 * q) mod 4 = y mod 4"
    using mod_mult_self2 [of y 4 "100 * q"] by (simp add: ac_simps)
  moreover have "(y + 400 * q) mod 100 = y mod 100"
    using mod_mult_self2 [of y 100 "4 * q"] by (simp add: ac_simps)
  moreover have "(y + 400 * q) mod 400 = y mod 400" by simp
  ultimately show ?thesis by (simp add: is_leap_def)
qed

lemma days_from_civil_cycles:
  "days_from_civil (y + 400 * q) m d = days_from_civil y m d + 146097 * q"
proof -
  have "days_before_month (y + 400 * q) m = days_before_month y m"
    by (simp add: days_before_month_def is_leap_cycles)
  then show ?thesis by (simp add: days_from_civil_def leaps_before_cycles)
qed


lemma days_from_civil_year_start:
  "days_from_civil y m d = year_start y + days_before_month y m + int d - 1"
  by (simp add: days_from_civil_def year_start_def days_before_month_def)

lemma year_start_bounds:
  "year_start y + 365 * int n \<le> year_start (y + int n) \<and> year_start (y + int n) \<le> year_start y + 366 * int n"
proof (induction n)
  case (Suc n)
  have "year_start (y + int (Suc n)) = year_start (y + int n) + (if is_leap (y + int n) then 366 else 365)"
    using year_start_succ [of "y + int n"] by (simp add: ac_simps)
  with Suc show ?case by simp
qed simp

lemma year_start_strict_mono: "a < b \<Longrightarrow> year_start a < year_start b"
proof -
  assume "a < b"
  then obtain n where "b = (a + 1) + int n" by (metis add.commute zle_iff_zadd zless_imp_add1_zle)
  moreover have "year_start a < year_start (a + 1)" by (simp add: year_start_succ)
  ultimately show ?thesis using year_start_bounds [of "a + 1" n] by simp
qed

lemma year_from_bracket:
  "year_start y \<le> z \<Longrightarrow> year_start (year_from z y) \<le> z \<and> z < year_start (year_from z y + 1)"
proof (induction z y rule: year_from.induct)
  case (1 z y)
  show ?case
  proof (cases "year_start (y + 1) \<le> z")
    case True
    then have "year_from z y = year_from z (y + 1)" by (subst year_from.simps) simp
    with 1 True show ?thesis by simp
  next
    case False
    then have "year_from z y = y" by (subst year_from.simps) simp
    with 1 False show ?thesis by simp
  qed
qed

lemma year_unique:
  assumes "year_start y \<le> z" "z < year_start (y + 1)" "year_start y' \<le> z" "z < year_start (y' + 1)"
  shows "y = y'"
proof (rule ccontr)
  assume "y \<noteq> y'"
  then have "y + 1 \<le> y' \<or> y' + 1 \<le> y" by arith
  then show False
  proof
    assume "y + 1 \<le> y'"
    then have "year_start (y + 1) \<le> year_start y'"
      using year_start_strict_mono [of "y + 1" y'] by (cases "y + 1 = y'") auto
    with assms show False by simp
  next
    assume "y' + 1 \<le> y"
    then have "year_start (y' + 1) \<le> year_start y"
      using year_start_strict_mono [of "y' + 1" y] by (cases "y' + 1 = y") auto
    with assms show False by simp
  qed
qed

lemma year_estimate: "0 \<le> r \<Longrightarrow> year_start (1970 + r div 366) \<le> r"
proof -
  assume r: "0 \<le> r"
  have "year_start (1970 + int (nat (r div 366))) \<le> year_start 1970 + 366 * int (nat (r div 366))"
    using year_start_bounds [of 1970 "nat (r div 366)"] by simp
  moreover have "year_start 1970 = 0" by (simp add: year_start_def days_from_civil_def days_before_month_def)
  moreover have "366 * (r div 366) \<le> r" using r by simp
  moreover have "int (nat (r div 366)) = r div 366" using r by simp
  ultimately show ?thesis by simp
qed

lemma valid_date_in_year:
  assumes "valid_date (y, m, d)"
  shows "0 \<le> days_before_month y m + int d - 1 \<and> days_before_month y m + int d - 1 < year_start (y + 1) - year_start y"
proof -
  from assms have m: "1 \<le> m" "m \<le> 12" and "1 \<le> d" "d \<le> days_in_month y m"
    by (auto simp: valid_date_def)
  from m have "m = 1 \<or> m = 2 \<or> m = 3 \<or> m = 4 \<or> m = 5 \<or> m = 6 \<or> m = 7 \<or> m = 8 \<or> m = 9 \<or> m = 10 \<or> m = 11 \<or> m = 12"
    by arith
  then show ?thesis using \<open>1 \<le> d\<close> \<open>d \<le> days_in_month y m\<close>
    by (elim disjE) (auto simp: year_start_succ days_before_month_def days_in_month_def)
qed

lemma month_from_valid:
  assumes "valid_date (y, m, d)"
  shows "month_from y (days_before_month y m + int d - 1) 1 = m"
proof -
  from assms have m: "1 \<le> m" "m \<le> 12" and "1 \<le> d" "d \<le> days_in_month y m"
    by (auto simp: valid_date_def)
  from m have "m = 1 \<or> m = 2 \<or> m = 3 \<or> m = 4 \<or> m = 5 \<or> m = 6 \<or> m = 7 \<or> m = 8 \<or> m = 9 \<or> m = 10 \<or> m = 11 \<or> m = 12"
    by arith
  then show ?thesis using \<open>1 \<le> d\<close> \<open>d \<le> days_in_month y m\<close>
    by (elim disjE) (auto simp: month_from.simps days_before_month_def days_in_month_def)
qed

lemma valid_date_cycles: "valid_date (y + 400 * q, m, d) = valid_date (y, m, d)"
  by (simp add: valid_date_def days_in_month_def is_leap_cycles)

lemma civil_from_days_roundtrip:
  assumes "valid_date (y, m, d)"
  shows "civil_from_days (days_from_civil y m d) = (y, m, d)"
proof -
  define z where "z = days_from_civil y m d"
  define q where "q = z div 146097"
  define r where "r = z mod 146097"
  define Y where "Y = y - 400 * q"
  have y: "Y + 400 * q = y" by (simp add: Y_def)
  have vY: "valid_date (Y, m, d)" using assms valid_date_cycles [of Y q m d] y by simp
  have zr: "z = r + 146097 * q" by (simp add: q_def r_def)
  have dY: "days_from_civil Y m d = r"
    using days_from_civil_cycles [of Y q m d] y zr z_def by simp
  have r0: "0 \<le> r" by (simp add: r_def)
  from valid_date_in_year [OF vY] dY
  have bY: "year_start Y \<le> r" "r < year_start (Y + 1)" by (simp_all add: days_from_civil_year_start)
  have yf: "year_from r (1970 + r div 366) = Y"
    using year_from_bracket [OF year_estimate [OF r0]] bY year_unique by blast
  have doy: "r - year_start Y = days_before_month Y m + int d - 1"
    using dY by (simp add: days_from_civil_year_start)
  have c: "civil_from_days z =
      (year_from r (1970 + r div 366) + 400 * q,
       month_from (year_from r (1970 + r div 366)) (r - year_start (year_from r (1970 + r div 366))) 1,
       nat (r - year_start (year_from r (1970 + r div 366)) -
            days_before_month (year_from r (1970 + r div 366))
              (month_from (year_from r (1970 + r div 366)) (r - year_start (year_from r (1970 + r div 366))) 1) + 1))"
    by (simp add: civil_from_days_def Let_def q_def r_def)
  show ?thesis
    unfolding z_def [symmetric] c yf doy month_from_valid [OF vY] y by simp
qed

section \<open>Fixed-width decimals\<close>

lemma go_append_int_digits:
  assumes "list_all is_digit cs" "cs \<noteq> []"
  shows "go_append_int (int (dec_value cs)) (length cs) = cs"
proof -
  let ?d = "nat_to_dec (dec_value cs)"
  have l: "length ?d \<le> length cs"
    using length_nat_to_dec [OF dec_value_bound [OF assms(1)]] assms(2) by simp
  let ?s = "replicate (length cs - length ?d) (CHR ''0'') @ ?d"
  have z: "is_digit (CHR ''0'')" by (simp add: is_digit_def)
  have "list_all is_digit ?s"
    using nat_to_dec_digits [of "dec_value cs"] z by (auto simp: list_all_iff)
  moreover have "length ?s = length cs" using l by simp
  moreover have "dec_value ?s = dec_value cs" by (simp add: dec_value_replicate_zero)
  ultimately have "?s = cs" using assms(1) by (intro dec_value_inj) simp_all
  then show ?thesis by (simp add: go_append_int_def Let_def)
qed

section \<open>Timestamps\<close>

text \<open>C15: a Slack timestamp (its seconds in decimal, below \<open>2 ^ 33\<close>, a point and
  at most six digits) shows the local time of its integer second: the digits
  after the point never carry into the next second through the rounding of
  \<open>ParseFloat\<close>, and the local time is the instant plus the zone's offset then.\<close>

theorem formatTimestamp_slack_ts:
  assumes "N < 2 ^ 33" and "list_all is_digit fr" and "length fr \<le> 6" and "\<bar>zone (int N)\<bar> \<le> 86400"
  shows "formatTimestamp zone far (nat_to_dec N @ CHR ''.'' # fr) = format_local (int N + zone (int N))"
proof -
  have "int N < 2 ^ 33" using assms(1) by (metis of_nat_less_iff of_nat_numeral of_nat_power)
  moreover have "- 86400 \<le> zone (int N)" "zone (int N) \<le> 86400" using assms(4) by simp_all
  ultimately have "- (2 ^ 62) \<le> int N + zone (int N) \<and> int N + zone (int N) < 2 ^ 62" by simp
  then show ?thesis using parse_float_ts [OF assms(1-3)] by (simp add: formatTimestamp_def Let_def)
qed

theorem formatTimestamp_slack_ts_witness:
  "formatTimestamp (\<lambda>_. 0) (\<lambda>_. []) ''1700000000.123456'' = ''2023-11-14 22:13:20''"
proof -
  have s: "nat_to_dec 1700000000 @ CHR ''.'' # ''123456'' = ''1700000000.123456''" by code_simp
  have f: "format_local 1700000000 = ''2023-11-14 22:13:20''" by code_simp
  have d: "list_all is_digit ''123456''" by (simp add: is_digit_def)
  show ?thesis
    using formatTimestamp_slack_ts [of 1700000000 "''123456''" "\<lambda>_. 0" "\<lambda>_. []"] s f d by simp
qed

text \<open>Eight digits after the point are more than \<open>float64\<close> keeps at this
  magnitude: the value rounds up to the next second, which is shown.\<close>

lemma formatTimestamp_rounds_up:
  "formatTimestamp (\<lambda>_. 0) (\<lambda>_. []) ''1700000000.99999999'' = ''2023-11-14 22:13:21''"
  by code_simp

text \<open>The error of \<open>ParseFloat\<close> is dropped: an identifier that is not a number
  shows the epoch in the local zone.\<close>

lemma formatTimestamp_not_a_number:
  "formatTimestamp (\<lambda>_. 0) (\<lambda>_. []) ''abc'' = ''1970-01-01 00:00:00''"
  by code_simp

lemma format_local_day:
  assumes "valid_date (y, m, d)" and "0 \<le> sec" and "sec < 86400"
  shows "format_local (days_from_civil y m d * 86400 + sec) =
           go_append_int y 4 @ ''-'' @ go_append_int (int m) 2 @ ''-'' @ go_append_int (int d) 2 @ '' '' @
           go_append_int (sec div 3600) 2 @ '':'' @ go_append_int (sec mod 3600 div 60) 2 @ '':'' @
           go_append_int (sec mod 60) 2"
proof -
  have "(days_from_civil y m d * 86400 + sec) div 86400 = days_from_civil y m d"
    "(days_from_civil y m d * 86400 + sec) mod 86400 = sec" using assms(2,3) by simp_all
  then show ?thesis by (simp add: format_local_def civil_from_days_roundtrip [OF assms(1)])
qed

lemma year_start_range:
  assumes "0 \<le> y" "y < 10000"
  shows "- 719528 \<le> year_start y \<and> year_start (y + 1) \<le> 2932897"
proof -
  have a: "year_start 0 = - 719528" "year_start 10000 = 2932897"
    by (simp_all add: year_start_def days_from_civil_def leaps_before_def days_before_month_def)
  have "year_start 0 \<le> year_start y"
    using assms(1) year_start_strict_mono [of 0 y] by (cases "y = 0") auto
  moreover have "year_start (y + 1) \<le> year_start 10000"
    using assms(2) year_start_strict_mono [of "y + 1" 10000] by (cases "y + 1 = 10000") auto
  ultimately show ?thesis using a by simp
qed

lemma go_append_int_time [simp]:
  "go_append_int 0 2 = ''00''" "go_append_int 23 2 = ''23''" "go_append_int 59 2 = ''59''"
  by code_simp+

text \<open>C16: the date parser and the timestamp formatter use one calendar: the
  bounds \<open>show --date D\<close> computes for a single day \<open>D\<close>, printed back in UTC by
  \<open>formatTimestamp\<close>, are \<open>D 00:00:00\<close> and \<open>D 23:59:59\<close>, for every day of
  the years 0000 to 9999.\<close>

theorem date_bounds_print_back:
  assumes "parse_date D = Some ymd"
  shows "\<exists>oldest latest. parse_date_range D = Inr (Some (oldest, latest)) \<and>
           formatTimestamp (\<lambda>_. 0) far (go_itoa oldest) = D @ '' 00:00:00'' \<and>
           formatTimestamp (\<lambda>_. 0) far (go_itoa latest) = D @ '' 23:59:59''"
proof -
  obtain y m d where ymd: "ymd = (y, m, d)" by (cases ymd) auto
  with assms have p: "parse_date D = Some (y, m, d)" by simp
  from parse_date_Some [OF p] have v: "valid_date (y, m, d)" by simp
  from parse_date_fields [OF p] obtain ys ms ds where
    D: "D = ys @ CHR ''-'' # ms @ CHR ''-'' # ds" and l: "length ys = 4" "length ms = 2" "length ds = 2"
    and dg: "list_all is_digit ys" "list_all is_digit ms" "list_all is_digit ds"
    and val: "y = int (dec_value ys)" "m = dec_value ms" "d = dec_value ds" by blast
  have y0: "0 \<le> y" "y < 10000" using dec_value_bound [OF dg(1)] l val by simp_all
  define z where "z = days_from_civil y m d"
  have zb: "year_start y \<le> z" "z < year_start (y + 1)"
    using valid_date_in_year [OF v] by (simp_all add: z_def days_from_civil_year_start)
  with year_start_range [OF y0] have zr: "- 719528 \<le> z" "z < 2932897" by simp_all
  have fmt: "formatTimestamp (\<lambda>_. 0) far (go_itoa (z * 86400 + sec)) = format_local (z * 86400 + sec)"
    if "0 \<le> sec" "sec < 86400" for sec
  proof -
    have "\<bar>z * 86400 + sec\<bar> < 2 ^ 53" using zr that by (simp add: abs_less_iff)
    with parse_float_itoa have "go_int64_of_float (go_parse_float (go_itoa (z * 86400 + sec))) = z * 86400 + sec"
      by blast
    moreover have "- (2 ^ 62) \<le> z * 86400 + sec \<and> z * 86400 + sec < 2 ^ 62" using zr that by simp
    ultimately show ?thesis by (simp add: formatTimestamp_def Let_def)
  qed
  have date: "go_append_int y 4 @ ''-'' @ go_append_int (int m) 2 @ ''-'' @ go_append_int (int d) 2 = D"
  proof -
    have "ys \<noteq> []" "ms \<noteq> []" "ds \<noteq> []" using l by auto
    then show ?thesis
      using go_append_int_digits [OF dg(1)] go_append_int_digits [OF dg(2)] go_append_int_digits [OF dg(3)] l val D
      by simp
  qed
  have "parse_date_range D = Inr (Some (z * 86400, z * 86400 + 86399))"
    using parse_date_range_day [OF p] by (simp add: z_def unix_midnight_def)
  moreover have "formatTimestamp (\<lambda>_. 0) far (go_itoa (z * 86400)) = D @ '' 00:00:00''"
    using fmt [of 0] format_local_day [OF v, of 0] date by (simp add: z_def)
  moreover have "formatTimestamp (\<lambda>_. 0) far (go_itoa (z * 86400 + 86399)) = D @ '' 23:59:59''"
    using fmt [of 86399] format_local_day [OF v, of 86399] date by (simp add: z_def)
  ultimately show ?thesis by blast
qed

theorem date_bounds_print_back_witness:
  "\<exists>oldest latest. parse_date_range ''2024-02-29'' = Inr (Some (oldest, latest)) \<and>
     formatTimestamp (\<lambda>_. 0) (\<lambda>_. []) (go_itoa oldest) = ''2024-02-29 00:00:00'' \<and>
     formatTimestamp (\<lambda>_. 0) (\<lambda>_. []) (go_itoa latest) = ''2024-02-29 23:59:59''"
proof -
  have p: "parse_date ''2024-02-29'' = Some (2024, 2, 29)" by code_simp
  show ?thesis using date_bounds_print_back [OF p, of "\<lambda>_. []"] by simp
qed

end
