(* ===== verification/Cli.thy ===== *)
theory Cli
  imports Paginator Upload Timestamp
begin

text \<open>
  The process: \<open>checkAndLoadConfig\<close> (\<open>src/main.go\<close>, lines 108--131) with
  \<open>createConfig\<close> (92--106) and \<open>loadConfig\<close> (42--55), then \<open>main\<close> (848--1011):
  the build-time banner and the \<open>Run\<close> function of the command \<open>cobra\<close> selected.
  Parsing the command line is \<open>cobra\<close>'s and is not modelled: a run starts from
  the parsed command (\<open>command\<close>: its arguments and flags), and a command line
  \<open>cobra\<close> rejects (unknown command or flag, too many arguments for \<open>show\<close>) is
  \<open>Cmd_rejected\<close> with the error's text, which \<open>main\<close> prints before exiting 1.
  The choices the Go runtime and library make (map order, \<open>url.Parse\<close>, the
  errors of \<open>os.Create\<close>, the local time zone, the build time) are the record
  \<open>env\<close>.  The config file is read as \<open>loadConfig\<close> reads it: it may not open,
  not decode, or hold a config (a failed write of it is not modelled).  A run
  ends with an exit code or a panic.

  The lemmas show that the first run writes the template config and does
  nothing else, that \<open>show N\<close> asks for exactly \<open>N\<close> messages, and that the
  error of an \<open>emoji\<close> command is dropped: the process exits 0 having printed
  nothing about it.
\<close>

record env =
  iter_fn :: "go_map \<Rightarrow> string list"
  url_parse_fn :: "string \<Rightarrow> string + string"
  create_err_fn :: "string \<Rightarrow> string option"
  local_zone :: "int \<Rightarrow> int"
  far_time :: "int \<Rightarrow> string"
  build_time :: string

datatype command =
    Cmd_send "string list" string
  | Cmd_show "string list" string string string "int option" bool
  | Cmd_upload "string list"
  | Cmd_download "string list"
  | Cmd_emoji "string list" string string
  | Cmd_edit "string list"
  | Cmd_delete "string list"
  | Cmd_examples
  | Cmd_rejected string

section \<open>Start-up\<close>

definition template_config :: config where
  "template_config =
     \<lparr>slack_bot_token = ''your_slack_bot_token'', slack_user_token = ''your_slack_user_token'',
      channel_id = ''your_channel_id'', server_bot_user_id = ''your_server_bot_user_id'',
      user_cache = Some [''U075JAXRYV7'' \<mapsto> ''Bot''], default_show_limit = 20,
      default_emoji = ''white-check-mark''\<rparr>"

definition createConfig :: "world \<Rightarrow> world" where
  "createConfig w = save_config (w\<lparr>cfg := template_config\<rparr>)"

text \<open>\<open>loadConfig\<close> (lines 42--55): the error of \<open>os.Open\<close> or of the decoder,
  or the config the file decodes to.\<close>

definition loadConfig :: "world \<Rightarrow> string option \<times> world" where
  "loadConfig w =
     (case disk w of
        None \<Rightarrow> (Some ''could not open config file: open slack.config.json: no such file or directory'', w)
      | Some (No_file e) \<Rightarrow> (Some (''could not open config file: '' @ e), w)
      | Some (Bad_json e) \<Rightarrow> (Some (''could not decode config JSON: '' @ e), w)
      | Some (Json c) \<Rightarrow> (None, w\<lparr>cfg := c\<rparr>))"

text \<open>\<open>Inl (code, w)\<close>: the process exits with \<open>code\<close>; \<open>Inr w\<close>: it goes on.\<close>

definition checkAndLoadConfig :: "world \<Rightarrow> (int \<times> world) + world" where
  "checkAndLoadConfig w =
     (case disk w of
        None \<Rightarrow>
          (let w1 = createConfig (println ''Config file not found, creating a new one with template.'' w)
           in Inl (0, go_print ''Please edit slack.config.json with your configuration.\<newline>'' w1))
      | Some _ \<Rightarrow>
          (case loadConfig w of
             (Some e, w1) \<Rightarrow> Inl (1, println (''Error loading config file: '' @ e) w1)
           | (None, w1) \<Rightarrow>
               (case loadEmojiConfig w1 of
                  (Some e, w2) \<Rightarrow> Inl (1, println (''Error loading emoji config file: '' @ e) w2)
                | (None, w2) \<Rightarrow> Inr w2)))"

section \<open>The commands\<close>

text \<open>The limit of \<open>show\<close> (lines 874--885): the argument read by \<open>strconv.Atoi\<close>,
  else the \<open>--limit\<close> flag, whose default is the config's.\<close>

definition show_limit :: "string list \<Rightarrow> int option \<Rightarrow> world \<Rightarrow> int \<times> world" where
  "show_limit args limitFlag w =
     (if args \<noteq> [] then
        (case go_atoi (hd args) of
           Inl _ \<Rightarrow> (default_show_limit (cfg w), println ''Invalid limit value, using default value.'' w)
         | Inr n \<Rightarrow> (n, w))
      else (case limitFlag of None \<Rightarrow> default_show_limit (cfg w) | Some n \<Rightarrow> n, w))"

definition examples_text :: string where
  "examples_text =
     (let q = CHR 0x22
      in go_join CHR ''\<newline>''
        [''Examples:'', ''   ./slack show'', ''   ./slack show 100'', ''   ./slack show --date 2023-12-31'',
         ''   ./slack show --date 2023-12-29:2023-12-31'', ''   ./slack show --search keyword'',
         ''   ./slack show 500 --search keyword'', ''   ./slack show --filter keyword'',
         ''   ./slack show 500 --filter keyword'', ''   ./slack show --files'',
         ''   ./slack send '' @ q # ''Hello, Slack!'' @ [q],
         ''   ./slack send '' @ q # ''Hello, Slack!'' @ q # '' --ts 1234567890.123456 (reply)'',
         ''   ./slack edit --ts 1234567890.123456 --msg '' @ q # ''Updated message'' @ [q],
         ''   ./slack edit 1234567890.123456 '' @ q # ''Updated message'' @ [q],
         ''   ./slack delete --ts 1234567890.123456'', ''   ./slack delete 1234567890.123456'',
         ''   ./slack upload path/to/your/file.txt'', ''   ./slack download https://file.url'',
         ''   ./slack emoji'', ''   ./slack emoji 1234567890.123456'',
         ''   ./slack emoji 1234567890.123456 white-check-mark'',
         ''   ./slack emoji 1234567890.123456 --add thumbsup'',
         ''   ./slack emoji 1234567890.123456 --del white-check-mark''])"

text \<open>The \<open>Run\<close> functions (lines 858--996).  The errors the action functions
  return are dropped, as the closures drop them.\<close>

definition run_command :: "server \<Rightarrow> env \<Rightarrow> command \<Rightarrow> world \<Rightarrow> (panic + world) option" where
  "run_command srv ev cmd w =
     (case cmd of
        Cmd_send args ts \<Rightarrow>
          Some (Inr (if length args < 1 then println ''Error: message is required'' w
                     else snd (sendMessage srv (args ! 0) ts w)))
      | Cmd_show args date srch filt limitFlag files \<Rightarrow>
          (let (lim, w1) = show_limit args limitFlag w
           in fetchMessages srv
                \<lparr>limit = lim, date_range = date, search = srch, filter_kw = filt, files_only = files,
                 emoji_list = emoji_tab w1, fmt_ts = formatTimestamp (local_zone ev) (far_time ev)\<rparr> w1)
      | Cmd_upload args \<Rightarrow>
          (if length args < 1 then Some (Inr (println ''Error: file path is required'' w))
           else Some (uploadFile srv (url_parse_fn ev) (args ! 0) w))
      | Cmd_download args \<Rightarrow>
          (if length args < 1 then Some (Inr (println ''Error: file URL is required'' w))
           else getFile srv (url_parse_fn ev) (create_err_fn ev) (args ! 0) w)
      | Cmd_emoji args add del \<Rightarrow>
          (let ts = (if length args > 0 then args ! 0 else []);
               emoji = (if length args > 1 then args ! 1 else [])
           in Some (Inr (snd (handleEmoji srv (iter_fn ev) ts emoji add del w))))
      | Cmd_edit args \<Rightarrow>
          Some (Inr (if length args < 2 then println ''Error: ts (timestamp) and message are required'' w
                     else snd (updateMessage srv (args ! 0) (args ! 1) w)))
      | Cmd_delete args \<Rightarrow>
          Some (Inr (if length args < 1 then println ''Error: ts (timestamp) is required'' w
                     else snd (deleteMessage srv (args ! 0) w)))
      | Cmd_examples \<Rightarrow> Some (Inr (println examples_text w))
      | Cmd_rejected e \<Rightarrow> Some (Inr w))"

text \<open>\<open>main\<close>: start-up, the banner, the command, and the exit code.\<close>

definition slack_main :: "server \<Rightarrow> env \<Rightarrow> command \<Rightarrow> world \<Rightarrow> (panic + int \<times> world) option" where
  "slack_main srv ev cmd w =
     (case checkAndLoadConfig w of
        Inl (code, w') \<Rightarrow> Some (Inr (code, w'))
      | Inr w1 \<Rightarrow>
          (let w2 = go_print (''Slack CLI (build time: '' @ build_time ev @ '')\<newline>'') w1
           in case cmd of
                Cmd_rejected e \<Rightarrow> Some (Inr (1, println e w2))
              | _ \<Rightarrow>
                  (case run_command srv ev cmd w2 of
                     None \<Rightarrow> None
                   | Some (Inl p) \<Rightarrow> Some (Inl p)
                   | Some (Inr w3) \<Rightarrow> Some (Inr (0, w3)))))"

section \<open>The process's contract\<close>

lemma createConfig_simps [simp]:
  "sent (createConfig w) = sent w" "disk (createConfig w) = Some (Json template_config)"
  "stdout (createConfig w) = stdout w" "cfg (createConfig w) = template_config"
  by (simp_all add: createConfig_def)

lemma startup_loaded:
  "disk w = Some (Json c) \<Longrightarrow> emoji_disk w = Json m \<Longrightarrow>
   checkAndLoadConfig w = Inr (w\<lparr>cfg := c, emoji_tab := emoji_tab w ++ m\<rparr>)"
  by (simp add: checkAndLoadConfig_def loadConfig_def loadEmojiConfig_def)

text \<open>C35: a first run, with no config file, writes the template config, tells
  the user to edit it and exits 0, whatever the command line asked: it sends
  no request.\<close>

theorem first_run_creates_template:
  assumes "disk w = None"
  shows "\<exists>w'. slack_main srv ev cmd w = Some (Inr (0, w')) \<and> disk w' = Some (Json template_config)
           \<and> sent w' = sent w \<and> stdout w' = stdout w @
               [''Config file not found, creating a new one with template.\<newline>'',
                ''Please edit slack.config.json with your configuration.\<newline>'']"
  using assms by (simp add: slack_main_def checkAndLoadConfig_def)

theorem first_run_creates_template_witness:
  "\<exists>w'. slack_main (test_server (\<lambda>_ _. Net_error []) (\<lambda>_ _. Net_error []) (\<lambda>_ _. Net_error []))
          \<lparr>iter_fn = \<lambda>_. [], url_parse_fn = \<lambda>_. Inr [], create_err_fn = \<lambda>_. None, local_zone = \<lambda>_. 0, far_time = \<lambda>_. [],
           build_time = ''2024''\<rparr> (Cmd_send [''hi''] []) (test_world None) = Some (Inr (0, w'))
     \<and> disk w' = Some (Json template_config) \<and> sent w' = []
     \<and> stdout w' = [''Config file not found, creating a new one with template.\<newline>'',
                    ''Please edit slack.config.json with your configuration.\<newline>'']"
  using first_run_creates_template [of "test_world None"] by simp

text \<open>C37: \<open>show N\<close> with \<open>N\<close> written in decimal asks for exactly \<open>N\<close> messages
  (for every \<open>N\<close> of \<open>int64\<close>), with no message; an argument \<open>strconv.Atoi\<close>
  rejects falls back to the config's default, after a warning.\<close>

theorem show_argument_limit:
  assumes "- (2 ^ 63) \<le> n" and "n < 2 ^ 63"
  shows "run_command srv ev (Cmd_show [go_itoa n] d srch filt lf files) w =
           fetchMessages srv \<lparr>limit = n, date_range = d, search = srch, filter_kw = filt, files_only = files,
             emoji_list = emoji_tab w, fmt_ts = formatTimestamp (local_zone ev) (far_time ev)\<rparr> w
       \<and> (go_atoi a = Inl err \<longrightarrow> run_command srv ev (Cmd_show [a] d srch filt lf files) w =
           fetchMessages srv \<lparr>limit = default_show_limit (cfg w), date_range = d, search = srch, filter_kw = filt,
             files_only = files, emoji_list = emoji_tab w, fmt_ts = formatTimestamp (local_zone ev) (far_time ev)\<rparr>
             (println ''Invalid limit value, using default value.'' w))"
  using go_atoi_itoa [OF assms] by (simp add: run_command_def show_limit_def)

theorem show_argument_limit_witness:
  "run_command (test_server (\<lambda>_ _. Net_error []) (\<lambda>_ _. Net_error []) (\<lambda>_ _. Net_error []))
      \<lparr>iter_fn = \<lambda>_. [], url_parse_fn = \<lambda>_. Inr [], create_err_fn = \<lambda>_. None, local_zone = \<lambda>_. 0, far_time = \<lambda>_. [],
       build_time = ''2024''\<rparr> (Cmd_show [go_itoa 100] [] [] [] None False) (test_world None) =
   fetchMessages (test_server (\<lambda>_ _. Net_error []) (\<lambda>_ _. Net_error []) (\<lambda>_ _. Net_error []))
     \<lparr>limit = 100, date_range = [], search = [], filter_kw = [], files_only = False,
      emoji_list = Map.empty, fmt_ts = formatTimestamp (\<lambda>_. 0) (\<lambda>_. [])\<rparr> (test_world None)"
  using show_argument_limit [of 100 "test_server (\<lambda>_ _. Net_error []) (\<lambda>_ _. Net_error []) (\<lambda>_ _. Net_error [])"
      "\<lparr>iter_fn = \<lambda>_. [], url_parse_fn = \<lambda>_. Inr [], create_err_fn = \<lambda>_. None, local_zone = \<lambda>_. 0, far_time = \<lambda>_. [],
       build_time = ''2024''\<rparr>" "[]" "[]" "[]" None False "test_world None"]
  by simp

text \<open>C38: the \<open>emoji\<close> command drops the error of \<open>handleEmoji\<close>: asked to add
  or remove a reaction with no timestamp, the process prints only its banner,
  sends nothing and exits 0.\<close>

theorem emoji_error_dropped:
  assumes "disk w = Some (Json c)" and "emoji_disk w = Json m" and "add \<noteq> [] \<or> del \<noteq> []"
  shows "slack_main srv ev (Cmd_emoji [] add del) w =
           Some (Inr (0, go_print (''Slack CLI (build time: '' @ build_time ev @ '')\<newline>'')
                            (w\<lparr>cfg := c, emoji_tab := emoji_tab w ++ m\<rparr>)))"
  using assms
  by (auto simp: slack_main_def startup_loaded run_command_def handleEmoji_def addReaction_def
      removeReaction_def Let_def)

theorem emoji_error_dropped_witness:
  "slack_main (test_server (\<lambda>_ _. Net_error []) (\<lambda>_ _. Net_error []) (\<lambda>_ _. Net_error []))
     \<lparr>iter_fn = \<lambda>_. [], url_parse_fn = \<lambda>_. Inr [], create_err_fn = \<lambda>_. None, local_zone = \<lambda>_. 0, far_time = \<lambda>_. [],
      build_time = ''2024''\<rparr> (Cmd_emoji [] ''thumbsup'' [])
     ((test_world None)\<lparr>disk := Some (Json template_config), emoji_disk := Json Map.empty\<rparr>) =
   Some (Inr (0, go_print ''Slack CLI (build time: 2024)\<newline>''
     (((test_world None)\<lparr>disk := Some (Json template_config), emoji_disk := Json Map.empty\<rparr>)
        \<lparr>cfg := template_config, emoji_tab := Map.empty\<rparr>)))"
  using emoji_error_dropped [of "(test_world None)\<lparr>disk := Some (Json template_config), emoji_disk := Json Map.empty\<rparr>"
      template_config Map.empty "''thumbsup''" "[]"]
  by simp

text \<open>C36: a config file that exists but cannot be opened, or does not
  decode, stops the process with exit code 1 after one line naming the error:
  no banner, no request, and the file is left as it is (it is not replaced by
  the template, which only a missing file gets).\<close>

theorem config_load_error_exits:
  "slack_main srv ev cmd (w\<lparr>disk := Some (Bad_json e)\<rparr>) =
     Some (Inr (1, println (''Error loading config file: could not decode config JSON: '' @ e)
                     (w\<lparr>disk := Some (Bad_json e)\<rparr>)))
   \<and> slack_main srv ev cmd (w\<lparr>disk := Some (No_file e)\<rparr>) =
     Some (Inr (1, println (''Error loading config file: could not open config file: '' @ e)
                     (w\<lparr>disk := Some (No_file e)\<rparr>)))"
  by (simp add: slack_main_def checkAndLoadConfig_def loadConfig_def)

end
