(* ===== verification/Program.thy ===== *)
theory Program
  imports Cli
begin

text \<open>
  Runs of the program one after the other, sharing the config file, the emoji
  file and the working directory: \<open>run_step w w'\<close> is a run of \<open>slack_main\<close>
  (any server, environment and command line) that ends with an exit code, and
  \<open>reachable\<close> closes the worlds with no config file under runs.  A run that
  panics ends the process and is not a step.

  Within a run, once the config is loaded, the file holds the in-memory config
  and its user cache is not \<open>nil\<close> (\<open>cfg_ok\<close>); every operation either panics
  on a \<open>nil\<close> request (an unbuildable URL) or keeps that and only adds names to
  the cache (\<open>keeps_result\<close>, \<open>keeps\<close>).  Across runs, the invariant is that
  the file, once written, holds a user cache that is a map containing the
  template's entry.  The lemmas show that every reachable world satisfies it,
  that no run from a reachable world panics on the \<open>nil\<close> map, and that a run
  never removes or changes a cached name.
\<close>

section \<open>Within a run\<close>

definition cfg_ok :: "world \<Rightarrow> bool" where
  "cfg_ok w \<longleftrightarrow> disk w = Some (Json (cfg w)) \<and> user_cache (cfg w) \<noteq> None"

definition cache_le :: "config \<Rightarrow> config \<Rightarrow> bool" where
  "cache_le c c' \<longleftrightarrow> (\<forall>m. user_cache c = Some m \<longrightarrow> (\<exists>m'. user_cache c' = Some m' \<and> m \<subseteq>\<^sub>m m'))"

definition keeps :: "world \<Rightarrow> world \<Rightarrow> bool" where
  "keeps w w' \<longleftrightarrow> cfg_ok w' \<and> cache_le (cfg w) (cfg w')"

lemma keeps_trans: "keeps w1 w2 \<Longrightarrow> keeps w2 w3 \<Longrightarrow> keeps w1 w3"
  unfolding keeps_def cache_le_def by (fastforce intro: map_le_trans)

lemma keeps_frame: "cfg_ok w \<Longrightarrow> cfg w' = cfg w \<Longrightarrow> disk w' = disk w \<Longrightarrow> keeps w w'"
  by (auto simp: keeps_def cfg_ok_def cache_le_def)

lemma keeps_effects [simp]:
  "keeps w (println s w') \<longleftrightarrow> keeps w w'" "keeps w (go_print s w') \<longleftrightarrow> keeps w w'"
  "keeps w (issue r w') \<longleftrightarrow> keeps w w'"
  "keeps (println s w) w' \<longleftrightarrow> keeps w w'" "keeps (go_print s w) w' \<longleftrightarrow> keeps w w'"
  "keeps (issue r w) w' \<longleftrightarrow> keeps w w'"
  by (simp_all add: keeps_def cfg_ok_def)

lemma cfg_ok_effects [simp]:
  "cfg_ok (println s w) \<longleftrightarrow> cfg_ok w" "cfg_ok (go_print s w) \<longleftrightarrow> cfg_ok w"
  "cfg_ok (issue r w) \<longleftrightarrow> cfg_ok w"
  by (simp_all add: cfg_ok_def)

lemma cfg_ok_frame: "cfg_ok w \<Longrightarrow> cfg w' = cfg w \<Longrightarrow> disk w' = disk w \<Longrightarrow> cfg_ok w'"
  by (simp add: cfg_ok_def)

text \<open>A result of an operation, seen from the invariant: either the panic on a
  \<open>nil\<close> request (a URL \<open>http.NewRequest\<close> rejects), or a result whose world
  (\<open>f\<close> picks it out) keeps the invariant.  The panic on the \<open>nil\<close> map is not
  among them.\<close>

definition keeps_result :: "world \<Rightarrow> ('a \<Rightarrow> world) \<Rightarrow> panic + 'a \<Rightarrow> bool" where
  "keeps_result w f r = (case r of Inl p \<Rightarrow> p = Nil_dereference | Inr x \<Rightarrow> keeps w (f x))"

lemma keeps_result_simps [simp]:
  "keeps_result w f (Inl p) \<longleftrightarrow> p = Nil_dereference"
  "keeps_result w f (Inr x) \<longleftrightarrow> keeps w (f x)"
  by (simp_all add: keeps_result_def)

lemma keeps_result_trans: "keeps w w1 \<Longrightarrow> keeps_result w1 f r \<Longrightarrow> keeps_result w f r"
  by (cases r) (auto intro: keeps_trans)

lemma getUserName_keeps:
  "cfg_ok w \<Longrightarrow> keeps_result w (\<lambda>(n, c', w'). w') (getUserName srv u c w)"
  by (auto simp: getUserName_def Let_def keeps_def cfg_ok_def cache_le_def go_map_put_def go_map_get_def
      map_le_def split: option.split answer.split)

text \<open>Chaining a name resolution with what follows it in a loop.\<close>

lemma getUserName_then_keeps:
  assumes "cfg_ok w"
    and "\<And>n c' w'. getUserName srv u c w = Inr (n, c', w') \<Longrightarrow> cfg_ok w' \<Longrightarrow> keeps_result w' f (k n c' w')"
  shows "keeps_result w f (case getUserName srv u c w of Inl p \<Rightarrow> Inl p | Inr (n, c', w') \<Rightarrow> k n c' w')"
proof (cases "getUserName srv u c w")
  case (Inl p)
  with getUserName_keeps [OF assms(1), of srv u c] show ?thesis by simp
next
  case (Inr r)
  obtain n c' w' where r: "r = (n, c', w')" by (cases r)
  from getUserName_keeps [OF assms(1), of srv u c] Inr r have kw: "keeps w w'" by simp
  then have "cfg_ok w'" by (simp add: keeps_def)
  with assms(2) Inr r have "keeps_result w' f (k n c' w')" by simp
  with kw Inr r show ?thesis by (simp add: keeps_result_trans)
qed

lemma collect_replies_keeps:
  "cfg_ok w \<Longrightarrow> keeps_result w (\<lambda>(rs, uc', w'). w') (collect_replies srv ts f msgs acc uc w)"
proof (induction msgs arbitrary: acc uc w)
  case Nil
  then show ?case by (auto intro: keeps_frame)
next
  case (Cons m ms)
  show ?case
  proof (cases "keeps_reply ts f m")
    case True
    have "keeps_result w (\<lambda>(rs, uc', w'). w')
        (case getUserName srv (msg_user m) uc w of Inl p \<Rightarrow> Inl p
         | Inr (n, c', w') \<Rightarrow> collect_replies srv ts f ms (acc @ [to_reply n m]) c' w')"
      using Cons.prems by (rule getUserName_then_keeps) (rule Cons.IH)
    with True show ?thesis by simp
  next
    case False
    with Cons show ?thesis by simp
  qed
qed

lemma getThreadReplies_keeps:
  assumes "cfg_ok w"
  shows "keeps_result w (\<lambda>(r, uc', w'). w') (getThreadReplies srv ts f s uc w)"
proof (cases "go_new_request_ok (replies_url (channel_id (cfg w)) ts)")
  case False
  then show ?thesis by (simp add: getThreadReplies_def del: replies_url_ok)
next
  case ok: True
  let ?w1 = "issue (Http_get (replies_url (channel_id (cfg w)) ts) (slack_bot_token (cfg w))) w"
  have k1: "keeps w ?w1" and ok1: "cfg_ok ?w1" using assms by (auto intro: keeps_frame cfg_ok_frame)
  show ?thesis
  proof (cases "thread srv (length (sent w)) (replies_url (channel_id (cfg w)) ts)")
    case (Body msgs)
    have "keeps_result ?w1 (\<lambda>(rs, uc', w'). w') (collect_replies srv ts f msgs [] uc ?w1)"
      by (rule collect_replies_keeps [OF ok1])
    then have "keeps_result w (\<lambda>(rs, uc', w'). w') (collect_replies srv ts f msgs [] uc ?w1)"
      by (rule keeps_result_trans [OF k1])
    with Body ok show ?thesis
      by (auto simp: getThreadReplies_def Let_def keeps_result_def split: sum.splits prod.splits
          simp del: replies_url_ok)
  qed (use k1 ok in \<open>auto simp: getThreadReplies_def Let_def simp del: replies_url_ok\<close>)
qed

lemma render_replies_keeps:
  "cfg_ok (wld st) \<Longrightarrow> keeps_result (wld st) wld (render_replies srv opts rs st)"
proof (induction rs arbitrary: st)
  case Nil
  then show ?case by (auto intro: keeps_frame)
next
  case (Cons r rs)
  let ?st' = "\<lambda>n c' w'. st\<lparr>out_buf := out_buf st @ render_reply (fmt_ts opts) (search opts) n
      (getReactionsString (emoji_list opts) (reply_reactions r)) r, session := c', wld := w'\<rparr>"
  have "keeps_result (wld st) wld (case getUserName srv (reply_user r) (session st) (wld st) of
      Inl p \<Rightarrow> Inl p | Inr (n, c', w') \<Rightarrow> render_replies srv opts rs (?st' n c' w'))"
    using Cons.prems
  proof (rule getUserName_then_keeps)
    fix n c' w' assume "cfg_ok w'"
    then show "keeps_result w' wld (render_replies srv opts rs (?st' n c' w'))"
      using Cons.IH [of "?st' n c' w'"] by simp
  qed
  then show ?case by simp
qed

lemma render_accepted_keeps:
  assumes "cfg_ok (wld st)"
  shows "keeps_result (wld st) wld (render_accepted srv opts msg st)"
  unfolding render_accepted_def using assms
proof (rule getUserName_then_keeps)
  fix n c' w' assume ok: "cfg_ok w'"
  let ?st1 = "st\<lparr>out_buf := out_buf st @ render_message (fmt_ts opts) (search opts) (filter_kw opts) n
      (getReactionsString (emoji_list opts) (msg_reactions msg)) msg, session := c', wld := w'\<rparr>"
  have t: "keeps_result w' (\<lambda>(r, uc', w'). w')
      (getThreadReplies srv (msg_thread_ts msg) (filter_kw opts) (search opts) c' w')"
    by (rule getThreadReplies_keeps [OF ok])
  show "keeps_result w' wld (let st1 = ?st1 in
     if msg_thread_ts msg \<noteq> [] then
       (case getThreadReplies srv (msg_thread_ts msg) (filter_kw opts) (search opts) c' w' of
          Inl p \<Rightarrow> Inl p
        | Inr (Inl err, uc2, w2) \<Rightarrow> Inr (st1\<lparr>session := uc2, wld := w2, total_fetched := total_fetched st + 1\<rparr>)
        | Inr (Inr replies, uc2, w2) \<Rightarrow>
            (case render_replies srv opts replies (st1\<lparr>session := uc2, wld := w2\<rparr>) of
               Inl p \<Rightarrow> Inl p
             | Inr st2 \<Rightarrow> Inr (st2\<lparr>total_fetched := total_fetched st + 1\<rparr>)))
     else Inr (st1\<lparr>total_fetched := total_fetched st + 1\<rparr>))"
  proof (cases "getThreadReplies srv (msg_thread_ts msg) (filter_kw opts) (search opts) c' w'")
    case (Inr x)
    obtain r uc2 w2 where x: "x = (r, uc2, w2)" by (cases x)
    from t Inr x have k2: "keeps w' w2" by simp
    then have ok2: "cfg_ok (wld (?st1\<lparr>session := uc2, wld := w2\<rparr>))" by (simp add: keeps_def)
    have rr: "keeps_result w' wld (render_replies srv opts rs (?st1\<lparr>session := uc2, wld := w2\<rparr>))" for rs
    proof -
      from render_replies_keeps [OF ok2, of srv opts rs]
      have "keeps_result w2 wld (render_replies srv opts rs (?st1\<lparr>session := uc2, wld := w2\<rparr>))" by simp
      then show ?thesis by (rule keeps_result_trans [OF k2])
    qed
    show ?thesis
    proof (cases r)
      case (Inl err)
      with Inr x k2 ok show ?thesis by (auto simp: Let_def intro: keeps_frame)
    next
      case (Inr replies)
      with rr [of replies] \<open>getThreadReplies srv (msg_thread_ts msg) (filter_kw opts) (search opts) c' w' = Inr x\<close>
        x ok show ?thesis
        by (auto simp: Let_def keeps_result_def intro: keeps_frame split: sum.splits)
    qed
  qed (use t ok in \<open>auto simp: Let_def intro: keeps_frame\<close>)
qed

lemma process_msgs_keeps:
  "cfg_ok (wld st) \<Longrightarrow> keeps_result (wld st) wld (process_msgs srv opts ms st)"
proof (induction ms arbitrary: st)
  case Nil
  then show ?case by (auto intro: keeps_frame)
next
  case (Cons m ms)
  have r: "keeps_result (wld st) wld (render_accepted srv opts m st)"
    by (rule render_accepted_keeps [OF Cons.prems])
  have "keeps_result (wld st) wld (case render_accepted srv opts m st of Inl p \<Rightarrow> Inl p
      | Inr st' \<Rightarrow> process_msgs srv opts ms st')"
  proof (cases "render_accepted srv opts m st")
    case (Inr st')
    with r have k: "keeps (wld st) (wld st')" by simp
    then have "cfg_ok (wld st')" by (simp add: keeps_def)
    from keeps_result_trans [OF k Cons.IH [OF this]] Inr show ?thesis by simp
  qed (use r in simp)
  with Cons.IH [OF Cons.prems] Cons.prems show ?case
    by (auto intro: keeps_frame)
qed

lemma print_all_disk [simp]: "disk (print_all ms w) = disk w"
  unfolding print_all_def by (induction ms arbitrary: w) simp_all

lemma fetchMessages_keeps:
  assumes "cfg_ok w"
  shows "\<exists>r. fetchMessages srv opts w = Some r \<and> keeps_result w id r"
proof (cases "parse_date_range (date_range opts)")
  case (Inl e)
  with assms show ?thesis by (auto simp: fetchMessages_def intro: keeps_frame)
next
  case (Inr b)
  let ?w1 = "issue (Http_get (history_url (channel_id (cfg w)) (limit opts) b []) (slack_bot_token (cfg w))) w"
  have k1: "keeps w ?w1" and ok1: "cfg_ok (wld ((initial_state w)\<lparr>wld := ?w1\<rparr>))"
    using assms by (auto intro: keeps_frame cfg_ok_frame)
  show ?thesis
  proof (cases "go_new_request_ok (history_url (channel_id (cfg w)) (limit opts) b [])")
    case False
    with Inr show ?thesis by (simp add: fetchMessages_def fetch_loop_first_page)
  next
    case ok: True
    show ?thesis
    proof (cases "history srv (length (sent w)) (history_url (channel_id (cfg w)) (limit opts) b [])")
      case (Body resp)
      have p: "keeps_result ?w1 wld (process_msgs srv opts (rev (messages resp)) ((initial_state w)\<lparr>wld := ?w1\<rparr>))"
        using process_msgs_keeps [OF ok1, of srv opts "rev (messages resp)"] by simp
      have "keeps_result w id (case process_msgs srv opts (rev (messages resp)) ((initial_state w)\<lparr>wld := ?w1\<rparr>) of
          Inl p \<Rightarrow> Inl p | Inr st \<Rightarrow> Inr (print_all (out_buf st) (wld st)))"
      proof (cases "process_msgs srv opts (rev (messages resp)) ((initial_state w)\<lparr>wld := ?w1\<rparr>)")
        case (Inr st')
        with p have "keeps ?w1 (print_all (out_buf st') (wld st'))" by (auto simp: keeps_def cfg_ok_def)
        with k1 Inr show ?thesis by (auto intro: keeps_trans)
      qed (use p in simp)
      with Inr Body ok show ?thesis
        by (auto simp: fetchMessages_def fetch_loop_first_page Let_def split: sum.splits)
    qed (use Inr k1 ok in \<open>auto simp: fetchMessages_def fetch_loop_first_page intro: keeps_trans keeps_frame\<close>)
  qed
qed

text \<open>The commands that do not resolve names leave the config and its file as
  they are, and the only panic they can reach is the \<open>nil\<close> dereference.\<close>

lemma reaction_actions_frame:
  "cfg (snd (addReaction srv ts e w)) = cfg w \<and> disk (snd (addReaction srv ts e w)) = disk w"
  "cfg (snd (removeReaction srv ts e w)) = cfg w \<and> disk (snd (removeReaction srv ts e w)) = disk w"
  by (simp_all add: addReaction_def removeReaction_def post_json_def Let_def
      split: answer.split option.split prod.split)

lemma listEmoji_frame:
  "cfg (snd (listEmoji it w)) = cfg w \<and> disk (snd (listEmoji it w)) = disk w"
proof -
  have f: "cfg (foldl (\<lambda>w k. go_print (g k) w) w0 ks) = cfg w0 \<and>
           disk (foldl (\<lambda>w k. go_print (g k) w) w0 ks) = disk w0" for g w0 ks
    by (induction ks arbitrary: w0) simp_all
  show ?thesis
    by (simp add: listEmoji_def loadEmojiConfig_def Let_def f split: json_file.split)
qed

lemma handleEmoji_frame:
  "cfg (snd (handleEmoji srv it ts e a d w)) = cfg w \<and> disk (snd (handleEmoji srv it ts e a d w)) = disk w"
  by (simp add: handleEmoji_def reaction_actions_frame listEmoji_frame)

lemma message_actions_frame:
  "cfg (snd (sendMessage srv m t w)) = cfg w \<and> disk (snd (sendMessage srv m t w)) = disk w"
  "cfg (snd (updateMessage srv t m w)) = cfg w \<and> disk (snd (updateMessage srv t m w)) = disk w"
  "cfg (snd (deleteMessage srv t w)) = cfg w \<and> disk (snd (deleteMessage srv t w)) = disk w"
  by (simp_all add: sendMessage_def updateMessage_def deleteMessage_def post_json_def Let_def
      split: answer.split)

lemma uploadFile_frame:
  "uploadFile srv up f w = Inr w' \<Longrightarrow> cfg w' = cfg w \<and> disk w' = disk w"
  "uploadFile srv up f w \<noteq> Inl Assign_to_nil_map"
  by (auto simp: uploadFile_def Let_def split: option.splits answer.splits sum.splits prod.splits)

lemma getFile_frame:
  "getFile srv up ce u w = Some (Inr w') \<Longrightarrow> cfg w' = cfg w \<and> disk w' = disk w"
  "getFile srv up ce u w \<noteq> Some (Inl Assign_to_nil_map)"
  by (auto simp: getFile_def write_download_def Let_def split: option.splits answer.splits sum.splits)

lemma show_limit_frame [simp]:
  "cfg (snd (show_limit args lf w)) = cfg w" "disk (snd (show_limit args lf w)) = disk w"
  by (auto simp: show_limit_def split: sum.split option.split)

lemma run_command_keeps:
  assumes "cfg_ok w"
  shows "run_command srv ev cmd w \<noteq> Some (Inl Assign_to_nil_map)
       \<and> (\<forall>w'. run_command srv ev cmd w = Some (Inr w') \<longrightarrow> keeps w w')"
proof (cases cmd)
  case (Cmd_show args d s f lf b)
  obtain lim w1 where sl: "show_limit args lf w = (lim, w1)" by (cases "show_limit args lf w")
  have "cfg_ok w1" using assms show_limit_frame [of args lf w] sl by (auto intro: cfg_ok_frame)
  then obtain r where "fetchMessages srv \<lparr>limit = lim, date_range = d, search = s, filter_kw = f,
      files_only = b, emoji_list = emoji_tab w1, fmt_ts = formatTimestamp (local_zone ev) (far_time ev)\<rparr> w1 = Some r"
    and "keeps_result w1 id r" by (metis fetchMessages_keeps)
  moreover have "keeps w w1" using assms show_limit_frame [of args lf w] sl by (auto intro: keeps_frame)
  ultimately show ?thesis using Cmd_show sl
    by (cases r) (auto simp: run_command_def intro: keeps_trans)
qed (use assms handleEmoji_frame message_actions_frame uploadFile_frame getFile_frame in
     \<open>auto simp: run_command_def Let_def intro: keeps_frame\<close>)

section \<open>Runs\<close>

definition template_cache :: go_map where
  "template_cache = [''U075JAXRYV7'' \<mapsto> ''Bot'']"

text \<open>The invariant between runs: once written, the config file's user cache is
  a map holding the template's entry.\<close>

definition disk_ok :: "world \<Rightarrow> bool" where
  "disk_ok w \<longleftrightarrow>
     (case disk w of Some (Json c) \<Rightarrow> (\<exists>m. user_cache c = Some m \<and> template_cache \<subseteq>\<^sub>m m) | _ \<Rightarrow> True)"

inductive run_step :: "world \<Rightarrow> world \<Rightarrow> bool" where
  run: "slack_main srv ev cmd w = Some (Inr (code, w')) \<Longrightarrow> run_step w w'"

inductive reachable :: "world \<Rightarrow> bool" where
  first: "disk w = None \<Longrightarrow> reachable w"
| step: "reachable w \<Longrightarrow> run_step w w' \<Longrightarrow> reachable w'"

inductive_cases run_stepE: "run_step w w'"

lemma startup_cfg_ok:
  assumes "disk w = Some (Json c)" and "user_cache c \<noteq> None" and "checkAndLoadConfig w = Inr w1"
  shows "cfg_ok w1 \<and> cfg w1 = c"
  using assms
  by (auto simp: checkAndLoadConfig_def loadConfig_def loadEmojiConfig_def cfg_ok_def split: json_file.splits)

lemma startup_exit_disk:
  "disk w \<noteq> None \<Longrightarrow> checkAndLoadConfig w = Inl (code, w') \<Longrightarrow> disk w' = disk w"
  by (auto simp: checkAndLoadConfig_def loadConfig_def loadEmojiConfig_def split: option.splits json_file.splits)

lemma template_disk_ok: "disk w = Some (Json template_config) \<Longrightarrow> disk_ok w"
  by (simp add: disk_ok_def template_config_def template_cache_def)

text \<open>The body of a run after a start-up that loaded a config with a non-\<open>nil\<close>
  cache: the banner and the command keep the within-run invariant.\<close>

lemma run_body_keeps:
  assumes "cfg_ok w1"
  shows "(case cmd of Cmd_rejected e \<Rightarrow> Some (Inr (1::int, println e w2))
           | _ \<Rightarrow> (case run_command srv ev cmd w2 of None \<Rightarrow> None | Some (Inl p) \<Rightarrow> Some (Inl p)
                  | Some (Inr w3) \<Rightarrow> Some (Inr (0, w3)))) = Some (Inr (code, w'))
         \<Longrightarrow> w2 = go_print b w1 \<Longrightarrow> keeps w1 w'"
  using assms run_command_keeps [of "go_print b w1" srv ev cmd]
  by (cases cmd) (auto split: option.splits sum.splits intro: keeps_frame)

lemma run_step_keeps:
  assumes "run_step w w'" and "disk w = Some (Json c)" and "user_cache c \<noteq> None"
  shows "keeps (w\<lparr>cfg := c\<rparr>) w' \<or> disk w' = disk w"
proof -
  obtain srv ev cmd code where run: "slack_main srv ev cmd w = Some (Inr (code, w'))"
    using assms(1) by (blast elim: run_stepE)
  show ?thesis
  proof (cases "checkAndLoadConfig w")
    case (Inl r)
    with run assms(2) show ?thesis
      using startup_exit_disk [of w "fst r" "snd r"] by (auto simp: slack_main_def)
  next
    case (Inr w1)
    from startup_cfg_ok [OF assms(2,3) Inr] have ok: "cfg_ok w1" and c: "cfg w1 = c" by auto
    have "keeps w1 w'"
      using run Inr by (auto simp: slack_main_def Let_def intro: run_body_keeps [OF ok])
    with c show ?thesis by (auto simp: keeps_def cache_le_def)
  qed
qed

lemma run_step_disk_ok:
  assumes "disk_ok w" and "run_step w w'"
  shows "disk_ok w'"
proof -
  obtain srv ev cmd code where run: "slack_main srv ev cmd w = Some (Inr (code, w'))"
    using assms(2) by (blast elim: run_stepE)
  show ?thesis
  proof (cases "disk w")
    case None
    with run show ?thesis
      by (auto simp: slack_main_def checkAndLoadConfig_def intro: template_disk_ok)
  next
    case (Some f)
    show ?thesis
    proof (cases "\<exists>c. f = Json c")
      case True
      then obtain c where Some': "disk w = Some (Json c)" using Some by auto
      with assms(1) obtain m where m: "user_cache c = Some m" and t: "template_cache \<subseteq>\<^sub>m m"
        by (auto simp: disk_ok_def)
      from run_step_keeps [OF assms(2) Some'] m
      have "keeps (w\<lparr>cfg := c\<rparr>) w' \<or> disk w' = disk w" by simp
      then show ?thesis
      proof
        assume "keeps (w\<lparr>cfg := c\<rparr>) w'"
        then obtain m' where "disk w' = Some (Json (cfg w'))" "user_cache (cfg w') = Some m'" "m \<subseteq>\<^sub>m m'"
          using m by (auto simp: keeps_def cfg_ok_def cache_le_def)
        with t show ?thesis by (auto simp: disk_ok_def intro: map_le_trans)
      next
        assume "disk w' = disk w"
        with assms(1) show ?thesis by (simp add: disk_ok_def)
      qed
    next
      case False
      then have "checkAndLoadConfig w = Inl (1, println (''Error loading config file: '' @
          the (fst (loadConfig w))) w)"
        using Some by (cases f) (simp_all add: checkAndLoadConfig_def loadConfig_def)
      with run have "disk w' = disk w" by (auto simp: slack_main_def)
      with Some False show ?thesis by (cases f) (simp_all add: disk_ok_def)
    qed
  qed
qed

lemma reachable_disk_ok: "reachable w \<Longrightarrow> disk_ok w"
proof (induction rule: reachable.induct)
  case (first w)
  then show ?case by (simp add: disk_ok_def)
next
  case (step w w')
  from step.IH step.hyps(2) show ?case by (rule run_step_disk_ok)
qed

lemma run_step_cache_grows:
  assumes "run_step w w'" and "disk w = Some (Json c)" and "user_cache c = Some m"
  shows "\<exists>c' m'. disk w' = Some (Json c') \<and> user_cache c' = Some m' \<and> m \<subseteq>\<^sub>m m'"
  using run_step_keeps [OF assms(1,2)] assms(2,3)
  by (auto simp: keeps_def cfg_ok_def cache_le_def)

abbreviation first_run_world :: world where
  "first_run_world \<equiv> go_print ''Please edit slack.config.json with your configuration.\<newline>''
     (createConfig (println ''Config file not found, creating a new one with template.'' (test_world None)))"

lemma first_run_world_reachable: "reachable first_run_world"
proof (rule reachable.step)
  show "reachable (test_world None)" by (rule reachable.first) simp
  show "run_step (test_world None) first_run_world"
    by (rule run_step.run [of "test_server (\<lambda>_ _. Net_error []) (\<lambda>_ _. Net_error []) (\<lambda>_ _. Net_error [])"
        "\<lparr>iter_fn = \<lambda>_. [], url_parse_fn = \<lambda>_. Inr [], create_err_fn = \<lambda>_. None, local_zone = \<lambda>_. 0, far_time = \<lambda>_. [],
          build_time = ''2024''\<rparr>" Cmd_examples _ 0])
      (simp add: slack_main_def checkAndLoadConfig_def)
qed

section \<open>The program's invariants\<close>

text \<open>C39: in every world reachable by runs from one with no config file, the
  config file, once written, holds a non-\<open>nil\<close> user cache containing the
  template's entry; and a run never removes or changes a name the file had
  cached.\<close>

theorem config_cache_invariant:
  "(reachable w \<longrightarrow> disk_ok w)
   \<and> (run_step w w' \<and> disk w = Some (Json c) \<and> user_cache c = Some m \<longrightarrow>
        (\<exists>c' m'. disk w' = Some (Json c') \<and> user_cache c' = Some m' \<and> m \<subseteq>\<^sub>m m'))"
  using reachable_disk_ok run_step_cache_grows by blast

theorem config_cache_invariant_witness:
  "disk_ok first_run_world \<and> user_cache template_config = Some template_cache"
proof -
  have "disk_ok first_run_world"
    using conjunct1 [OF config_cache_invariant [of first_run_world]] first_run_world_reachable by (rule mp)
  then show ?thesis by (simp add: template_config_def template_cache_def)
qed

text \<open>C40: no run from a reachable world panics on the \<open>nil\<close> map: the write
  of \<open>getUserName\<close> to \<open>config.UserCache\<close> can only panic when the config file
  was edited to drop the cache (compare C9).\<close>

theorem reachable_no_nil_map_panic:
  assumes "reachable w"
  shows "slack_main srv ev cmd w \<noteq> Some (Inl Assign_to_nil_map)"
proof (cases "checkAndLoadConfig w")
  case (Inl r)
  then show ?thesis by (cases r) (simp add: slack_main_def)
next
  case (Inr w1)
  obtain c where c: "disk w = Some (Json c)"
    using Inr by (auto simp: checkAndLoadConfig_def loadConfig_def split: option.splits json_file.splits)
  with reachable_disk_ok [OF assms] have "user_cache c \<noteq> None" by (auto simp: disk_ok_def)
  with startup_cfg_ok [OF c _ Inr] have "cfg_ok w1" by simp
  then have "cfg_ok (go_print (''Slack CLI (build time: '' @ build_time ev @ '')\<newline>'') w1)" by simp
  from run_command_keeps [OF this, of srv ev cmd] Inr show ?thesis
    by (cases cmd) (auto simp: slack_main_def Let_def split: option.splits sum.splits)
qed

theorem reachable_no_nil_map_panic_witness:
  "slack_main (test_server (\<lambda>_ _. Body \<lparr>profile_ok = True, real_name = ''Ann''\<rparr>) (\<lambda>_ _. Net_error [])
       (\<lambda>_ _. Net_error []))
     \<lparr>iter_fn = \<lambda>_. [], url_parse_fn = \<lambda>_. Inr [], create_err_fn = \<lambda>_. None, local_zone = \<lambda>_. 0, far_time = \<lambda>_. [],
      build_time = ''2024''\<rparr> (Cmd_show [] [] [] [] None False) first_run_world
   \<noteq> Some (Inl Assign_to_nil_map)"
  by (rule reachable_no_nil_map_panic [OF first_run_world_reachable])

end
