(* ===== verification/Output_Lines.thy ===== *)
theory Output_Lines
  imports Cli
begin

text \<open>
  The shape of the program's standard output.  Every write of \<open>src/main.go\<close>
  to standard output is a \<open>fmt.Println\<close>, a \<open>fmt.Printf\<close> whose format ends
  in \<open>\n\<close>, or a \<open>fmt.Print\<close> of a line \<open>fetchMessages\<close> buffered, and every
  buffered line is built by a \<open>Sprintf\<close> whose format ends in \<open>\n\<close>.  So the
  output is a sequence of whole lines (\<open>whole_lines\<close>): each write is
  non-empty and ends with a newline, whatever the server sends and whatever
  the names, texts and file names it contains.  The lemmas show that every
  operation keeps the shape, the buffer of \<open>show\<close> included, and that a whole
  run does.
\<close>

definition ends_line :: "string \<Rightarrow> bool" where
  "ends_line s \<longleftrightarrow> s \<noteq> [] \<and> last s = CHR ''\<newline>''"

definition whole_lines :: "string list \<Rightarrow> bool" where
  "whole_lines ls \<longleftrightarrow> list_all ends_line ls"

section \<open>Lines\<close>

lemma ends_line_append [simp]: "ends_line (xs @ ys) \<longleftrightarrow> (if ys = [] then ends_line xs else ends_line ys)"
  by (simp add: ends_line_def)

lemma ends_line_Cons_newline [simp]: "ends_line (c # cs) \<longleftrightarrow> (if cs = [] then c = CHR ''\<newline>'' else ends_line cs)"
  by (simp add: ends_line_def)

lemma whole_lines_simps [simp]:
  "whole_lines []" "whole_lines (xs @ ys) \<longleftrightarrow> whole_lines xs \<and> whole_lines ys"
  "whole_lines (x # xs) \<longleftrightarrow> ends_line x \<and> whole_lines xs"
  by (simp_all add: whole_lines_def)

lemma whole_lines_map: "(\<And>x. ends_line (f x)) \<Longrightarrow> whole_lines (map f xs)"
  by (simp add: whole_lines_def list_all_iff)

lemma text_entries_lines:
  "(\<And>l. ends_line (h l)) \<Longrightarrow> whole_lines (text_entries h t ls)"
  by (simp add: text_entries_def continuation_line_def whole_lines_map split: list.split)

lemma file_entry_line [simp]: "ends_line (file_entry lead s f)"
  by (simp add: file_entry_def Let_def)

lemma header_line_line [simp]: "ends_line (header_line lead ts tm n l e r)"
  by (simp add: header_line_def)

lemma render_message_lines [simp]: "whole_lines (render_message ft s f n r msg)"
  by (simp add: render_message_def text_entries_lines whole_lines_map)

lemma render_reply_lines [simp]: "whole_lines (render_reply ft s n r reply)"
  by (simp add: render_reply_def text_entries_lines whole_lines_map)

lemma whole_lines_effects [simp]:
  "whole_lines (stdout (println s w)) \<longleftrightarrow> whole_lines (stdout w)"
  "whole_lines (stdout (go_print s w)) \<longleftrightarrow> whole_lines (stdout w) \<and> ends_line s"
  by (simp_all add: ends_line_def)

section \<open>Each operation keeps the shape\<close>

lemma getUserName_lines:
  "getUserName srv u c w = Inr (n, c', w') \<Longrightarrow> whole_lines (stdout w) \<Longrightarrow> whole_lines (stdout w')"
  by (auto simp: getUserName_def Let_def split: option.splits answer.splits if_splits sum.splits)

lemma collect_replies_lines:
  "collect_replies srv ts f msgs acc uc w = Inr (rs, uc', w') \<Longrightarrow> whole_lines (stdout w) \<Longrightarrow>
   whole_lines (stdout w')"
proof (induction msgs arbitrary: acc uc w)
  case (Cons m ms)
  then show ?case
    by (auto split: if_splits sum.splits prod.splits dest: getUserName_lines)
qed simp

lemma getThreadReplies_lines:
  "getThreadReplies srv ts f s uc w = Inr (r, uc', w') \<Longrightarrow> whole_lines (stdout w) \<Longrightarrow>
   whole_lines (stdout w')"
  by (auto simp: getThreadReplies_def Let_def split: answer.splits sum.splits prod.splits if_splits
      dest: collect_replies_lines)

text \<open>The state of \<open>show\<close>: the output so far and the buffer.\<close>

lemma render_replies_lines:
  "render_replies srv opts rs st = Inr st' \<Longrightarrow> whole_lines (stdout (wld st)) \<Longrightarrow> whole_lines (out_buf st) \<Longrightarrow>
   whole_lines (stdout (wld st')) \<and> whole_lines (out_buf st')"
proof (induction rs arbitrary: st)
  case (Cons r rs)
  then show ?case by (auto split: sum.splits prod.splits dest: getUserName_lines)
qed simp

lemma render_accepted_lines:
  assumes r: "render_accepted srv opts msg st = Inr st'"
    and a: "whole_lines (stdout (wld st))" and b: "whole_lines (out_buf st)"
  shows "whole_lines (stdout (wld st')) \<and> whole_lines (out_buf st')"
proof -
  from r obtain n uc w where g: "getUserName srv (msg_user msg) (session st) (wld st) = Inr (n, uc, w)"
    by (auto simp: render_accepted_def split: sum.splits)
  from g a have aw: "whole_lines (stdout w)" by (rule getUserName_lines)
  show ?thesis
  proof (cases "msg_thread_ts msg = []")
    case True
    with r g aw b show ?thesis by (auto simp: render_accepted_def Let_def)
  next
    case False
    with r g obtain t uc2 w2 where
      th: "getThreadReplies srv (msg_thread_ts msg) (filter_kw opts) (search opts) uc w = Inr (t, uc2, w2)"
      by (auto simp: render_accepted_def Let_def split: sum.splits)
    from th aw have aw2: "whole_lines (stdout w2)" by (rule getThreadReplies_lines)
    show ?thesis
    proof (cases t)
      case (Inl e)
      with r g False th aw2 b show ?thesis by (auto simp: render_accepted_def Let_def)
    next
      case (Inr replies)
      with r g False th obtain st2 where
        rr: "render_replies srv opts replies
               (st\<lparr>out_buf := out_buf st @ render_message (fmt_ts opts) (search opts) (filter_kw opts) n
                     (getReactionsString (emoji_list opts) (msg_reactions msg)) msg,
                   session := uc2, wld := w2\<rparr>) = Inr st2"
        and st': "st' = st2\<lparr>total_fetched := total_fetched st + 1\<rparr>"
        by (auto simp: render_accepted_def Let_def split: sum.splits)
      from render_replies_lines [OF rr] aw2 b st' show ?thesis by simp
    qed
  qed
qed

lemma process_msgs_lines:
  "process_msgs srv opts ms st = Inr st' \<Longrightarrow> whole_lines (stdout (wld st)) \<Longrightarrow> whole_lines (out_buf st) \<Longrightarrow>
   whole_lines (stdout (wld st')) \<and> whole_lines (out_buf st')"
proof (induction ms arbitrary: st)
  case (Cons m ms)
  then show ?case by (auto split: if_splits sum.splits dest: render_accepted_lines)
qed simp

lemma print_all_lines [simp]:
  "whole_lines (stdout (print_all ms w)) \<longleftrightarrow> whole_lines (stdout w) \<and> whole_lines ms"
  unfolding print_all_def by (induction ms arbitrary: w) auto

lemma fetchMessages_lines:
  assumes "fetchMessages srv opts w = Some (Inr w')" and "whole_lines (stdout w)"
  shows "whole_lines (stdout w')"
proof (cases "parse_date_range (date_range opts)")
  case (Inl e)
  with assms show ?thesis by (auto simp: fetchMessages_def)
next
  case (Inr b)
  let ?w1 = "issue (Http_get (history_url (channel_id (cfg w)) (limit opts) b []) (slack_bot_token (cfg w))) w"
  show ?thesis
  proof (cases "history srv (length (sent w)) (history_url (channel_id (cfg w)) (limit opts) b [])")
    case (Body resp)
    with assms Inr obtain st' where
      p: "process_msgs srv opts (rev (messages resp)) ((initial_state w)\<lparr>wld := ?w1\<rparr>) = Inr st'"
      and w': "w' = print_all (out_buf st') (wld st')"
      by (auto simp: fetchMessages_def fetch_loop_first_page Let_def split: sum.splits if_splits)
    from process_msgs_lines [OF p] assms(2) w' show ?thesis by (simp add: initial_state_def)
  qed (use assms Inr in \<open>auto simp: fetchMessages_def fetch_loop_first_page Let_def split: if_splits\<close>)
qed

lemma action_lines [simp]:
  "whole_lines (stdout (snd (sendMessage srv m t w))) \<longleftrightarrow> whole_lines (stdout w)"
  "whole_lines (stdout (snd (updateMessage srv t m w))) \<longleftrightarrow> whole_lines (stdout w)"
  "whole_lines (stdout (snd (deleteMessage srv t w))) \<longleftrightarrow> whole_lines (stdout w)"
  "whole_lines (stdout (snd (addReaction srv t e w))) \<longleftrightarrow> whole_lines (stdout w)"
  "whole_lines (stdout (snd (removeReaction srv t e w))) \<longleftrightarrow> whole_lines (stdout w)"
  by (simp_all add: sendMessage_def updateMessage_def deleteMessage_def addReaction_def removeReaction_def
      post_json_def Let_def split: answer.split option.split prod.split)

lemma emoji_line_line [simp]: "ends_line (emoji_line n c)"
  by (simp add: emoji_line_def split: sum.split)

lemma listEmoji_lines [simp]:
  "whole_lines (stdout (snd (listEmoji it w))) \<longleftrightarrow> whole_lines (stdout w)"
  by (simp add: listEmoji_def loadEmojiConfig_def Let_def foldl_go_print_stdout whole_lines_map
      split: json_file.split)

lemma handleEmoji_lines [simp]:
  "whole_lines (stdout (snd (handleEmoji srv it ts e a d w))) \<longleftrightarrow> whole_lines (stdout w)"
  by (simp add: handleEmoji_def)

lemma uploadFile_lines:
  "uploadFile srv up f w = Inr w' \<Longrightarrow> whole_lines (stdout w) \<Longrightarrow> whole_lines (stdout w')"
  by (auto simp: uploadFile_def Let_def split: option.splits answer.splits sum.splits prod.splits)

lemma getFile_lines:
  "getFile srv up ce u w = Some (Inr w') \<Longrightarrow> whole_lines (stdout w) \<Longrightarrow> whole_lines (stdout w')"
  by (auto simp: getFile_def write_download_def Let_def split: option.splits answer.splits sum.splits)

lemma show_limit_lines [simp]:
  "whole_lines (stdout (snd (show_limit args lf w))) \<longleftrightarrow> whole_lines (stdout w)"
  by (auto simp: show_limit_def split: sum.split option.split)

lemma run_command_lines:
  assumes "run_command srv ev cmd w = Some (Inr w')" and "whole_lines (stdout w)"
  shows "whole_lines (stdout w')"
proof (cases cmd)
  case (Cmd_show args d s f lf b)
  obtain lim w1 where sl: "show_limit args lf w = (lim, w1)" by (cases "show_limit args lf w")
  with assms(2) have "whole_lines (stdout w1)" using show_limit_lines [of args lf w] by simp
  with assms(1) Cmd_show sl show ?thesis by (auto simp: run_command_def intro: fetchMessages_lines)
qed (use assms in \<open>auto simp: run_command_def Let_def split: if_splits
       intro: uploadFile_lines getFile_lines\<close>)

lemma checkAndLoadConfig_lines:
  "whole_lines (stdout w) \<Longrightarrow> checkAndLoadConfig w = Inl (code, w') \<Longrightarrow> whole_lines (stdout w')"
  "whole_lines (stdout w) \<Longrightarrow> checkAndLoadConfig w = Inr w' \<Longrightarrow> whole_lines (stdout w')"
  by (auto simp: checkAndLoadConfig_def loadConfig_def loadEmojiConfig_def createConfig_def
      split: option.splits json_file.splits)

section \<open>Runs\<close>

text \<open>C17: whatever the server answers, whatever the command line, the
  config and the environment, a run that ends with an exit code leaves the
  standard output a sequence of whole lines if it was one: every write of the
  run is non-empty and ends with a newline.\<close>

theorem run_output_whole_lines:
  assumes "slack_main srv ev cmd w = Some (Inr (code, w'))" and "whole_lines (stdout w)"
  shows "whole_lines (stdout w')"
proof (cases "checkAndLoadConfig w")
  case (Inl r)
  with assms show ?thesis by (cases r) (auto simp: slack_main_def intro: checkAndLoadConfig_lines(1))
next
  case (Inr w1)
  have "whole_lines (stdout w1)" using assms(2) Inr by (rule checkAndLoadConfig_lines(2))
  then have b: "whole_lines (stdout (go_print (''Slack CLI (build time: '' @ build_time ev @ '')\<newline>'') w1))"
    by simp
  show ?thesis
  proof (cases cmd)
    case (Cmd_rejected e)
    with assms(1) Inr b show ?thesis by (auto simp: slack_main_def)
  qed (use assms(1) Inr b in \<open>auto simp: slack_main_def Let_def split: option.splits sum.splits
        intro: run_command_lines\<close>)
qed

theorem run_output_whole_lines_witness:
  "whole_lines (stdout (println examples_text (go_print ''Slack CLI (build time: 2024)\<newline>''
     (((test_world None)\<lparr>disk := Some (Json template_config), emoji_disk := Json Map.empty\<rparr>)
        \<lparr>cfg := template_config, emoji_tab := Map.empty\<rparr>))))"
proof -
  let ?w = "(test_world None)\<lparr>disk := Some (Json template_config), emoji_disk := Json Map.empty\<rparr>"
  have r: "slack_main (test_server (\<lambda>_ _. Net_error []) (\<lambda>_ _. Net_error []) (\<lambda>_ _. Net_error []))
      \<lparr>iter_fn = \<lambda>_. [], url_parse_fn = \<lambda>_. Inr [], create_err_fn = \<lambda>_. None, local_zone = \<lambda>_. 0,
       far_time = \<lambda>_. [], build_time = ''2024''\<rparr> Cmd_examples ?w =
      Some (Inr (0, println examples_text (go_print ''Slack CLI (build time: 2024)\<newline>''
        (?w\<lparr>cfg := template_config, emoji_tab := Map.empty\<rparr>))))"
    by (simp add: slack_main_def startup_loaded run_command_def)
  show ?thesis by (rule run_output_whole_lines [OF r]) simp
qed

end
