(* ===== verification/Spec2Isabelle.thy ===== *)
theory Spec2Isabelle
  imports Program Output_Lines
begin

text \<open>
  A verification library for \<open>slack-cli\<close> (\<open>src/main.go\<close>), a command-line
  client for the Slack web API.  The program is one Go file: a global config and
  emoji table, a name resolver with a two-level cache, the message-history
  command \<open>show\<close> (date range, pagination, filtering, thread expansion,
  rendering), and one-shot action commands.  The history command is the part
  with structure: \<open>fetchMessages\<close> parses the date range, then loops over pages
  of \<open>conversations.history\<close>; for every accepted message it resolves the author
  (\<open>getUserName\<close>), renders the reactions (\<open>getReactionsString\<close>,
  \<open>unicodeToEmoji\<close>), the text and the files, and expands the thread
  (\<open>getThreadReplies\<close>, which resolves each reply's author too); the rendered
  lines are buffered and printed at the end.

  Theories, leaf first:
  \<^item> \<open>Go_Prelude\<close>: the Go library functions the program calls, over byte
    strings (\<open>strings.Split\<close> with a one-byte separator, \<open>Contains\<close>,
    \<open>HasPrefix\<close>, \<open>ReplaceAll\<close> including the empty-needle case that inserts at
    every rune, UTF-8 decoding as \<open>utf8.DecodeRune\<close> does it and encoding,
    \<open>strconv.ParseInt(s, 16, 32)\<close>, \<open>Itoa\<close>), and which of the program's
    API URLs \<open>http.NewRequest\<close> rejects (\<open>go_new_request_ok\<close>: a control byte
    before the first \<open>#\<close>, or a bad \<open>%\<close> escape after it, as \<open>url.Parse\<close>
    checks them), with their shared lemmas.
  \<^item> \<open>Go_Float\<close>: \<open>strconv.ParseFloat(s, 64)\<close> (its \<open>special\<close> and
    \<open>readFloat\<close>, then the correctly rounded \<open>float64\<close>, ties to even, with
    subnormals and overflow) and the \<open>amd64\<close> conversion \<open>int64(f)\<close>, in
    integers (\<open>m * 2 ^ e\<close>) so that it computes.
  \<^item> \<open>Slack_Types\<close>: the Go structs (lines 29--196) as records, the answers of
    the server (\<open>answer\<close>: transport, read and decode errors, or a body), the
    requests, the panic of a write to a nil map, and the state of a run
    (\<open>world\<close>: in-memory config, config file, requests sent, standard output)
    with its effects \<open>issue\<close>, \<open>println\<close>, \<open>saveConfig\<close>.  The server is a
    parameter: each endpoint's answer is a function of the request's position in
    the run and of its URL, so the lemmas hold for every server.
  \<^item> \<open>Name_Resolver\<close>: \<open>getUserName\<close> (lines 198--245): session cache, config
    cache, remote lookup with write-through to both caches and the file, and
    the abstract resolver it refines (\<open>resolve_spec\<close>).
  \<^item> \<open>Reactions\<close>: \<open>getReactionsString\<close> (lines 500--511) and
    \<open>unicodeToEmoji\<close> (lines 838--846).
  \<^item> \<open>Date_Range\<close>: the first part of \<open>fetchMessages\<close> (lines 279--316), with
    \<open>time.Parse("2006-01-02")\<close> in UTC, \<open>Unix\<close> as a day count from the civil
    date, and \<open>AddDate(0, 0, 1)\<close> with its normalisation.
  \<^item> \<open>Timestamp\<close>: \<open>formatTimestamp\<close> (lines 458--462): \<open>ParseFloat\<close>,
    \<open>int64\<close>, \<open>time.Unix\<close> in the local zone and \<open>Format\<close>, with the civil
    calendar as the inverse of the date parser's day count.  The zone's offset
    (\<open>local_zone\<close>) is a choice of the environment, as is the text Go prints
    for a local time outside \<open>[-2 ^ 62, 2 ^ 62)\<close> (\<open>far_time\<close>), where its
    internal representation wraps.
  \<^item> \<open>Formatter\<close>: the rendering of a message and of a reply (lines 377--438).
    The timestamp printer is the parameter \<open>fmt_ts\<close>; \<open>Cli\<close> passes
    \<open>formatTimestamp\<close> of \<open>Timestamp\<close>.
  \<^item> \<open>Threads\<close>: \<open>getThreadReplies\<close> (lines 464--498).
  \<^item> \<open>Paginator\<close>: the loop of \<open>fetchMessages\<close> (lines 318--456): the options
    of \<open>show\<close> (\<open>show_opts\<close>), the loop's locals (\<open>show_state\<close>), the walk of a
    page (\<open>process_msgs\<close>, \<open>render_accepted\<close>, \<open>render_replies\<close>), the loop
    (\<open>fetch_loop\<close>), and the whole command (\<open>fetchMessages\<close>).
  \<^item> \<open>Actions\<close>: \<open>sendMessage\<close>, \<open>addReaction\<close>, \<open>removeReaction\<close>,
    \<open>updateMessage\<close>, \<open>deleteMessage\<close>, \<open>handleError\<close>, \<open>handleEmoji\<close>,
    \<open>listEmoji\<close> and \<open>loadEmojiConfig\<close>; each POST's JSON body is written as
    \<open>json.Marshal\<close> writes a map (keys in byte order), and the order in which
    \<open>range\<close> visits a map is a parameter.
  \<^item> \<open>Download\<close>: \<open>getFile\<close> (lines 617--658) with \<open>path.Base\<close>, \<open>path.Ext\<close>
    and the unique-name loop; \<open>Upload\<close>: \<open>uploadFile\<close> (lines 513--615), three
    requests in sequence.  The working directory is the map \<open>fs\<close> of the world.
  \<^item> \<open>Cli\<close>: \<open>checkAndLoadConfig\<close>, \<open>createConfig\<close>, \<open>loadConfig\<close> (lines
    42--131) and \<open>main\<close> (848--1011): the banner, each \<open>cobra\<close> \<open>Run\<close> closure
    (\<open>run_command\<close>), and the exit code (\<open>slack_main\<close>), from the parsed command
    line.  The choices of the Go runtime and library are the record \<open>env\<close>.
  \<^item> \<open>Program\<close>: runs one after another as an \<open>inductive\<close> step relation
    (\<open>run_step\<close>) and the worlds \<open>reachable\<close> from one with no config file.
  \<^item> \<open>Output_Lines\<close>: the shape of standard output across all the components:
    every write is a non-empty newline-terminated line.

  Error handling follows the code: a panic is the left value of a sum; an error
  the code prints and returns from is a printed line and the state at that
  point; an error the code ignores (the decoding of a thread or of the upload
  URL, the error of \<open>unicodeToEmoji\<close>, the result of every action in \<open>main\<close>) is
  ignored in the model too, and an ignored error that leaves a \<open>nil\<close> pointer
  is the panic \<open>Nil_dereference\<close>.  In particular every \<open>http.NewRequest\<close>
  of the code has its error dropped: \<open>getUserName\<close> (line 212),
  \<open>fetchMessages\<close> (340) and \<open>getThreadReplies\<close> (466) panic on the \<open>nil\<close>
  request when the URL they build is one \<open>url.Parse\<close> rejects, before any
  request is sent; \<open>getFile\<close> and \<open>uploadFile\<close> do the same through the
  parameter \<open>url_parse\<close>, since their URLs are arbitrary.  The within-run
  invariant of \<open>Program\<close> is therefore stated for results that are either
  that panic or a world that keeps it (\<open>keeps_result\<close>).

  Loops and bounds.  The loop over pages may not end for an arbitrary server,
  so it is a \<open>partial_function (option)\<close> and \<open>None\<close> is a run that does not
  end; no fuel is needed, since the lemmas prove that it ends after its first
  request (the condition to go on tests the cursor before it is replaced, and
  the first cursor is empty).  The unique-name loop of \<open>getFile\<close> is a
  \<open>partial_function (option)\<close> too; it ends whenever the directory is finite,
  because its candidates \<open>name(i)ext\<close> are pairwise distinct (decimal printing
  is injective: \<open>Atoi (Itoa i) = i\<close> on \<open>int64\<close>).  Its counter is a \<open>nat\<close>: the
  loop ends within \<open>card (dom fs) + 1\<close> steps, long before Go's \<open>int\<close> would
  wrap.  The calendar's searches for the year and the month (\<open>year_from\<close>,
  \<open>month_from\<close>) are \<open>function\<close>s with a termination measure; the year search
  starts at an estimate that is never above the true year, so it only counts
  up.  The bounds of the timestamp lemma (integer part below \<open>2 ^ 33\<close>, at most
  six fraction digits) cover every Slack timestamp until the year 2242; under
  them the 53-bit rounding of \<open>ParseFloat\<close> never carries into the next
  second.  Every other loop of the code runs over a finite list and is
  structural recursion or a fold.

  Groups of lemmas, in order of importance (claims C1--C40):
  \<^item> \<open>Paginator\<close> (C1--C4): \<open>show\<close> always ends, after exactly one history
    request; for a history URL that can be built it renders the first
    \<open>limit\<close> accepted messages of the page, in chronological order (the walk
    equals "filter, then take \<open>limit\<close>"); it accepts \<open>min limit accepted\<close>
    messages; a transport error prints only the error.
  \<^item> \<open>Name_Resolver\<close> (C5--C11): the cache contract: idempotence, failures not
    cached, agreement of the two caches kept, write-through, the panic on a
    nil config cache, the refinement of the abstract resolver (one table of
    known names, a request only for an unknown ID, a crash when that request
    cannot be built) by \<open>getUserName\<close>, through the view of the two caches as
    one table, and the crash on an ID whose request cannot be built.
  \<^item> \<open>Formatter\<close> (C12--C14): highlighting only adds colour codes; search
    overrides filter; with neither term the empty filter term codes every rune.
  \<^item> \<open>Timestamp\<close> (C15--C16): a Slack timestamp shows the local time of its
    integer second (the float rounding never carries); the bounds of
    \<open>show --date D\<close> print back as the first and last second of \<open>D\<close>.
  \<^item> \<open>Output_Lines\<close> (C17): every run keeps standard output a sequence of
    whole lines.
  \<^item> \<open>Threads\<close> (C18--C19): the replies are the filtered non-parent messages,
    never marked edited; the error paths, the crash on an unbuildable thread
    URL included.
  \<^item> \<open>Reactions\<close> (C20--C21): a code reference renders as its UTF-8 code
    point; a failed decode gives an empty glyph.
  \<^item> \<open>Date_Range\<close> (C22--C24): the bounds of a day, malformed input, and
    the bounds of a range \<open>A:B\<close>, whose end is the last second of \<open>B\<close>
    through \<open>AddDate\<close> as the next calendar day.
  \<^item> \<open>Actions\<close> (C25--C28): message commands report success on API errors;
    the reaction requests; API rejections; the emoji listing is one line per
    entry in any map order (a multiset equality).
  \<^item> \<open>Download\<close> and \<open>Upload\<close> (C29--C34): the download ends, never replaces a
    file, picks the least free index, and cannot print its URL-parse error;
    the upload panics on a transport error and sends its three requests in
    order.
  \<^item> \<open>Cli\<close> (C35--C38): the first run only writes the template; a config file
    that does not open or decode ends the process with exit code 1 and one
    error line; \<open>show N\<close> asks for \<open>N\<close>; the error of \<open>emoji\<close> is dropped and
    the process exits 0.
  \<^item> \<open>Program\<close> (C39--C40): the config file's cache stays non-\<open>nil\<close>, keeps
    the template's entry and only grows over any sequence of runs (rule
    induction over \<open>reachable\<close>), so no run from a reachable world panics on
    the \<open>nil\<close> map.

  Not modelled: the HTTP transport and JSON decoding (the server's answers are
  the parameter; a config file that does not decode is the file's state
  \<open>Bad_json\<close> with the decoder's message); \<open>cobra\<close>'s parsing of the command
  line (a run starts from the parsed command; cobra's rejections are
  \<open>Cmd_rejected\<close>, and its messages on the standard error are not modelled,
  nor is its help text, which \<open>slack\<close> with no subcommand or \<open>--help\<close>
  prints on the standard output);
  a failed \<open>os.Create\<close> or write of the config file when it is saved; the text
  of a local time outside \<open>[-2 ^ 62, 2 ^ 62)\<close> (a parameter); \<open>os.Stat\<close>
  errors other than "not exist" and the directories of a path;
  \<open>time.Sleep\<close>; panics are the end of a process, so the state at a panic is
  not kept.
\<close>

end
